theory Spec2Isabelle
  imports Complex_Main
begin

section \<open>JavaScript values used by the engine\<close>

text \<open>
  A numeric field of a JavaScript object is missing (\<open>undefined\<close>), \<open>null\<close>, or a
  number. A number is an IEEE 754 binary64 value; the model has the integer-valued ones
  (\<open>Num n\<close>, for the integers \<open>n\<close> that binary64 represents), the two infinities and
  \<open>NaN\<close>. The zero \<open>-0\<close> is not told apart from \<open>0\<close>: none of the operations the
  engine applies to these fields (\<open>+\<close>, \<open>-\<close>, \<open>*\<close>, the comparisons, \<open>||\<close>,
  \<open>typeof\<close>, template literals) distinguishes the two. Fractions are outside the model.
\<close>

datatype jsnum = Undefined | Null | NaN | PInf | NInf | Num int

text \<open>
  Rounding of an exact integer result to binary64, to nearest with ties to even. A
  magnitude below \<open>2^53\<close> is kept; above, the 53 leading bits are kept: \<open>ulp n\<close> is the
  distance between the representable numbers around \<open>n\<close>. A result that rounds to
  \<open>2^1024\<close> or more overflows to an infinity.
\<close>

fun ulp :: "nat \<Rightarrow> nat" where
  "ulp n = (if n < 2 ^ 53 then 1 else 2 * ulp (n div 2))"

declare ulp.simps [simp del]

definition nearest :: "nat \<Rightarrow> nat" where
  "nearest n =
     (let u = ulp n; q = n div u; r = n mod u
      in if 2 * r < u \<or> (2 * r = u \<and> even q) then q * u else (q + 1) * u)"

definition binary64 :: "int \<Rightarrow> jsnum" where
  "binary64 x =
     (let m = int (nearest (nat \<bar>x\<bar>))
      in if 2 ^ 1024 \<le> m then (if x < 0 then NInf else PInf)
         else Num (if x < 0 then - m else m))"

text \<open>\<open>!x\<close>: missing, \<open>null\<close>, \<open>NaN\<close> and \<open>0\<close> are falsy. \<open>x || d\<close> for an integer \<open>d\<close>.\<close>

fun js_falsy :: "jsnum \<Rightarrow> bool" where
  "js_falsy (Num n) = (n = 0)"
| "js_falsy PInf = False"
| "js_falsy NInf = False"
| "js_falsy Undefined = True"
| "js_falsy Null = True"
| "js_falsy NaN = True"

definition js_or :: "jsnum \<Rightarrow> int \<Rightarrow> jsnum" where
  "js_or x d = (if js_falsy x then Num d else x)"

text \<open>\<open>typeof x === 'number'\<close>: true of \<open>NaN\<close> and the infinities, false of \<open>null\<close>.\<close>

fun js_is_number :: "jsnum \<Rightarrow> bool" where
  "js_is_number Undefined = False"
| "js_is_number Null = False"
| "js_is_number NaN = True"
| "js_is_number PInf = True"
| "js_is_number NInf = True"
| "js_is_number (Num n) = True"

text \<open>
  \<open>x - d\<close> and \<open>x + d\<close> for an integer \<open>d\<close>. In arithmetic and comparisons
  \<open>undefined\<close> converts to \<open>NaN\<close> and \<open>null\<close> to 0.
\<close>

fun js_sub :: "jsnum \<Rightarrow> int \<Rightarrow> jsnum" where
  "js_sub (Num n) d = binary64 (n - d)"
| "js_sub Null d = binary64 (0 - d)"
| "js_sub PInf d = PInf"
| "js_sub NInf d = NInf"
| "js_sub Undefined d = NaN"
| "js_sub NaN d = NaN"

fun js_add :: "jsnum \<Rightarrow> int \<Rightarrow> jsnum" where
  "js_add (Num n) d = binary64 (n + d)"
| "js_add Null d = binary64 (0 + d)"
| "js_add PInf d = PInf"
| "js_add NInf d = NInf"
| "js_add Undefined d = NaN"
| "js_add NaN d = NaN"

text \<open>\<open>x <= 0\<close>: every comparison with \<open>NaN\<close> or \<open>undefined\<close> is false.\<close>

fun js_le0 :: "jsnum \<Rightarrow> bool" where
  "js_le0 (Num n) = (n \<le> 0)"
| "js_le0 Null = True"
| "js_le0 NInf = True"
| "js_le0 PInf = False"
| "js_le0 Undefined = False"
| "js_le0 NaN = False"

text \<open>\<open>roll >= x\<close> for an integer roll.\<close>

fun js_ge :: "int \<Rightarrow> jsnum \<Rightarrow> bool" where
  "js_ge r (Num n) = (n \<le> r)"
| "js_ge r Null = (0 \<le> r)"
| "js_ge r NInf = True"
| "js_ge r PInf = False"
| "js_ge r Undefined = False"
| "js_ge r NaN = False"

text \<open>\<open>x * k\<close> for an integer \<open>k\<close>.\<close>

fun js_mul :: "jsnum \<Rightarrow> int \<Rightarrow> jsnum" where
  "js_mul (Num n) k = binary64 (n * k)"
| "js_mul Null k = binary64 (0 * k)"
| "js_mul PInf k = (if k = 0 then NaN else if 0 < k then PInf else NInf)"
| "js_mul NInf k = (if k = 0 then NaN else if 0 < k then NInf else PInf)"
| "js_mul Undefined k = NaN"
| "js_mul NaN k = NaN"

text \<open>\<open>x - y\<close> and \<open>x >= y\<close> on two fields, after the conversion to numbers.\<close>

fun to_number :: "jsnum \<Rightarrow> jsnum" where
  "to_number Undefined = NaN"
| "to_number Null = Num 0"
| "to_number NaN = NaN"
| "to_number PInf = PInf"
| "to_number NInf = NInf"
| "to_number (Num n) = Num n"

fun num_minus :: "jsnum \<Rightarrow> jsnum \<Rightarrow> jsnum" where
  "num_minus (Num a) (Num b) = binary64 (a - b)"
| "num_minus (Num a) PInf = NInf"
| "num_minus (Num a) NInf = PInf"
| "num_minus PInf (Num b) = PInf"
| "num_minus PInf NInf = PInf"
| "num_minus NInf (Num b) = NInf"
| "num_minus NInf PInf = NInf"
| "num_minus a b = NaN"

definition js_minus :: "jsnum \<Rightarrow> jsnum \<Rightarrow> jsnum" where
  "js_minus a b = num_minus (to_number a) (to_number b)"

fun num_geq :: "jsnum \<Rightarrow> jsnum \<Rightarrow> bool" where
  "num_geq (Num a) (Num b) = (b \<le> a)"
| "num_geq (Num a) NInf = True"
| "num_geq PInf (Num b) = True"
| "num_geq PInf PInf = True"
| "num_geq PInf NInf = True"
| "num_geq NInf NInf = True"
| "num_geq a b = False"

definition js_geq :: "jsnum \<Rightarrow> jsnum \<Rightarrow> bool" where
  "js_geq a b = num_geq (to_number a) (to_number b)"

section \<open>Decimal rendering of numbers in template literals\<close>

definition digit_char :: "nat \<Rightarrow> char" where
  "digit_char d = char_of (48 + d)"

fun show_nat :: "nat \<Rightarrow> string" where
  "show_nat n = (if n < 10 then [digit_char n] else show_nat (n div 10) @ [digit_char (n mod 10)])"

declare show_nat.simps [simp del]

definition show_int :: "int \<Rightarrow> string" where
  "show_int i = (if i < 0 then CHR ''-'' # show_nat (nat (- i)) else show_nat (nat i))"

definition show_jsnum :: "jsnum \<Rightarrow> string" where
  "show_jsnum x =
     (case x of Num n \<Rightarrow> show_int n | NaN \<Rightarrow> ''NaN'' | Undefined \<Rightarrow> ''undefined''
      | Null \<Rightarrow> ''null'' | PInf \<Rightarrow> ''Infinity'' | NInf \<Rightarrow> ''-Infinity'')"

section \<open>Data model (src/server/models/index.js)\<close>

text \<open>
  A character is a plain object; every field may be missing. \<open>inventory = None\<close> stands
  for a field that is not an array, \<open>status = None\<close> for a missing status.
\<close>

record character =
  c_name :: "string option"
  race :: "string option"
  c_class :: "string option"
  hp :: jsnum
  ac :: jsnum
  abilityScores :: "(string \<times> int) list option"
  savingThrows :: "(string \<times> int) list option"
  experience :: jsnum
  level :: jsnum
  inventory :: "string list option"
  status :: "string option"

text \<open>The object literal \<open>{}\<close>.\<close>

definition empty_character :: character where
  "empty_character = \<lparr>c_name = None, race = None, c_class = None, hp = Undefined, ac = Undefined,
     abilityScores = None, savingThrows = None, experience = Undefined, level = Undefined,
     inventory = None, status = None\<rparr>"

text \<open>\<open>{ id: playerId, name: playerName, character: null }\<close>\<close>

record player =
  p_id :: string
  p_name :: string
  p_character :: "character option"

record monster =
  instanceId :: string
  m_type :: string
  m_hp :: int
  m_ac :: int
  m_status :: string

record campaign =
  cmp_id :: string
  cmp_name :: string
  cmp_description :: string

record game =
  g_id :: string
  players :: "string \<rightharpoonup> player"
  g_log :: "string list"
  g_campaign :: "campaign option"
  monsters :: "string \<rightharpoonup> monster"

text \<open>The module-level \<open>const games = new Map()\<close>, threaded through every operation.\<close>

type_synonym registry = "string \<rightharpoonup> game"

text \<open>
  A thrown exception: \<open>throw new Error(message)\<close>, or the \<open>TypeError\<close> raised by
  reading a property of \<open>null\<close>.
\<close>

datatype error = Error string | TypeError

definition createGame :: "registry \<Rightarrow> string \<Rightarrow> game \<times> registry" where
  "createGame R gid =
     (case R gid of
        Some g \<Rightarrow> (g, R)
      | None \<Rightarrow>
          (let g = \<lparr>g_id = gid, players = Map.empty, g_log = [], g_campaign = None,
                     monsters = Map.empty\<rparr>
           in (g, R(gid \<mapsto> g))))"

definition getGame :: "registry \<Rightarrow> string \<Rightarrow> game option" where
  "getGame R gid = R gid"

definition addPlayer :: "registry \<Rightarrow> string \<Rightarrow> string \<Rightarrow> string \<Rightarrow> player \<times> registry" where
  "addPlayer R gameId playerId playerName =
     (let (g, R1) = createGame R gameId in
      case players g playerId of
        Some p \<Rightarrow> (p, R1)
      | None \<Rightarrow>
          (let p = \<lparr>p_id = playerId, p_name = playerName, p_character = None\<rparr>
           in (p, R1(gameId \<mapsto> g\<lparr>players := (players g)(playerId \<mapsto> p)\<rparr>))))"

definition appendLog :: "registry \<Rightarrow> string \<Rightarrow> string \<Rightarrow> registry" where
  "appendLog R gameId message =
     (let (g, R1) = createGame R gameId in R1(gameId \<mapsto> g\<lparr>g_log := g_log g @ [message]\<rparr>))"

definition getPlayer :: "registry \<Rightarrow> string \<Rightarrow> string \<Rightarrow> player option" where
  "getPlayer R gameId playerId =
     (case R gameId of None \<Rightarrow> None | Some g \<Rightarrow> players g playerId)"

definition getMonster :: "registry \<Rightarrow> string \<Rightarrow> string \<Rightarrow> monster option" where
  "getMonster R gameId iid =
     (case R gameId of None \<Rightarrow> None | Some g \<Rightarrow> monsters g iid)"

section \<open>Dice (src/server/controllers/index.js)\<close>

text \<open>
  \<open>Math.floor(Math.random() * sides) + 1\<close>. The value of \<open>Math.random()\<close> is an
  argument: a rational \<open>r\<close> with \<open>0 \<le> r < 1\<close>. An operation that rolls several dice
  takes the sequence \<open>rs\<close> of the values \<open>Math.random()\<close> will return, in order.
\<close>

definition rollDie :: "int \<Rightarrow> rat \<Rightarrow> int" where
  "rollDie sides r = \<lfloor>r * of_int sides\<rfloor> + 1"

definition joinGame :: "registry \<Rightarrow> string \<Rightarrow> string \<Rightarrow> string \<Rightarrow> player \<times> registry" where
  "joinGame R gameId playerId playerName =
     (let (p, R1) = addPlayer R gameId playerId playerName in
      (p, appendLog R1 gameId (playerName @ '' joined the game.'')))"

section \<open>Combat (src/server/controllers/combat.js)\<close>

record attack_result =
  ar_attacker :: string
  ar_target :: string
  ar_roll :: int
  ar_hit :: bool
  ar_damage :: int
  targetRemainingHp :: "jsnum option"

text \<open>
  A reported value that is nil: \<open>null\<close> (the literal \<open>null\<close> reported for a target
  without character is \<open>None\<close>, a stored \<open>null\<close> is \<open>Some Null\<close>) or
  \<open>undefined\<close>.
\<close>

fun is_nil :: "jsnum option \<Rightarrow> bool" where
  "is_nil None = True"
| "is_nil (Some Undefined) = True"
| "is_nil (Some Null) = True"
| "is_nil (Some NaN) = False"
| "is_nil (Some PInf) = False"
| "is_nil (Some NInf) = False"
| "is_nil (Some (Num n)) = False"

text \<open>
  The damage branch shared by the two player-targeting attacks: materialise
  \<open>{ hp: 0 }\<close> for a player without a character, reset a non-numeric \<open>hp\<close> to 0,
  subtract, and mark the character unconscious at \<open>hp <= 0\<close>.
\<close>

definition hp_only_character :: character where
  "hp_only_character = empty_character\<lparr>hp := Num 0\<rparr>"

definition apply_damage :: "character option \<Rightarrow> int \<Rightarrow> character" where
  "apply_damage co damage =
     (let c0 = (case co of None \<Rightarrow> hp_only_character | Some c \<Rightarrow> c);
          c1 = (if \<not> js_is_number (hp c0) then c0\<lparr>hp := Num 0\<rparr> else c0);
          c2 = c1\<lparr>hp := js_sub (hp c1) damage\<rparr>
      in if js_le0 (hp c2) then c2\<lparr>status := Some ''unconscious''\<rparr> else c2)"

definition attack ::
  "registry \<Rightarrow> string \<Rightarrow> string \<Rightarrow> string \<Rightarrow> (nat \<Rightarrow> rat) \<Rightarrow> (error + attack_result) \<times> registry"
where
  "attack R gameId attackerId targetId rs =
     (case getGame R gameId of
        None \<Rightarrow> (Inl (Error (''Game '' @ gameId @ '' does not exist'')), R)
      | Some g \<Rightarrow>
          (case (players g attackerId, players g targetId) of
             (Some attacker, Some target) \<Rightarrow>
               (let targetAC = (case p_character target of None \<Rightarrow> Num 10
                                | Some c \<Rightarrow> js_or (ac c) 10);
                    attackRoll = rollDie 20 (rs 0);
                    hit = js_ge attackRoll targetAC
                in if hit then
                     (let damage = rollDie 6 (rs 1);
                          c = apply_damage (p_character target) damage;
                          target' = target\<lparr>p_character := Some c\<rparr>;
                          g' = g\<lparr>players := (players g)(targetId \<mapsto> target')\<rparr>
                      in (Inr \<lparr>ar_attacker = p_name attacker, ar_target = p_name target,
                                ar_roll = attackRoll, ar_hit = hit, ar_damage = damage,
                                targetRemainingHp = Some (hp c)\<rparr>,
                          R(gameId \<mapsto> g')))
                   else
                     (Inr \<lparr>ar_attacker = p_name attacker, ar_target = p_name target,
                            ar_roll = attackRoll, ar_hit = hit, ar_damage = 0,
                            targetRemainingHp = map_option hp (p_character target)\<rparr>,
                      R))
           | _ \<Rightarrow> (Inl (Error ''Attacker or target not found in this game''), R)))"


record monster_result =
  mr_attacker :: string
  mr_target :: string
  mr_roll :: int
  mr_hit :: bool
  mr_damage :: int
  monsterRemainingHp :: int
  monsterStatus :: string

text \<open>
  What both monster-damaging paths do to the monster object:
  \<^verbatim>\<open>monster.hp -= damage; if (monster.hp <= 0) { monster.status = 'dead'; game.monsters.delete(id); }\<close>
  \<open>damage_monster\<close> is the object after the two assignments, \<open>store_monster\<close> the
  monster mapping with that object in place, or without the entry when it is dead.
\<close>

definition damage_monster :: "monster \<Rightarrow> int \<Rightarrow> monster" where
  "damage_monster m damage =
     (let m1 = m\<lparr>m_hp := m_hp m - damage\<rparr>
      in if m_hp m1 \<le> 0 then m1\<lparr>m_status := ''dead''\<rparr> else m1)"

definition store_monster ::
  "(string \<rightharpoonup> monster) \<Rightarrow> string \<Rightarrow> monster \<Rightarrow> (string \<rightharpoonup> monster)"
where
  "store_monster ms iid m = (if m_hp m \<le> 0 then ms(iid := None) else ms(iid \<mapsto> m))"

definition attackMonster ::
  "registry \<Rightarrow> string \<Rightarrow> string \<Rightarrow> string \<Rightarrow> (nat \<Rightarrow> rat) \<Rightarrow> (error + monster_result) \<times> registry"
where
  "attackMonster R gameId attackerId monsterInstanceId rs =
     (case getGame R gameId of
        None \<Rightarrow> (Inl (Error (''Game '' @ gameId @ '' does not exist'')), R)
      | Some g \<Rightarrow>
          (case players g attackerId of
             None \<Rightarrow> (Inl (Error ''Attacker not found in this game''), R)
           | Some attacker \<Rightarrow>
               (case monsters g monsterInstanceId of
                  None \<Rightarrow> (Inl (Error ''Target monster not found in this game''), R)
                | Some monster \<Rightarrow>
                    (let targetAC = (if m_ac monster = 0 then 10 else m_ac monster);
                         attackRoll = rollDie 20 (rs 0);
                         hit = (attackRoll \<ge> targetAC)
                     in if hit then
                          (let damage = rollDie 6 (rs 1);
                               m2 = damage_monster monster damage;
                               ms = store_monster (monsters g) monsterInstanceId m2
                           in (Inr \<lparr>mr_attacker = p_name attacker, mr_target = m_type monster,
                                     mr_roll = attackRoll, mr_hit = hit, mr_damage = damage,
                                     monsterRemainingHp = m_hp m2, monsterStatus = m_status m2\<rparr>,
                               R(gameId \<mapsto> g\<lparr>monsters := ms\<rparr>)))
                        else
                          (Inr \<lparr>mr_attacker = p_name attacker, mr_target = m_type monster,
                                 mr_roll = attackRoll, mr_hit = hit, mr_damage = 0,
                                 monsterRemainingHp = m_hp monster,
                                 monsterStatus = m_status monster\<rparr>,
                           R)))))"

section \<open>Dice notation\<close>

text \<open>
  The two regular expressions of the source, \<open>/(\d+)d(\d+)(\+(\d+))?/\<close> and
  \<open>/(\d+)d(\d+)/\<close>, searched by \<open>String.prototype.match\<close>: the leftmost position
  where a match exists, each \<open>\d+\<close> greedy. At a position the first \<open>\d+\<close> takes the
  whole run of digits (a shorter run would be followed by a digit, not by \<open>d\<close>).
\<close>

definition is_digit :: "char \<Rightarrow> bool" where
  "is_digit c = (c \<in> set ''0123456789'')"

text \<open>\<open>(\d+)d(\d+)\<close> anchored at the head of \<open>s\<close>: the two groups and the rest.\<close>

definition dice_at :: "string \<Rightarrow> (string \<times> string \<times> string) option" where
  "dice_at s =
     (let cs = takeWhile is_digit s in
      if cs = [] then None
      else (case dropWhile is_digit s of
              [] \<Rightarrow> None
            | c # r \<Rightarrow>
                if c = CHR ''d'' \<and> takeWhile is_digit r \<noteq> []
                then Some (cs, takeWhile is_digit r, dropWhile is_digit r)
                else None))"

fun dice_search :: "string \<Rightarrow> (string \<times> string \<times> string) option" where
  "dice_search [] = dice_at []"
| "dice_search (c # s) =
     (case dice_at (c # s) of Some m \<Rightarrow> Some m | None \<Rightarrow> dice_search s)"

text \<open>The optional group \<open>(\+(\d+))?\<close> right after a match: group 4 when it takes part.\<close>

definition bonus_group :: "string \<Rightarrow> string option" where
  "bonus_group r =
     (case r of
        [] \<Rightarrow> None
      | c # t \<Rightarrow> if c = CHR ''+'' \<and> takeWhile is_digit t \<noteq> [] then Some (takeWhile is_digit t)
                 else None)"

text \<open>\<open>parseInt(str, 10)\<close> on a non-empty string of digits.\<close>

definition parseInt :: "string \<Rightarrow> nat" where
  "parseInt ds = foldl (\<lambda>a c. 10 * a + (of_char c - 48)) 0 ds"

text \<open>\<open>for (let i = 0; i < count; i++) total += rollDie(sides)\<close>\<close>

primrec roll_loop :: "nat \<Rightarrow> int \<Rightarrow> (nat \<Rightarrow> rat) \<Rightarrow> int \<Rightarrow> int" where
  "roll_loop 0 sides rs acc = acc"
| "roll_loop (Suc n) sides rs acc =
     roll_loop n sides (\<lambda>i. rs (Suc i)) (acc + rollDie sides (rs 0))"

text \<open>
  \<open>rollFromNotation\<close> of spells.js; the second component is the number of values of
  \<open>Math.random()\<close> it has consumed.
\<close>

definition rollFromNotation :: "string \<Rightarrow> (nat \<Rightarrow> rat) \<Rightarrow> int \<times> nat" where
  "rollFromNotation notn rs =
     (case dice_search notn of
        None \<Rightarrow> (0, 0)
      | Some (cs, ss, r) \<Rightarrow>
          (let count = parseInt cs;
               sides = parseInt ss;
               bonus = (case bonus_group r of Some b \<Rightarrow> parseInt b | None \<Rightarrow> 0)
           in (roll_loop count (int sides) rs (int bonus), count)))"

text \<open>The heal computation inlined in \<open>useItem\<close> (items.js): no bonus group.\<close>

definition item_heal_roll :: "string \<Rightarrow> (nat \<Rightarrow> rat) \<Rightarrow> int" where
  "item_heal_roll notn rs =
     (case dice_search notn of
        None \<Rightarrow> 0
      | Some (cs, ss, r) \<Rightarrow> roll_loop (parseInt cs) (int (parseInt ss)) rs 0)"

section \<open>Rule tables (src/server/rules/index.js)\<close>

text \<open>
  The rule tables are JSON files read at start-up and are parameters here. Hit dice and
  hit points of a monster rule are counts (natural numbers); a missing field is \<open>None\<close>.
\<close>

record monster_rule =
  hitPoints :: "nat option"
  hitDice :: "nat option"
  armorClass :: "int option"
  attacks :: "string option list option"

record item_rule =
  i_name :: string
  i_heal :: "string option"
  i_acBonus :: "int option"

record spell =
  sp_name :: string
  sp_heal :: "string option"
  sp_damage :: "string option"

record class_rule =
  hitDie :: "nat option"
  cr_savingThrows :: "(string \<times> int) list option"

record rules =
  classRules :: "string \<rightharpoonup> class_rule"
  spellRules :: "(string \<times> (string \<times> spell list) list) list"
  monsterRules :: "string \<rightharpoonup> monster_rule"
  itemRules :: "string \<rightharpoonup> item_rule"

text \<open>\<open>x || d\<close> on an optional count and on an optional integer.\<close>

definition nat_or :: "nat option \<Rightarrow> nat \<Rightarrow> nat" where
  "nat_or x d = (case x of None \<Rightarrow> d | Some n \<Rightarrow> if n = 0 then d else n)"

definition int_or :: "int option \<Rightarrow> int \<Rightarrow> int" where
  "int_or x d = (case x of None \<Rightarrow> d | Some n \<Rightarrow> if n = 0 then d else n)"

text \<open>A string field is truthy when it is present and not empty; then its value.\<close>

definition truthy_str :: "string option \<Rightarrow> string option" where
  "truthy_str x = (case x of None \<Rightarrow> None | Some s \<Rightarrow> if s = [] then None else Some s)"

text \<open>
  \<open>rule && Array.isArray(rule.attacks) && rule.attacks[0] && rule.attacks[0].damage\<close>:
  the damage notation of the first attack, \<open>'1d6'\<close> otherwise. An attack is given by
  its \<open>damage\<close> field.
\<close>

definition first_attack_damage :: "monster_rule option \<Rightarrow> string" where
  "first_attack_damage rule =
     (case rule of
        None \<Rightarrow> ''1d6''
      | Some r \<Rightarrow>
          (case attacks r of
             Some (d # _) \<Rightarrow> (case truthy_str d of Some n \<Rightarrow> n | None \<Rightarrow> ''1d6'')
           | _ \<Rightarrow> ''1d6''))"

definition monsterAttack ::
  "rules \<Rightarrow> registry \<Rightarrow> string \<Rightarrow> string \<Rightarrow> string \<Rightarrow> (nat \<Rightarrow> rat) \<Rightarrow> (error + attack_result) \<times> registry"
where
  "monsterAttack rl R gameId monsterInstanceId targetPlayerId rs =
     (case getGame R gameId of
        None \<Rightarrow> (Inl (Error (''Game '' @ gameId @ '' does not exist'')), R)
      | Some g \<Rightarrow>
          (case monsters g monsterInstanceId of
             None \<Rightarrow> (Inl (Error ''Monster not found''), R)
           | Some monster \<Rightarrow>
               (case players g targetPlayerId of
                  None \<Rightarrow> (Inl (Error ''Target player not found''), R)
                | Some target \<Rightarrow>
                    (let damageStr = first_attack_damage (monsterRules rl (m_type monster));
                         targetAc = (case p_character target of
                                       None \<Rightarrow> Num 10
                                     | Some c \<Rightarrow> if js_is_number (ac c) then ac c else Num 10);
                         attackRoll = rollDie 20 (rs 0);
                         hit = js_ge attackRoll targetAc
                     in if hit then
                          (let rs1 = (\<lambda>i. rs (Suc i));
                               damage = (case dice_search damageStr of
                                           Some (cs, ss, r) \<Rightarrow>
                                             roll_loop (parseInt cs) (int (parseInt ss)) rs1
                                               (int (case bonus_group r of Some b \<Rightarrow> parseInt b
                                                     | None \<Rightarrow> 0))
                                         | None \<Rightarrow> rollDie 6 (rs1 0));
                               c = apply_damage (p_character target) damage;
                               target' = target\<lparr>p_character := Some c\<rparr>;
                               g' = g\<lparr>players := (players g)(targetPlayerId \<mapsto> target')\<rparr>
                           in (Inr \<lparr>ar_attacker = m_type monster, ar_target = p_name target,
                                     ar_roll = attackRoll, ar_hit = hit, ar_damage = damage,
                                     targetRemainingHp = Some (hp c)\<rparr>,
                               R(gameId \<mapsto> g')))
                        else
                          (Inr \<lparr>ar_attacker = m_type monster, ar_target = p_name target,
                                 ar_roll = attackRoll, ar_hit = hit, ar_damage = 0,
                                 targetRemainingHp = map_option hp (p_character target)\<rparr>,
                           R)))))"


section \<open>Monsters, inventory, characters and experience (models/index.js)\<close>

text \<open>
  The instance id \<open>m_${Date.now()}_${Math.floor(Math.random() * 1000)}\<close> depends on the
  clock; it is an argument.
\<close>

definition models_spawnMonster ::
  "registry \<Rightarrow> string \<Rightarrow> string \<Rightarrow> monster_rule \<Rightarrow> string \<Rightarrow> monster \<times> registry"
where
  "models_spawnMonster R gameId monsterType monsterStats iid =
     (let (g, R1) = createGame R gameId;
          monster = \<lparr>instanceId = iid, m_type = monsterType,
                     m_hp = int (nat_or (hitPoints monsterStats)
                                   (nat_or (hitDice monsterStats) 1 * 4)),
                     m_ac = int_or (armorClass monsterStats) 10,
                     m_status = ''alive''\<rparr>
      in (monster, R1(gameId \<mapsto> g\<lparr>monsters := (monsters g)(iid \<mapsto> monster)\<rparr>)))"

definition addItemToPlayer ::
  "registry \<Rightarrow> string \<Rightarrow> string \<Rightarrow> string \<Rightarrow> player option \<times> registry"
where
  "addItemToPlayer R gameId playerId itemId =
     (let (g, R1) = createGame R gameId in
      case players g playerId of
        None \<Rightarrow> (None, R1)
      | Some p \<Rightarrow>
          (let c0 = (case p_character p of None \<Rightarrow> empty_character | Some c \<Rightarrow> c);
               items = (case inventory c0 of None \<Rightarrow> [] | Some xs \<Rightarrow> xs);
               p' = p\<lparr>p_character := Some (c0\<lparr>inventory := Some (items @ [itemId])\<rparr>)\<rparr>
           in (Some p', R1(gameId \<mapsto> g\<lparr>players := (players g)(playerId \<mapsto> p')\<rparr>))))"

text \<open>\<open>indexOf\<close> and \<open>splice(index, 1)\<close>: the first occurrence is removed.\<close>

definition removeItemFromPlayer ::
  "registry \<Rightarrow> string \<Rightarrow> string \<Rightarrow> string \<Rightarrow> string option \<times> registry"
where
  "removeItemFromPlayer R gameId playerId itemId =
     (case R gameId of
        None \<Rightarrow> (None, R)
      | Some g \<Rightarrow>
          (case players g playerId of
             None \<Rightarrow> (None, R)
           | Some p \<Rightarrow>
               (case p_character p of
                  None \<Rightarrow> (None, R)
                | Some c \<Rightarrow>
                    (case inventory c of
                       None \<Rightarrow> (None, R)
                     | Some items \<Rightarrow>
                         if itemId \<notin> set items then (None, R)
                         else
                           (let p' = p\<lparr>p_character :=
                                         Some (c\<lparr>inventory := Some (remove1 itemId items)\<rparr>)\<rparr>
                            in (Some itemId,
                                R(gameId \<mapsto> g\<lparr>players := (players g)(playerId \<mapsto> p')\<rparr>)))))))"

text \<open>
  \<open>{ ...player.character, ...character }\<close>: a field the update supplies replaces the
  stored one, any other stored field is kept.
\<close>

definition or_num :: "jsnum \<Rightarrow> jsnum \<Rightarrow> jsnum" where
  "or_num new old = (if new = Undefined then old else new)"

definition or_opt :: "'a option \<Rightarrow> 'a option \<Rightarrow> 'a option" where
  "or_opt new old = (case new of None \<Rightarrow> old | Some v \<Rightarrow> Some v)"

definition spread :: "character \<Rightarrow> character \<Rightarrow> character" where
  "spread old new =
     \<lparr>c_name = or_opt (c_name new) (c_name old), race = or_opt (race new) (race old),
      c_class = or_opt (c_class new) (c_class old), hp = or_num (hp new) (hp old),
      ac = or_num (ac new) (ac old),
      abilityScores = or_opt (abilityScores new) (abilityScores old),
      savingThrows = or_opt (savingThrows new) (savingThrows old),
      experience = or_num (experience new) (experience old),
      level = or_num (level new) (level old),
      inventory = or_opt (inventory new) (inventory old),
      status = or_opt (status new) (status old)\<rparr>"

definition setCharacter :: "registry \<Rightarrow> string \<Rightarrow> string \<Rightarrow> character \<Rightarrow> player \<times> registry" where
  "setCharacter R gameId playerId ch =
     (let (g, R1) = createGame R gameId;
          p = (case players g playerId of
                 None \<Rightarrow> \<lparr>p_id = playerId, p_name = ''Unknown'', p_character = None\<rparr>
               | Some p \<Rightarrow> p);
          c0 = (case p_character p of None \<Rightarrow> empty_character | Some c \<Rightarrow> c);
          c1 = spread c0 ch;
          c2 = (if experience c1 = Undefined then c1\<lparr>experience := Num 0\<rparr> else c1);
          c3 = (if level c2 = Undefined then c2\<lparr>level := Num 1\<rparr> else c2);
          p' = p\<lparr>p_character := Some c3\<rparr>
      in (p', R1(gameId \<mapsto> g\<lparr>players := (players g)(playerId \<mapsto> p')\<rparr>)))"

text \<open>
  The leveling loop of \<open>addExperience\<close>, on the character and the game's log:
  \<^verbatim>\<open>while (experience >= level * 1000) { experience -= level * 1000; level += 1; appendLog(...) }\<close>
\<close>

definition level_cond :: "character \<Rightarrow> bool" where
  "level_cond c = js_geq (experience c) (js_mul (level c) 1000)"

text \<open>\<open>`${player.name} has reached level ${player.character.level}!`\<close>\<close>

definition level_up_message :: "string \<Rightarrow> jsnum \<Rightarrow> string" where
  "level_up_message nm l = nm @ '' has reached level '' @ show_jsnum l @ ''!''"

definition level_step :: "string \<Rightarrow> character \<times> string list \<Rightarrow> character \<times> string list" where
  "level_step nm s =
     (let c = fst s;
          c1 = c\<lparr>experience := js_minus (experience c) (js_mul (level c) 1000)\<rparr>;
          c2 = c1\<lparr>level := js_add (level c1) 1\<rparr>
      in (c2, snd s @ [level_up_message nm (level c2)]))"

partial_function (option) level_loop ::
  "string \<Rightarrow> character \<times> string list \<Rightarrow> (character \<times> string list) option"
where
  "level_loop nm s = (if level_cond (fst s) then level_loop nm (level_step nm s) else Some s)"

text \<open>\<open>None\<close> is a loop that does not return; \<open>Some (null, R)\<close> the early \<open>return null\<close>.\<close>

definition addExperience ::
  "registry \<Rightarrow> string \<Rightarrow> string \<Rightarrow> int \<Rightarrow> (player option \<times> registry) option"
where
  "addExperience R gameId playerId xp =
     (case R gameId of
        None \<Rightarrow> Some (None, R)
      | Some g \<Rightarrow>
          (case players g playerId of
             None \<Rightarrow> Some (None, R)
           | Some p \<Rightarrow>
               (case p_character p of
                  None \<Rightarrow> Some (None, R)
                | Some c \<Rightarrow>
                    (case level_loop (p_name p)
                            (c\<lparr>experience := js_add (js_or (experience c) 0) xp\<rparr>, g_log g) of
                       None \<Rightarrow> None
                     | Some (c', lg) \<Rightarrow>
                         (let p' = p\<lparr>p_character := Some c'\<rparr>
                          in Some (Some p',
                                   R(gameId \<mapsto> g\<lparr>players := (players g)(playerId \<mapsto> p'),
                                                   g_log := lg\<rparr>)))))))"


section \<open>Monster and item controllers (controllers/monster.js, controllers/items.js)\<close>

definition spawnMonster ::
  "rules \<Rightarrow> registry \<Rightarrow> string \<Rightarrow> string \<Rightarrow> string \<Rightarrow> (error + monster) \<times> registry"
where
  "spawnMonster rl R gameId monsterType iid =
     (case monsterRules rl monsterType of
        None \<Rightarrow> (Inl (Error (''Unknown monster type: '' @ monsterType)), R)
      | Some stats \<Rightarrow>
          (let (m, R1) = models_spawnMonster R gameId monsterType stats iid
           in (Inr m, appendLog R1 gameId (''A '' @ monsterType @ '' appears!''))))"

text \<open>
  \<open>giveItem\<close> reads \<open>player.name\<close> of what \<open>addItemToPlayer\<close> returned; on
  \<open>null\<close> that read raises a \<open>TypeError\<close>, after \<open>addItemToPlayer\<close> has run.
\<close>

definition giveItem ::
  "rules \<Rightarrow> registry \<Rightarrow> string \<Rightarrow> string \<Rightarrow> string \<Rightarrow> (error + player) \<times> registry"
where
  "giveItem rl R gameId playerId itemId =
     (case itemRules rl itemId of
        None \<Rightarrow> (Inl (Error (''Unknown item: '' @ itemId)), R)
      | Some item \<Rightarrow>
          (case addItemToPlayer R gameId playerId itemId of
             (None, R1) \<Rightarrow> (Inl TypeError, R1)
           | (Some p, R1) \<Rightarrow>
               (Inr p, appendLog R1 gameId (p_name p @ '' obtained '' @ i_name item @ ''.''))))"

record use_result =
  ur_playerId :: string
  ur_itemId :: string
  ur_message :: string

text \<open>The effect of a used item on the character, with the message.\<close>

definition item_effect ::
  "item_rule \<Rightarrow> string \<Rightarrow> character \<Rightarrow> (nat \<Rightarrow> rat) \<Rightarrow> character \<times> string"
where
  "item_effect item pname c rs =
     (case truthy_str (i_heal item) of
        Some notn \<Rightarrow>
          (let heal = item_heal_roll notn rs
           in (c\<lparr>hp := js_add (js_or (hp c) 0) heal\<rparr>,
               pname @ '' drinks a '' @ i_name item @ '' and heals '' @ show_int heal @ '' HP.''))
      | None \<Rightarrow>
          (if int_or (i_acBonus item) 0 \<noteq> 0 then
             (let b = int_or (i_acBonus item) 0;
                  c1 = (if \<not> js_is_number (ac c) then c\<lparr>ac := Num 10\<rparr> else c)
              in (c1\<lparr>ac := js_add (ac c1) b\<rparr>,
                  pname @ '' equips a '' @ i_name item @ '' and gains +'' @ show_int b
                    @ '' armour class.''))
           else (c, pname @ '' uses '' @ i_name item @ '', but nothing happens.'')))"

text \<open>\<open>!removed\<close> holds of \<open>undefined\<close> and of the empty string.\<close>

definition useItem ::
  "rules \<Rightarrow> registry \<Rightarrow> string \<Rightarrow> string \<Rightarrow> string \<Rightarrow> (nat \<Rightarrow> rat) \<Rightarrow> (error + use_result) \<times> registry"
where
  "useItem rl R gameId playerId itemId rs =
     (case itemRules rl itemId of
        None \<Rightarrow> (Inl (Error (''Unknown item: '' @ itemId)), R)
      | Some item \<Rightarrow>
          (let (removed, R1) = removeItemFromPlayer R gameId playerId itemId in
           if truthy_str removed = None then (Inl (Error ''Item not in inventory''), R1)
           else
             (case getPlayer R1 gameId playerId of
                None \<Rightarrow> (Inl (Error ''Player or character missing''), R1)
              | Some p \<Rightarrow>
                  (case p_character p of
                     None \<Rightarrow> (Inl (Error ''Player or character missing''), R1)
                   | Some c \<Rightarrow>
                       (let (c', message) = item_effect item (p_name p) c rs;
                            p' = p\<lparr>p_character := Some c'\<rparr>;
                            R2 = (case R1 gameId of
                                    None \<Rightarrow> R1
                                  | Some g \<Rightarrow>
                                      R1(gameId \<mapsto> g\<lparr>players := (players g)(playerId \<mapsto> p')\<rparr>))
                        in (Inr \<lparr>ur_playerId = playerId, ur_itemId = itemId,
                                  ur_message = message\<rparr>,
                            appendLog R2 gameId message))))))"

section \<open>Spells (controllers/spells.js)\<close>

text \<open>\<open>toLowerCase\<close> on ASCII letters.\<close>

definition lower_char :: "char \<Rightarrow> char" where
  "lower_char c =
     (if c \<in> set ''ABCDEFGHIJKLMNOPQRSTUVWXYZ'' then char_of (of_char c + (32::nat)) else c)"

definition toLowerCase :: "string \<Rightarrow> string" where
  "toLowerCase s = map lower_char s"

text \<open>
  The three nested \<open>for ... of Object.values(...)\<close> loops with their early return: the
  first spell, in enumeration order, whose lowered name is the lowered argument.
\<close>

definition findSpellByName :: "rules \<Rightarrow> string \<Rightarrow> spell option" where
  "findSpellByName rl name =
     find (\<lambda>sp. toLowerCase (sp_name sp) = toLowerCase name)
       (concat (map snd (concat (map snd (spellRules rl)))))"

datatype spell_target = PlayerTarget player | MonsterTarget monster

text \<open>
  The result object of a cast: \<open>{caster, target, heal}\<close>,
  \<open>{caster, target, roll, hit, damage}\<close> or \<open>{caster, spell}\<close>.
\<close>

datatype spell_result =
  HealResult string string int
| DamageResult string string int bool int
| InertResult string string

definition spell_target_name :: "spell_target \<Rightarrow> string" where
  "spell_target_name t = (case t of PlayerTarget p \<Rightarrow> p_name p | MonsterTarget m \<Rightarrow> m_type m)"

text \<open>The damage spell's to-hit check against the target's armour class.\<close>

definition spell_hits :: "spell_target \<Rightarrow> int \<Rightarrow> bool" where
  "spell_hits t attackRoll =
     (case t of
        PlayerTarget p \<Rightarrow>
          js_ge attackRoll
            (case p_character p of
               None \<Rightarrow> Num 10
             | Some c \<Rightarrow> if js_is_number (ac c) then ac c else Num 10)
      | MonsterTarget m \<Rightarrow> attackRoll \<ge> (if m_ac m = 0 then 10 else m_ac m))"

text \<open>Applying the damage of a spell that hit, to the game.\<close>

definition spell_apply_damage :: "game \<Rightarrow> spell_target \<Rightarrow> string \<Rightarrow> int \<Rightarrow> game" where
  "spell_apply_damage g t targetId damageDealt =
     (case t of
        PlayerTarget p \<Rightarrow>
          (let c0 = (case p_character p of None \<Rightarrow> hp_only_character | Some c \<Rightarrow> c);
               c1 = c0\<lparr>hp := js_sub (hp c0) damageDealt\<rparr>;
               c2 = (if js_le0 (hp c1) then c1\<lparr>status := Some ''unconscious''\<rparr> else c1)
           in g\<lparr>players := (players g)(targetId \<mapsto> p\<lparr>p_character := Some c2\<rparr>)\<rparr>)
      | MonsterTarget m \<Rightarrow>
          g\<lparr>monsters := store_monster (monsters g) targetId (damage_monster m damageDealt)\<rparr>)"

definition castSpell ::
  "rules \<Rightarrow> registry \<Rightarrow> string \<Rightarrow> string \<Rightarrow> string \<Rightarrow> string \<Rightarrow> string \<Rightarrow> (nat \<Rightarrow> rat)
     \<Rightarrow> (error + string \<times> spell_result) \<times> registry"
where
  "castSpell rl R gameId casterId spellName targetType targetId rs =
     (case findSpellByName rl spellName of
        None \<Rightarrow> (Inl (Error (''Unknown spell: '' @ spellName)), R)
      | Some spell \<Rightarrow>
     (case getGame R gameId of
        None \<Rightarrow> (Inl (Error (''Game '' @ gameId @ '' does not exist'')), R)
      | Some g \<Rightarrow>
     (case players g casterId of
        None \<Rightarrow> (Inl (Error ''Caster not found''), R)
      | Some caster \<Rightarrow>
     (case (if targetType = ''player'' then map_option PlayerTarget (players g targetId)
            else if targetType = ''monster'' then map_option MonsterTarget (monsters g targetId)
            else None) of
        None \<Rightarrow> (Inl (Error ''Target not found''), R)
      | Some target \<Rightarrow>
     (case truthy_str (sp_heal spell) of
        Some notn \<Rightarrow>
          (let healAmount = fst (rollFromNotation notn rs) in
           case target of
             MonsterTarget m \<Rightarrow> (Inl (Error ''Healing spells can only target players''), R)
           | PlayerTarget p \<Rightarrow>
               (let c0 = (case p_character p of None \<Rightarrow> hp_only_character | Some c \<Rightarrow> c);
                    c1 = c0\<lparr>hp := js_add (js_or (hp c0) 0) healAmount\<rparr>;
                    g' = g\<lparr>players := (players g)(targetId \<mapsto> p\<lparr>p_character := Some c1\<rparr>)\<rparr>;
                    message = p_name caster @ '' casts '' @ sp_name spell @ '' on '' @ p_name p
                                @ '', healing '' @ show_int healAmount @ '' HP.''
                in (Inr (message, HealResult (p_name caster) (p_name p) healAmount),
                    appendLog (R(gameId \<mapsto> g')) gameId message)))
      | None \<Rightarrow>
     (case truthy_str (sp_damage spell) of
        Some notn \<Rightarrow>
          (let (damageAmount, used) = rollFromNotation notn rs;
               attackRoll = rollDie 20 (rs used);
               hit = spell_hits target attackRoll;
               damageDealt = (if hit then damageAmount else 0);
               g' = (if hit then spell_apply_damage g target targetId damageDealt else g);
               targetName = spell_target_name target;
               message =
                 (if hit then p_name caster @ '' casts '' @ sp_name spell @ '' and hits ''
                                @ targetName @ '' for '' @ show_int damageDealt @ '' damage.''
                  else p_name caster @ '' casts '' @ sp_name spell @ '' but misses ''
                         @ targetName @ ''.'')
           in (Inr (message, DamageResult (p_name caster) targetName attackRoll hit damageDealt),
               appendLog (if hit then R(gameId \<mapsto> g') else R) gameId message))
      | None \<Rightarrow>
          (let message = p_name caster @ '' casts '' @ sp_name spell @ '', but nothing happens.''
           in (Inr (message, InertResult (p_name caster) (sp_name spell)),
               appendLog R gameId message))))))))"


section \<open>Character creation and campaigns (controllers/index.js)\<close>

definition default_abilityScores :: "(string \<times> int) list" where
  "default_abilityScores =
     [(''str'', 10), (''dex'', 10), (''con'', 10), (''int'', 10), (''wis'', 10), (''cha'', 10)]"

definition default_savingThrows :: "(string \<times> int) list" where
  "default_savingThrows = [(''deathRay'', 12), (''magic'', 12), (''paralysis'', 12)]"

text \<open>\<open>s || d\<close> on an optional string.\<close>

definition str_or :: "string option \<Rightarrow> string \<Rightarrow> string" where
  "str_or x d = (case truthy_str x of None \<Rightarrow> d | Some s \<Rightarrow> s)"

text \<open>The character object after \<open>createCharacter\<close> has filled it in, before the merge.\<close>

definition prepare_character :: "rules \<Rightarrow> character \<Rightarrow> rat \<Rightarrow> character" where
  "prepare_character rl ch r =
     (let rule = classRules rl (toLowerCase (str_or (c_class ch) []));
          die = (case rule of None \<Rightarrow> 0 | Some cr \<Rightarrow> nat_or (hitDie cr) 0);
          c1 = (if die \<noteq> 0 then ch\<lparr>hp := Num (rollDie (int die) r)\<rparr> else ch);
          c2 = (if js_falsy (ac c1) then c1\<lparr>ac := Num 10\<rparr> else c1);
          c3 = (if abilityScores c2 = None then c2\<lparr>abilityScores := Some default_abilityScores\<rparr>
                else c2)
      in case (case rule of None \<Rightarrow> None | Some cr \<Rightarrow> cr_savingThrows cr) of
           Some st \<Rightarrow> c3\<lparr>savingThrows := Some st\<rparr>
         | None \<Rightarrow> if savingThrows c3 = None then c3\<lparr>savingThrows := Some default_savingThrows\<rparr>
                   else c3)"

definition createCharacter ::
  "rules \<Rightarrow> registry \<Rightarrow> string \<Rightarrow> string \<Rightarrow> character \<Rightarrow> rat \<Rightarrow> player \<times> registry"
where
  "createCharacter rl R gameId playerId ch r =
     (let c = prepare_character rl ch r;
          (p, R1) = setCharacter R gameId playerId c;
          hpText = (if js_falsy (hp c) then ''?'' else show_jsnum (hp c))
      in (p, appendLog R1 gameId
               (p_name p @ '' created a character: ''
                  @ (case c_name c of None \<Rightarrow> ''undefined'' | Some n \<Rightarrow> n)
                  @ '' ('' @ str_or (race c) ''unknown race'' @ '' ''
                  @ str_or (c_class c) ''unknown class'' @ '') with '' @ hpText @ '' HP.'')))"

text \<open>\<open>getCampaign\<close> reads a file; the campaigns on disk are the parameter \<open>campaigns\<close>.\<close>

definition selectCampaign ::
  "(string \<rightharpoonup> campaign) \<Rightarrow> registry \<Rightarrow> string \<Rightarrow> string \<Rightarrow> (error + campaign) \<times> registry"
where
  "selectCampaign campaigns R gameId campaignId =
     (case campaigns campaignId of
        None \<Rightarrow> (Inl (Error (''Campaign '' @ campaignId @ '' does not exist'')), R)
      | Some cmp \<Rightarrow>
          (let (g, R1) = createGame R gameId;
               R2 = R1(gameId \<mapsto> g\<lparr>g_campaign := Some cmp\<rparr>)
           in (Inr cmp, appendLog R2 gameId (''Campaign '' @ [CHR 0x27] @ cmp_name cmp
                                              @ [CHR 0x27] @ '' selected.''))))"

section \<open>Dialogue (controllers/dialogue.js)\<close>

record reward =
  xp :: "int option"
  r_items :: "string list option"

record dlg_option =
  o_text :: string
  o_next :: "string option"
  o_reward :: "reward option"

record node =
  n_text :: string
  n_options :: "dlg_option list option"

record conversation =
  cv_id :: string
  cv_start :: string
  cv_nodes :: "string \<rightharpoonup> node"

record dialogue_file =
  df_id :: string
  dialogues :: "conversation list option"

record node_reply =
  nr_dialogueId :: string
  nr_conversationId :: string
  nr_nodeId :: string
  nr_text :: string
  nr_options :: "string list"

datatype choice_reply = End | Next node_reply

definition find_conversation :: "dialogue_file \<Rightarrow> string \<Rightarrow> conversation option" where
  "find_conversation file conversationId =
     find (\<lambda>d. cv_id d = conversationId) (case dialogues file of None \<Rightarrow> [] | Some ds \<Rightarrow> ds)"

definition option_texts :: "node \<Rightarrow> string list" where
  "option_texts n = map o_text (case n_options n of None \<Rightarrow> [] | Some os \<Rightarrow> os)"

definition startDialogue ::
  "(string \<rightharpoonup> dialogue_file) \<Rightarrow> string \<Rightarrow> string \<Rightarrow> string \<Rightarrow> string \<Rightarrow> error + node_reply"
where
  "startDialogue getDialogue gameId playerId dialogueId conversationId =
     (case getDialogue dialogueId of
        None \<Rightarrow> Inl (Error (''Dialogue file '' @ dialogueId @ '' not found''))
      | Some file \<Rightarrow>
          (case find_conversation file conversationId of
             None \<Rightarrow> Inl (Error (''Dialogue '' @ conversationId @ '' not found in file '' @ dialogueId))
           | Some conv \<Rightarrow>
               (case cv_nodes conv (cv_start conv) of
                  None \<Rightarrow> Inl (Error (''Start node '' @ cv_start conv @ '' not found in dialogue ''
                                        @ conversationId))
                | Some n \<Rightarrow>
                    Inr \<lparr>nr_dialogueId = dialogueId, nr_conversationId = conversationId,
                         nr_nodeId = cv_start conv, nr_text = n_text n,
                         nr_options = option_texts n\<rparr>)))"

text \<open>
  The reward of a chosen option. Reading \<open>.name\<close> of \<open>models.getPlayer(...)\<close> raises a
  \<open>TypeError\<close> when the player is unknown.
\<close>

definition reward_xp :: "registry \<Rightarrow> string \<Rightarrow> string \<Rightarrow> int \<Rightarrow> (error option \<times> registry) option" where
  "reward_xp R gameId playerId x =
     (case addExperience R gameId playerId x of
        None \<Rightarrow> None
      | Some (_, R1) \<Rightarrow>
          (case getPlayer R1 gameId playerId of
             None \<Rightarrow> Some (Some TypeError, R1)
           | Some p \<Rightarrow>
               Some (None, appendLog R1 gameId (p_name p @ '' gained '' @ show_int x @ '' XP.''))))"

fun reward_items :: "registry \<Rightarrow> string \<Rightarrow> string \<Rightarrow> string list \<Rightarrow> error option \<times> registry" where
  "reward_items R gameId playerId [] = (None, R)"
| "reward_items R gameId playerId (item # rest) =
     (let R1 = snd (addItemToPlayer R gameId playerId item) in
      case getPlayer R1 gameId playerId of
        None \<Rightarrow> (Some TypeError, R1)
      | Some p \<Rightarrow>
          reward_items (appendLog R1 gameId (p_name p @ '' received item '' @ item @ ''.''))
            gameId playerId rest)"

definition apply_reward ::
  "registry \<Rightarrow> string \<Rightarrow> string \<Rightarrow> reward option \<Rightarrow> (error option \<times> registry) option"
where
  "apply_reward R gameId playerId rw =
     (case rw of
        None \<Rightarrow> Some (None, R)
      | Some w \<Rightarrow>
          (case (if int_or (xp w) 0 \<noteq> 0 then reward_xp R gameId playerId (int_or (xp w) 0)
                 else Some (None, R)) of
             None \<Rightarrow> None
           | Some (Some e, R1) \<Rightarrow> Some (Some e, R1)
           | Some (None, R1) \<Rightarrow>
               (case r_items w of
                  None \<Rightarrow> Some (None, R1)
                | Some items \<Rightarrow> Some (reward_items R1 gameId playerId items))))"

definition chooseDialogueOption ::
  "(string \<rightharpoonup> dialogue_file) \<Rightarrow> registry \<Rightarrow> string \<Rightarrow> string \<Rightarrow> string \<Rightarrow> string \<Rightarrow> string \<Rightarrow> int
     \<Rightarrow> ((error + choice_reply) \<times> registry) option"
where
  "chooseDialogueOption getDialogue R gameId playerId dialogueId conversationId nodeId optionIndex =
     (case getDialogue dialogueId of
        None \<Rightarrow> Some (Inl (Error (''Dialogue file '' @ dialogueId @ '' not found'')), R)
      | Some file \<Rightarrow>
     (case find_conversation file conversationId of
        None \<Rightarrow> Some (Inl (Error (''Dialogue '' @ conversationId @ '' not found in file ''
                                   @ dialogueId)), R)
      | Some conv \<Rightarrow>
     (case cv_nodes conv nodeId of
        None \<Rightarrow> Some (Inl (Error (''Node '' @ nodeId @ '' not found in dialogue ''
                                   @ conversationId)), R)
      | Some n \<Rightarrow>
     (let options = (case n_options n of None \<Rightarrow> [] | Some os \<Rightarrow> os) in
      if optionIndex < 0 \<or> int (length options) \<le> optionIndex
      then Some (Inl (Error (''Option index '' @ show_int optionIndex @ '' is invalid for node ''
                              @ nodeId)), R)
      else
        (let opt = options ! nat optionIndex in
         case apply_reward R gameId playerId (o_reward opt) of
           None \<Rightarrow> None
         | Some (Some e, R1) \<Rightarrow> Some (Inl e, R1)
         | Some (None, R1) \<Rightarrow>
             (case (case truthy_str (o_next opt) of None \<Rightarrow> None
                    | Some nextId \<Rightarrow> map_option (Pair nextId) (cv_nodes conv nextId)) of
                None \<Rightarrow> Some (Inr End, R1)
              | Some (nextId, nx) \<Rightarrow>
                  Some (Inr (Next \<lparr>nr_dialogueId = dialogueId,
                                    nr_conversationId = conversationId, nr_nodeId = nextId,
                                    nr_text = n_text nx, nr_options = option_texts nx\<rparr>),
                        R1)))))))"


section \<open>The engine as a labelled transition system\<close>

text \<open>
  The content the engine reads but never writes: rule tables, campaigns and dialogue files.
\<close>

record env =
  e_rules :: rules
  e_campaigns :: "string \<rightharpoonup> campaign"
  e_dialogues :: "string \<rightharpoonup> dialogue_file"

text \<open>One call of an exported operation, with its arguments and the dice it will see.\<close>

datatype op =
    JoinGame string string string
  | CreateCharacter string string character rat
  | SetCharacter string string character
  | Attack string string string "nat \<Rightarrow> rat"
  | AttackMonster string string string "nat \<Rightarrow> rat"
  | MonsterAttack string string string "nat \<Rightarrow> rat"
  | CastSpell string string string string string "nat \<Rightarrow> rat"
  | SpawnMonster string string string
  | GiveItem string string string
  | UseItem string string string "nat \<Rightarrow> rat"
  | AddExperience string string int
  | AddItemToPlayer string string string
  | RemoveItemFromPlayer string string string
  | AppendLog string string
  | SelectCampaign string string
  | ChooseDialogueOption string string string string string int

text \<open>
  The registry after the call, whether it returned or threw; \<open>None\<close> when the call
  does not return.
\<close>

fun exec :: "env \<Rightarrow> op \<Rightarrow> registry \<Rightarrow> registry option" where
  "exec e (JoinGame g p n) R = Some (snd (joinGame R g p n))"
| "exec e (CreateCharacter g p ch r) R = Some (snd (createCharacter (e_rules e) R g p ch r))"
| "exec e (SetCharacter g p ch) R = Some (snd (setCharacter R g p ch))"
| "exec e (Attack g a t rs) R = Some (snd (attack R g a t rs))"
| "exec e (AttackMonster g a m rs) R = Some (snd (attackMonster R g a m rs))"
| "exec e (MonsterAttack g m t rs) R = Some (snd (monsterAttack (e_rules e) R g m t rs))"
| "exec e (CastSpell g c s tt t rs) R = Some (snd (castSpell (e_rules e) R g c s tt t rs))"
| "exec e (SpawnMonster g ty iid) R = Some (snd (spawnMonster (e_rules e) R g ty iid))"
| "exec e (GiveItem g p i) R = Some (snd (giveItem (e_rules e) R g p i))"
| "exec e (UseItem g p i rs) R = Some (snd (useItem (e_rules e) R g p i rs))"
| "exec e (AddExperience g p x) R = map_option snd (addExperience R g p x)"
| "exec e (AddItemToPlayer g p i) R = Some (snd (addItemToPlayer R g p i))"
| "exec e (RemoveItemFromPlayer g p i) R = Some (snd (removeItemFromPlayer R g p i))"
| "exec e (AppendLog g m) R = Some (appendLog R g m)"
| "exec e (SelectCampaign g c) R = Some (snd (selectCampaign (e_campaigns e) R g c))"
| "exec e (ChooseDialogueOption g p d c n i) R =
     map_option snd (chooseDialogueOption (e_dialogues e) R g p d c n i)"

text \<open>The character of a player of a game, its status and its hit points.\<close>

definition character_of :: "registry \<Rightarrow> string \<Rightarrow> string \<Rightarrow> character option" where
  "character_of R g p = (case getPlayer R g p of None \<Rightarrow> None | Some pl \<Rightarrow> p_character pl)"

definition char_status :: "character option \<Rightarrow> string option" where
  "char_status co = (case co of None \<Rightarrow> None | Some c \<Rightarrow> status c)"

definition char_hp :: "character option \<Rightarrow> jsnum" where
  "char_hp co = (case co of None \<Rightarrow> Undefined | Some c \<Rightarrow> hp c)"

definition status_of :: "registry \<Rightarrow> string \<Rightarrow> string \<Rightarrow> string option" where
  "status_of R g p = char_status (character_of R g p)"

definition hp_of :: "registry \<Rightarrow> string \<Rightarrow> string \<Rightarrow> jsnum" where
  "hp_of R g p = char_hp (character_of R g p)"

text \<open>
  Whether the call is a damage-applying operation (\<open>attack\<close>, \<open>monsterAttack\<close>, a cast
  of a spell) that reports a hit on player \<open>p\<close> of game \<open>g\<close>.
\<close>

fun hits_player :: "env \<Rightarrow> op \<Rightarrow> registry \<Rightarrow> string \<Rightarrow> string \<Rightarrow> bool" where
  "hits_player e (Attack g' a t rs) R g p =
     (g' = g \<and> t = p \<and> (case fst (attack R g' a t rs) of Inr r \<Rightarrow> ar_hit r | Inl _ \<Rightarrow> False))"
| "hits_player e (MonsterAttack g' m t rs) R g p =
     (g' = g \<and> t = p \<and>
      (case fst (monsterAttack (e_rules e) R g' m t rs) of Inr r \<Rightarrow> ar_hit r | Inl _ \<Rightarrow> False))"
| "hits_player e (CastSpell g' c s tt t rs) R g p =
     (g' = g \<and> t = p \<and> tt = ''player'' \<and>
      (case fst (castSpell (e_rules e) R g' c s tt t rs) of
         Inr (_, DamageResult _ _ _ hit _) \<Rightarrow> hit
       | _ \<Rightarrow> False))"
| "hits_player e _ R g p = False"

text \<open>
  The calls that write a character from the caller's data are \<open>createCharacter\<close> and
  \<open>setCharacter\<close>. \<open>supplied_status c g p\<close> is the \<open>status\<close> field of the data the
  call \<open>c\<close> supplies for player \<open>p\<close> of game \<open>g\<close>, if it supplies one.
\<close>

fun supplied_status :: "op \<Rightarrow> string \<Rightarrow> string \<Rightarrow> string option" where
  "supplied_status (CreateCharacter g' p' ch r) g p = (if g' = g \<and> p' = p then status ch else None)"
| "supplied_status (SetCharacter g' p' ch) g p = (if g' = g \<and> p' = p then status ch else None)"
| "supplied_status _ g p = None"

text \<open>
  The monster instances whose hit points the call reduces to 0 or less: the target of an
  \<open>attackMonster\<close> that reports a hit and remaining hit points \<open>\<le> 0\<close>, the
  target of a damage spell on a monster that reports a hit with at least the monster's hit
  points as damage.
\<close>

fun kills :: "env \<Rightarrow> op \<Rightarrow> registry \<Rightarrow> (string \<times> string) set" where
  "kills e (AttackMonster g a m rs) R =
     (case fst (attackMonster R g a m rs) of
        Inr r \<Rightarrow> if mr_hit r \<and> monsterRemainingHp r \<le> 0 then {(g, m)} else {}
      | Inl _ \<Rightarrow> {})"
| "kills e (CastSpell g c s tt t rs) R =
     (case (getMonster R g t, fst (castSpell (e_rules e) R g c s tt t rs)) of
        (Some mo, Inr (_, DamageResult _ _ _ hit damage)) \<Rightarrow>
          if tt = ''monster'' \<and> hit \<and> m_hp mo - damage \<le> 0 then {(g, t)} else {}
      | _ \<Rightarrow> {})"
| "kills e _ R = {}"

text \<open>
  A run of the engine from a registry: the calls in order. Alongside the final registry it
  records the monster instances spawned and those whose hit points some call reduced to 0
  or less. A spawn is a \<open>spawnMonster\<close> of a known monster type.
\<close>

record history =
  h_registry :: registry
  h_spawned :: "(string \<times> string) set"
  h_killed :: "(string \<times> string) set"

fun spawns :: "env \<Rightarrow> op \<Rightarrow> (string \<times> string) set" where
  "spawns e (SpawnMonster g ty iid) =
     (case monsterRules (e_rules e) ty of None \<Rightarrow> {} | Some _ \<Rightarrow> {(g, iid)})"
| "spawns e _ = {}"

fun run :: "env \<Rightarrow> op list \<Rightarrow> history \<Rightarrow> history option" where
  "run e [] h = Some h"
| "run e (c # cs) h =
     (case exec e c (h_registry h) of
        None \<Rightarrow> None
      | Some R' \<Rightarrow>
          run e cs \<lparr>h_registry = R',
                    h_spawned = h_spawned h \<union> spawns e c,
                    h_killed = h_killed h \<union> kills e c (h_registry h)\<rparr>)"

text \<open>
  What a run maintains: a monster in the mapping has been spawned, has not had its hit
  points reduced to 0 or less, has positive hit points and status \<open>alive\<close>; a spawned
  monster that is not in the mapping has had its hit points reduced to 0 or less.
\<close>

definition monster_inv :: "history \<Rightarrow> bool" where
  "monster_inv h =
     ((\<forall>g i m. getMonster (h_registry h) g i = Some m \<longrightarrow>
          (g, i) \<in> h_spawned h \<and> (g, i) \<notin> h_killed h \<and> 0 < m_hp m \<and> m_status m = ''alive'')
      \<and> (\<forall>g i. (g, i) \<in> h_spawned h \<and> getMonster (h_registry h) g i = None \<longrightarrow>
            (g, i) \<in> h_killed h)
      \<and> h_killed h \<subseteq> h_spawned h)"

text \<open>
  Instance ids come from the clock and \<open>Math.random\<close>; a run in which they are unique
  never spawns under an id it has used before.
\<close>

fun fresh_ids :: "env \<Rightarrow> op list \<Rightarrow> (string \<times> string) set \<Rightarrow> bool" where
  "fresh_ids e [] used = True"
| "fresh_ids e (c # cs) used = (spawns e c \<inter> used = {} \<and> fresh_ids e cs (used \<union> spawns e c))"

section \<open>Objects by reference: \<open>exportCharacter\<close> (models/index.js)\<close>

text \<open>
  \<open>exportCharacter\<close> returns \<open>JSON.parse(JSON.stringify(player.character))\<close>. What it
  promises is about object identity, so here a character is an object in a heap: a value
  is a primitive or a reference, a heap cell an object (its fields in order) or an array,
  an address an index into the heap, and \<open>new\<close> appends a cell. A number is finite
  (\<open>VNum\<close>, a binary64 value being a rational; \<open>VNum 0\<close> is \<open>+0\<close>), the zero
  \<open>-0\<close>, \<open>NaN\<close> or an infinity. The values are those a character can hold: what
  \<open>JSON.parse\<close> makes of a client's payload (\<open>1e999\<close> is read as \<open>Infinity\<close>,
  \<open>-0\<close> as \<open>-0\<close>) and what the engine's arithmetic adds, \<open>NaN\<close>.
\<close>

datatype jsval = VNull | VBool bool | VNum rat | VNaN | VStr string | VRef nat
  | VNegZero | VPosInf | VNegInf

datatype jsobj = Object "(string \<times> jsval) list" | Array "jsval list"

type_synonym heap = "jsobj list"

datatype json = JNull | JBool bool | JNum rat | JNaN | JStr string
  | JArr "json list" | JObj "(string \<times> json) list"
  | JNegZero | JPosInf | JNegInf

text \<open>
  The tree under a value: what \<open>JSON.stringify\<close> walks. It keeps the stack of the
  objects it is inside of and throws a \<open>TypeError\<close> on meeting one of them again;
  \<open>None\<close> is that exception.
\<close>

function deep :: "heap \<Rightarrow> nat list \<Rightarrow> jsval \<Rightarrow> json option"
  and deep_list :: "heap \<Rightarrow> nat list \<Rightarrow> jsval list \<Rightarrow> json list option"
  and deep_fields :: "heap \<Rightarrow> nat list \<Rightarrow> (string \<times> jsval) list \<Rightarrow> (string \<times> json) list option"
where
  "deep h st VNull = Some JNull"
| "deep h st (VBool b) = Some (JBool b)"
| "deep h st (VNum n) = Some (JNum n)"
| "deep h st VNaN = Some JNaN"
| "deep h st (VStr s) = Some (JStr s)"
| "deep h st (VRef a) =
     (if a \<in> set st \<or> length h \<le> a then None
      else (case h ! a of
              Object fs \<Rightarrow> map_option JObj (deep_fields h (a # st) fs)
            | Array vs \<Rightarrow> map_option JArr (deep_list h (a # st) vs)))"
| "deep_list h st [] = Some []"
| "deep_list h st (v # vs) =
     (case deep h st v of
        None \<Rightarrow> None
      | Some j \<Rightarrow> map_option ((#) j) (deep_list h st vs))"
| "deep_fields h st [] = Some []"
| "deep_fields h st (f # fs) =
     (case deep h st (snd f) of
        None \<Rightarrow> None
      | Some j \<Rightarrow> map_option ((#) (fst f, j)) (deep_fields h st fs))"
| "deep h st VNegZero = Some JNegZero"
| "deep h st VPosInf = Some JPosInf"
| "deep h st VNegInf = Some JNegInf"
  by pat_completeness auto

termination
proof (relation "measures
     [\<lambda>x. case x of Inl (h, st, v) \<Rightarrow> card ({..<length h} - set st)
               | Inr (Inl (h, st, vs)) \<Rightarrow> card ({..<length h} - set st)
               | Inr (Inr (h, st, fs)) \<Rightarrow> card ({..<length h} - set st),
      \<lambda>x. case x of Inl (h, st, v) \<Rightarrow> 0
               | Inr (Inl (h, st, vs)) \<Rightarrow> Suc (length vs)
               | Inr (Inr (h, st, fs)) \<Rightarrow> Suc (length fs)]", goal_cases)
  case (2 h st a x1)
  then have a: "a \<notin> set st" "a < length h" by simp_all
  have "{..<length h} - set (a # st) \<subset> {..<length h} - set st" using a by auto
  then have "card ({..<length h} - set (a # st)) < card ({..<length h} - set st)"
    by (intro psubset_card_mono) simp_all
  then show ?case by (simp del: set_simps)
next
  case (3 h st a x2)
  then have a: "a \<notin> set st" "a < length h" by simp_all
  have "{..<length h} - set (a # st) \<subset> {..<length h} - set st" using a by auto
  then have "card ({..<length h} - set (a # st)) < card ({..<length h} - set st)"
    by (intro psubset_card_mono) simp_all
  then show ?case by (simp del: set_simps)
qed auto

text \<open>
  What the JSON text holds. \<open>JSON.stringify\<close> writes \<open>null\<close> for every number that
  is not finite (\<open>NaN\<close>, \<open>Infinity\<close>, \<open>-Infinity\<close>) and \<open>0\<close> for \<open>-0\<close>; the text
  of a finite number reads back as the same number.
\<close>

primrec serialize :: "json \<Rightarrow> json" where
  "serialize JNull = JNull"
| "serialize (JBool b) = JBool b"
| "serialize (JNum n) = JNum n"
| "serialize JNaN = JNull"
| "serialize (JStr s) = JStr s"
| "serialize (JArr js) = JArr (map serialize js)"
| "serialize (JObj fs) = JObj (map (map_prod id serialize) fs)"
| "serialize JNegZero = JNum 0"
| "serialize JPosInf = JNull"
| "serialize JNegInf = JNull"

text \<open>
  \<open>JSON.parse\<close>, from the syntax tree of the text: every array and object of the text is
  a new cell.
\<close>

fun build :: "json \<Rightarrow> heap \<Rightarrow> jsval \<times> heap"
  and build_list :: "json list \<Rightarrow> heap \<Rightarrow> jsval list \<times> heap"
  and build_fields :: "(string \<times> json) list \<Rightarrow> heap \<Rightarrow> (string \<times> jsval) list \<times> heap"
where
  "build JNull h = (VNull, h)"
| "build (JBool b) h = (VBool b, h)"
| "build (JNum n) h = (VNum n, h)"
| "build JNaN h = (VNaN, h)"
| "build (JStr s) h = (VStr s, h)"
| "build (JArr js) h = (let (vs, h1) = build_list js h in (VRef (length h1), h1 @ [Array vs]))"
| "build (JObj fs) h = (let (fvs, h1) = build_fields fs h in (VRef (length h1), h1 @ [Object fvs]))"
| "build_list [] h = ([], h)"
| "build_list (j # js) h =
     (let (v, h1) = build j h; (vs, h2) = build_list js h1 in (v # vs, h2))"
| "build_fields [] h = ([], h)"
| "build_fields (f # fs) h =
     (let (v, h1) = build (snd f) h; (fvs, h2) = build_fields fs h1 in ((fst f, v) # fvs, h2))"
| "build JNegZero h = (VNegZero, h)"
| "build JPosInf h = (VPosInf, h)"
| "build JNegInf h = (VNegInf, h)"




definition JSON_stringify :: "heap \<Rightarrow> jsval \<Rightarrow> json option" where
  "JSON_stringify h v = map_option serialize (deep h [] v)"

definition JSON_parse :: "json \<Rightarrow> heap \<Rightarrow> jsval \<times> heap" where
  "JSON_parse j h = build j h"

text \<open>\<open>!v\<close> is false of a truthy value.\<close>

fun js_truthy :: "jsval \<Rightarrow> bool" where
  "js_truthy VNull = False"
| "js_truthy (VBool b) = b"
| "js_truthy (VNum n) = (n \<noteq> 0)"
| "js_truthy VNaN = False"
| "js_truthy (VStr s) = (s \<noteq> [])"
| "js_truthy (VRef a) = True"
| "js_truthy VNegZero = False"
| "js_truthy VPosInf = True"
| "js_truthy VNegInf = True"

text \<open>
  The registry as \<open>exportCharacter\<close> reads it: the heap, and for each game and each of
  its players the value of \<open>player.character\<close>.
\<close>

record store =
  s_heap :: heap
  s_games :: "string \<rightharpoonup> (string \<rightharpoonup> jsval)"

definition exportCharacter :: "store \<Rightarrow> string \<Rightarrow> string \<Rightarrow> (error + jsval) \<times> store" where
  "exportCharacter s gameId playerId =
     (case s_games s gameId of
        None \<Rightarrow> (Inr VNull, s)
      | Some ps \<Rightarrow>
          (case ps playerId of
             None \<Rightarrow> (Inr VNull, s)
           | Some ch \<Rightarrow>
               if \<not> js_truthy ch then (Inr VNull, s)
               else (case JSON_stringify (s_heap s) ch of
                       None \<Rightarrow> (Inl TypeError, s)
                     | Some j \<Rightarrow>
                         (let (v, h') = JSON_parse j (s_heap s)
                          in (Inr v, s\<lparr>s_heap := h'\<rparr>)))))"

text \<open>
  A value, or a cell, that holds no reference below address \<open>n\<close>.
\<close>

definition val_from :: "nat \<Rightarrow> jsval \<Rightarrow> bool" where
  "val_from n v = (case v of VRef a \<Rightarrow> n \<le> a | _ \<Rightarrow> True)"

definition obj_from :: "nat \<Rightarrow> jsobj \<Rightarrow> bool" where
  "obj_from n ob =
     (case ob of Object fs \<Rightarrow> list_all (\<lambda>f. val_from n (snd f)) fs
               | Array vs \<Rightarrow> list_all (val_from n) vs)"


section \<open>Example games\<close>

text \<open>
  A game with two players: Rowan, a level-1 character without experience, and Ash, who has
  not created a character.
\<close>

definition novice :: character where
  "novice = empty_character\<lparr>experience := Num 0, level := Num 1\<rparr>"

definition rowan :: player where
  "rowan = \<lparr>p_id = ''p1'', p_name = ''Rowan'', p_character = Some novice\<rparr>"

definition ash :: player where
  "ash = \<lparr>p_id = ''p2'', p_name = ''Ash'', p_character = None\<rparr>"

definition duel_game :: game where
  "duel_game = \<lparr>g_id = ''g1'', players = [''p1'' \<mapsto> rowan, ''p2'' \<mapsto> ash], g_log = [],
                 g_campaign = None, monsters = Map.empty\<rparr>"

definition duel :: registry where
  "duel = [''g1'' \<mapsto> duel_game]"

text \<open>
  A registry in which \<open>setCharacter\<close> has been called for a player who had not joined.
\<close>

definition enrolled :: registry where
  "enrolled = snd (setCharacter Map.empty ''g1'' ''p1'' empty_character)"

text \<open>
  The same game after Ash has got a character with 8 hit points whose armour class has
  come down to 0, and with an orc in it.
\<close>

definition exposed :: character where
  "exposed = empty_character\<lparr>hp := Num 8, ac := Num 0\<rparr>"

definition orc :: monster where
  "orc = \<lparr>instanceId = ''m1'', m_type = ''orc'', m_hp = 4, m_ac = 13, m_status = ''alive''\<rparr>"

definition ambush_game :: game where
  "ambush_game = \<lparr>g_id = ''g1'',
                   players = [''p1'' \<mapsto> rowan, ''p2'' \<mapsto> ash\<lparr>p_character := Some exposed\<rparr>],
                   g_log = [], g_campaign = None, monsters = [''m1'' \<mapsto> orc]\<rparr>"

definition ambush :: registry where
  "ambush = [''g1'' \<mapsto> ambush_game]"

text \<open>Rule tables with one item, a healing potion of \<open>1d8+2\<close>, and one monster, the orc.\<close>

definition potion :: item_rule where
  "potion = \<lparr>i_name = ''Healing Potion'', i_heal = Some ''1d8+2'', i_acBonus = None\<rparr>"

definition orc_rule :: monster_rule where
  "orc_rule = \<lparr>hitPoints = None, hitDice = Some 1, armorClass = Some 13,
               attacks = Some [Some ''1d8'']\<rparr>"

definition small_rules :: rules where
  "small_rules = \<lparr>classRules = Map.empty, spellRules = [],
                   monsterRules = [''orc'' \<mapsto> orc_rule], itemRules = [''potion'' \<mapsto> potion]\<rparr>"

definition small_env :: env where
  "small_env = \<lparr>e_rules = small_rules, e_campaigns = Map.empty, e_dialogues = Map.empty\<rparr>"

text \<open>
  Two characters with large numbers. Vera is at level \<open>9 * 10^12\<close> with \<open>2^53\<close>
  experience points; Atlas is at level \<open>2^53\<close> with \<open>2^120\<close> experience points.
  All four numbers are integers that binary64 represents.
\<close>

definition veteran :: character where
  "veteran = empty_character\<lparr>experience := Num 9007199254740992, level := Num 9000000000000\<rparr>"

definition vera :: player where
  "vera = \<lparr>p_id = ''p1'', p_name = ''Vera'', p_character = Some veteran\<rparr>"

definition titan :: character where
  "titan = empty_character\<lparr>experience := Num (2 ^ 120), level := Num (2 ^ 53)\<rparr>"

definition atlas :: player where
  "atlas = \<lparr>p_id = ''p2'', p_name = ''Atlas'', p_character = Some titan\<rparr>"

definition league_game :: game where
  "league_game = \<lparr>g_id = ''g1'', players = [''p1'' \<mapsto> vera, ''p2'' \<mapsto> atlas], g_log = [],
                   g_campaign = None, monsters = Map.empty\<rparr>"

definition league :: registry where
  "league = [''g1'' \<mapsto> league_game]"

text \<open>
  The first game after a potion has been given to Ash: \<open>giveItem\<close> has made the
  character \<open>{inventory: ['potion']}\<close>, without hit points.
\<close>

definition gifted :: registry where
  "gifted = snd (giveItem small_rules duel ''g1'' ''p2'' ''potion'')"

text \<open>The game \<open>g1\<close> as \<open>createGame\<close> makes it.\<close>

definition no_game :: game where
  "no_game = \<lparr>g_id = ''g1'', players = Map.empty, g_log = [], g_campaign = None,
               monsters = Map.empty\<rparr>"

text \<open>
  The game after Ash, carrying a potion, has been beaten down to -4 hit points.
\<close>

definition fallen :: character where
  "fallen = empty_character\<lparr>hp := Num (- 4), inventory := Some [''potion''],
                            status := Some ''unconscious''\<rparr>"

definition downed_game :: game where
  "downed_game = \<lparr>g_id = ''g1'',
                   players = [''p1'' \<mapsto> rowan, ''p2'' \<mapsto> ash\<lparr>p_character := Some fallen\<rparr>],
                   g_log = [], g_campaign = None, monsters = Map.empty\<rparr>"

definition downed :: registry where
  "downed = [''g1'' \<mapsto> downed_game]"

text \<open>
  A run from the empty registry: an orc appears, Rowan joins and kills it with one blow (a
  20 on the d20, a 6 on the d6 against its 4 hit points), and a second orc appears.
\<close>

definition start :: history where
  "start = \<lparr>h_registry = Map.empty, h_spawned = {}, h_killed = {}\<rparr>"

definition hunt :: "op list" where
  "hunt = [SpawnMonster ''g1'' ''orc'' ''m1'', JoinGame ''g1'' ''p1'' ''Rowan'',
           AttackMonster ''g1'' ''p1'' ''m1'' ((\<lambda>_. 5/6)(0 := 19/20)), SpawnMonster ''g1'' ''orc'' ''m2'']"

text \<open>The registry of that run when Rowan strikes.\<close>

definition encounter :: registry where
  "encounter = snd (joinGame (snd (spawnMonster small_rules Map.empty ''g1'' ''orc'' ''m1''))
                      ''g1'' ''p1'' ''Rowan'')"

text \<open>
  A second run: the orc \<open>m1\<close> appears, Rowan joins and wounds it (a 20 on the d20, a 1
  on the d6: 3 hit points are left), and then an orc appears under the same instance id
  \<open>m1\<close>, as happens when the clock and the random suffix of the two spawns agree.
  \<open>skirmish\<close> is the registry after the blow, \<open>respawned\<close> the registry at the end.
\<close>

definition glancing :: "nat \<Rightarrow> rat" where
  "glancing = (\<lambda>_. 0)(0 := 19/20)"

definition raid :: "op list" where
  "raid = [SpawnMonster ''g1'' ''orc'' ''m1'', JoinGame ''g1'' ''p1'' ''Rowan'',
           AttackMonster ''g1'' ''p1'' ''m1'' glancing, SpawnMonster ''g1'' ''orc'' ''m1'']"

definition skirmish :: registry where
  "skirmish = snd (attackMonster encounter ''g1'' ''p1'' ''m1'' glancing)"

definition respawned :: registry where
  "respawned = snd (spawnMonster small_rules skirmish ''g1'' ''orc'' ''m1'')"

text \<open>The values of \<open>Math.random()\<close> that are all \<open>1/4\<close>.\<close>

definition quarter :: "nat \<Rightarrow> rat" where
  "quarter = (\<lambda>_. 1/4)"

text \<open>
  A store with one character, \<open>{hp: 7, inventory: ['potion']}\<close>, and one whose hit
  points are \<open>NaN\<close>; a second store with the character \<open>{hp: Infinity, ac: -0}\<close>.
\<close>

definition vault :: store where
  "vault = \<lparr>s_heap = [Array [VStr ''potion''], Object [(''hp'', VNum 7), (''inventory'', VRef 0)],
                       Object [(''hp'', VNaN)]],
            s_games = [''g1'' \<mapsto> [''p1'' \<mapsto> VRef 1, ''p2'' \<mapsto> VRef 2, ''p3'' \<mapsto> VNull]]\<rparr>"

definition crypt :: store where
  "crypt = \<lparr>s_heap = [Object [(''hp'', VPosInf), (''ac'', VNegZero)]],
            s_games = [''g1'' \<mapsto> [''p1'' \<mapsto> VRef 0]]\<rparr>"

section \<open>Rounding to binary64\<close>

lemma ulp_small: "n < 2 ^ 53 \<Longrightarrow> ulp n = 1"
  by (subst ulp.simps) simp

lemma ulp_big: "2 ^ 53 \<le> n \<Longrightarrow> ulp n = 2 * ulp (n div 2)"
  by (subst ulp.simps) simp

lemma ulp_pos: "0 < ulp n"
  by (induction n rule: ulp.induct) (subst ulp.simps, simp)

lemma nearest_small: "n \<le> 2 ^ 53 \<Longrightarrow> nearest n = n"
proof (cases "n < 2 ^ 53")
  case True
  then show ?thesis by (simp add: nearest_def ulp_small)
next
  case False
  assume "n \<le> 2 ^ 53"
  with False have n: "n = 2 ^ 53" by simp
  have "ulp n = 2" unfolding n by (subst ulp.simps) (simp add: ulp_small)
  then show ?thesis by (simp add: nearest_def n)
qed

text \<open>Integers of magnitude up to \<open>2^53\<close> are representable: rounding keeps them.\<close>

lemma binary64_exact: "\<bar>x\<bar> \<le> 2 ^ 53 \<Longrightarrow> binary64 x = Num x"
proof -
  assume a: "\<bar>x\<bar> \<le> 2 ^ 53"
  then have "nat \<bar>x\<bar> \<le> 2 ^ 53" by (simp add: nat_le_iff)
  then have n: "nearest (nat \<bar>x\<bar>) = nat \<bar>x\<bar>" by (rule nearest_small)
  have "\<bar>x\<bar> < 2 ^ 1024" using a by (rule le_less_trans) simp
  then show ?thesis by (simp add: binary64_def n Let_def)
qed

lemma ulp_range: "2 ^ 53 * 2 ^ k \<le> n \<Longrightarrow> n < 2 ^ 53 * 2 ^ Suc k \<Longrightarrow> ulp n = 2 ^ Suc k"
proof (induction k arbitrary: n)
  case 0
  then have "n div 2 < 2 ^ 53" by simp
  then show ?case using 0 by (simp add: ulp_big ulp_small)
next
  case (Suc k)
  define p :: nat where "p = 2 ^ k"
  have p: "2 ^ 53 * (2 * p) \<le> n" "n < 2 ^ 53 * (4 * p)" using Suc.prems by (simp_all add: p_def)
  have "2 ^ 53 * p \<le> n div 2" "n div 2 < 2 ^ 53 * (2 * p)" using p by simp_all
  then have a: "2 ^ 53 * 2 ^ k \<le> n div 2" and b: "n div 2 < 2 ^ 53 * 2 ^ Suc k"
    by (simp_all add: p_def)
  have "0 < p" by (simp add: p_def)
  then have "2 ^ 53 \<le> n" using p(1) by simp
  then show ?case using Suc.IH [OF a b] by (simp add: ulp_big)
qed

text \<open>Above \<open>2^53\<close> the quotient by the unit in the last place has exactly 53 bits.\<close>

lemma quotient_range:
  "2 ^ 53 \<le> n \<Longrightarrow> 2 ^ 52 \<le> n div ulp n \<and> n div ulp n < 2 ^ 53"
proof (induction n rule: ulp.induct)
  case (1 n)
  have u: "ulp n = 2 * ulp (n div 2)" using "1.prems" by (rule ulp_big)
  have d: "n div ulp n = (n div 2) div ulp (n div 2)"
    unfolding u by (simp add: div_mult2_eq)
  show ?case
  proof (cases "n div 2 < 2 ^ 53")
    case True
    then show ?thesis using "1.prems" unfolding d by (simp add: ulp_small)
  next
    case False
    then show ?thesis using "1.IH" "1.prems" unfolding d by simp
  qed
qed

lemma nearest_lower: "n div ulp n * ulp n \<le> nearest n"
  by (simp add: nearest_def Let_def)

lemma nearest_big: "2 ^ 53 \<le> n \<Longrightarrow> 2 ^ 53 \<le> nearest n"
proof -
  assume n: "2 ^ 53 \<le> n"
  have "0 < ulp (n div 2)" by (rule ulp_pos)
  then have "2 \<le> ulp n" using ulp_big [OF n] by simp
  moreover have "2 ^ 52 \<le> n div ulp n" using quotient_range [OF n] by simp
  ultimately have "2 ^ 52 * 2 \<le> n div ulp n * ulp n" by (intro mult_le_mono)
  then show ?thesis using nearest_lower [of n] by simp
qed

lemma nearest_above:
  assumes "2 ^ 53 + 2 \<le> n"
  shows "2 ^ 53 + 2 \<le> nearest n"
proof (cases "n < 2 ^ 54")
  case True
  have "ulp n = 2" using ulp_range [of 0 n] assms True by simp
  moreover have "2 ^ 53 + 2 \<le> n div 2 * 2" using assms by simp
  ultimately show ?thesis using nearest_lower [of n] by simp
next
  case False
  then have n: "2 ^ 54 \<le> n" by simp
  then have "2 ^ 53 \<le> n" "2 ^ 53 \<le> n div 2" by simp_all
  then have u: "ulp n = 4 * ulp (n div 2 div 2)" by (simp add: ulp_big)
  have "0 < ulp (n div 2 div 2)" by (rule ulp_pos)
  then have "4 \<le> ulp n" unfolding u by simp
  moreover have "2 ^ 52 \<le> n div ulp n" using quotient_range [of n] n by simp
  ultimately have "2 ^ 52 * 4 \<le> n div ulp n * ulp n" by (intro mult_le_mono)
  then show ?thesis using nearest_lower [of n] by simp
qed

text \<open>Rounding keeps the sign, and does not take a result below a representable bound.\<close>

lemma binary64_lower:
  assumes "0 \<le> a" "a \<le> 2 ^ 53" "a \<le> x"
  shows "binary64 x = PInf \<or> (\<exists>m. binary64 x = Num m \<and> a \<le> m)"
proof (cases "x \<le> 2 ^ 53")
  case True
  then have "binary64 x = Num x" using assms by (intro binary64_exact) simp
  then show ?thesis using assms(3) by simp
next
  case False
  then have "2 ^ 53 \<le> nat \<bar>x\<bar>" by simp
  then have "2 ^ 53 \<le> nearest (nat \<bar>x\<bar>)" by (rule nearest_big)
  then have "a \<le> int (nearest (nat \<bar>x\<bar>))" using assms(2) by simp
  moreover have "\<not> x < 0" using False by simp
  ultimately show ?thesis by (simp add: binary64_def Let_def)
qed

lemma binary64_above:
  assumes "2 ^ 53 + 2 \<le> x"
  shows "binary64 x = PInf \<or> (\<exists>m. binary64 x = Num m \<and> 2 ^ 53 + 2 \<le> m)"
proof -
  have "2 ^ 53 + 2 \<le> nat \<bar>x\<bar>" using assms by simp
  then have "2 ^ 53 + 2 \<le> nearest (nat \<bar>x\<bar>)" by (rule nearest_above)
  then have "2 ^ 53 + 2 \<le> int (nearest (nat \<bar>x\<bar>))" by simp
  moreover have "\<not> x < 0" using assms by simp
  ultimately show ?thesis by (simp add: binary64_def Let_def)
qed

lemma binary64_negative:
  assumes "x < 0"
  shows "binary64 x = NInf \<or> (\<exists>m. binary64 x = Num m \<and> m \<le> 0)"
  using assms by (simp add: binary64_def Let_def)

lemma js_or_Num: "js_or (Num n) 0 = Num n"
  by (simp add: js_or_def)

section \<open>Basic facts about the registry\<close>

lemma createGame_Some: "R g = Some G \<Longrightarrow> createGame R g = (G, R)"
  by (simp add: createGame_def)

lemma appendLog_Some: "R g = Some G \<Longrightarrow> appendLog R g m = R(g \<mapsto> G\<lparr>g_log := g_log G @ [m]\<rparr>)"
  by (simp add: appendLog_def createGame_Some)

lemma addPlayer_new:
  assumes "getPlayer R g p = None"
  shows "\<exists>G. snd (addPlayer R g p n) g = Some G
          \<and> players G p = Some \<lparr>p_id = p, p_name = n, p_character = None\<rparr>
          \<and> fst (addPlayer R g p n) = \<lparr>p_id = p, p_name = n, p_character = None\<rparr>"
  using assms by (cases "R g") (simp_all add: addPlayer_def createGame_def getPlayer_def Let_def)

lemma addPlayer_old:
  assumes "R g = Some G" "players G p = Some P"
  shows "addPlayer R g p n = (P, R)"
  using assms by (simp add: addPlayer_def createGame_Some)

lemma rollDie_range:
  assumes "0 \<le> r" "r < 1" "0 < n"
  shows "1 \<le> rollDie n r \<and> rollDie n r \<le> n"
proof -
  have "0 \<le> r * of_int n" using assms by simp
  hence a: "0 \<le> \<lfloor>r * of_int n\<rfloor>" by simp
  have "r * of_int n < of_int n" using assms by simp
  hence "\<lfloor>r * of_int n\<rfloor> < n" by (simp add: floor_less_iff)
  with a show ?thesis by (simp add: rollDie_def)
qed

lemma apply_damage_None:
  "0 \<le> d \<Longrightarrow> d \<le> 2 ^ 53 \<Longrightarrow>
   apply_damage None d = hp_only_character\<lparr>hp := Num (- d), status := Some ''unconscious''\<rparr>"
  by (simp add: apply_damage_def hp_only_character_def Let_def binary64_exact)

lemma character_of_upd:
  "character_of (R(g \<mapsto> G\<lparr>players := (players G)(p \<mapsto> P)\<rparr>)) g p = p_character P"
  by (simp add: character_of_def getPlayer_def)

section \<open>Joining a game\<close>

lemma joinGame_known:
  assumes "R g = Some G" "players G p = Some P"
  shows "joinGame R g p n = (P, R(g \<mapsto> G\<lparr>g_log := g_log G @ [n @ '' joined the game.'']\<rparr>))"
  using assms by (simp add: joinGame_def addPlayer_old appendLog_Some)

lemma joinGame_entry:
  "\<exists>G. snd (joinGame R g p n) g = Some G
       \<and> players G p = Some (case getPlayer R g p of
                               None \<Rightarrow> \<lparr>p_id = p, p_name = n, p_character = None\<rparr>
                             | Some P0 \<Rightarrow> P0)
       \<and> fst (joinGame R g p n) = (case getPlayer R g p of
                               None \<Rightarrow> \<lparr>p_id = p, p_name = n, p_character = None\<rparr>
                             | Some P0 \<Rightarrow> P0)"
proof (cases "getPlayer R g p")
  case None
  let ?P = "\<lparr>p_id = p, p_name = n, p_character = None\<rparr>"
  obtain G where G: "snd (addPlayer R g p n) g = Some G" "players G p = Some ?P"
    "fst (addPlayer R g p n) = ?P"
    using addPlayer_new [OF None] by blast
  have "snd (joinGame R g p n) g = Some (G\<lparr>g_log := g_log G @ [n @ '' joined the game.'']\<rparr>)"
    using G(1) by (simp add: joinGame_def split_def Let_def appendLog_Some)
  moreover have "fst (joinGame R g p n) = ?P"
    using G(3) by (simp add: joinGame_def split_def Let_def)
  ultimately show ?thesis using G(2) None by simp
next
  case (Some P0)
  then obtain G where G: "R g = Some G" "players G p = Some P0"
    by (cases "R g") (simp_all add: getPlayer_def)
  show ?thesis using Some G by (simp add: joinGame_known)
qed

text \<open>
  C7, with the name that wins made explicit. After \<open>join(gameId, playerId, name1)\<close> and
  then \<open>join(gameId, playerId, name2)\<close>, from any registry: the game holds one entry for
  the player; the second call leaves the player mapping exactly as the first call left it
  (no entry added, no name overwritten) and both calls return that entry. The entry is the
  one the player had before the first call when there was one (so its name is the earlier
  one, \<open>Unknown\<close> for an entry that \<open>setCharacter\<close> created), and
  \<open>{id, name: name1, character: null}\<close> when the player was not yet in the game.
\<close>

theorem join_first_write_wins:
  "\<exists>g1 g2 P. snd (joinGame R gameId playerId name1) gameId = Some g1
     \<and> snd (joinGame (snd (joinGame R gameId playerId name1)) gameId playerId name2) gameId
         = Some g2
     \<and> players g2 = players g1
     \<and> players g1 playerId = Some P
     \<and> P = (case getPlayer R gameId playerId of
               None \<Rightarrow> \<lparr>p_id = playerId, p_name = name1, p_character = None\<rparr>
             | Some P0 \<Rightarrow> P0)
     \<and> fst (joinGame R gameId playerId name1) = P
     \<and> fst (joinGame (snd (joinGame R gameId playerId name1)) gameId playerId name2) = P"
proof -
  define P where "P = (case getPlayer R gameId playerId of
               None \<Rightarrow> \<lparr>p_id = playerId, p_name = name1, p_character = None\<rparr>
             | Some P0 \<Rightarrow> P0)"
  define R1 where "R1 = snd (joinGame R gameId playerId name1)"
  obtain G1 where G1: "R1 gameId = Some G1" "players G1 playerId = Some P"
    "fst (joinGame R gameId playerId name1) = P"
    using joinGame_entry [of R gameId playerId name1] unfolding R1_def P_def by blast
  have j2: "joinGame R1 gameId playerId name2
      = (P, R1(gameId \<mapsto> G1\<lparr>g_log := g_log G1 @ [name2 @ '' joined the game.'']\<rparr>))"
    using G1(1,2) by (rule joinGame_known)
  have "snd (joinGame R1 gameId playerId name2) gameId
      = Some (G1\<lparr>g_log := g_log G1 @ [name2 @ '' joined the game.'']\<rparr>)"
    by (simp add: j2)
  moreover have "players (G1\<lparr>g_log := g_log G1 @ [name2 @ '' joined the game.'']\<rparr>) = players G1"
    by simp
  moreover have "fst (joinGame R1 gameId playerId name2) = P" by (simp add: j2)
  ultimately show ?thesis
    using G1 unfolding R1_def [symmetric] P_def [symmetric] by blast
qed

text \<open>
  C7 as stated, for all \<open>gameId\<close> and \<open>playerId\<close>, fails for a player who is already in
  the game: \<open>setCharacter\<close> creates the entry of an unknown player under the name
  \<open>Unknown\<close>, and neither \<open>join\<close> replaces it, so after joining as \<open>Ann\<close> and then
  as \<open>Bob\<close> the stored name is \<open>Unknown\<close>, not \<open>Ann\<close>.
\<close>

theorem join_keeps_earlier_name:
  "getPlayer Map.empty ''g1'' ''p1'' = None
   \<and> map_option p_name (getPlayer enrolled ''g1'' ''p1'') = Some ''Unknown''
   \<and> ''Ann'' \<noteq> ''Bob''
   \<and> map_option p_name
        (getPlayer (snd (joinGame (snd (joinGame enrolled ''g1'' ''p1'' ''Ann'')) ''g1'' ''p1'' ''Bob''))
           ''g1'' ''p1'') = Some ''Unknown''
   \<and> ''Unknown'' \<noteq> ''Ann''"
proof -
  define U where "U = \<lparr>p_id = ''p1'', p_name = ''Unknown'',
      p_character = Some (empty_character\<lparr>experience := Num 0, level := Num 1\<rparr>)\<rparr>"
  define G where "G = \<lparr>g_id = ''g1'', players = [''p1'' \<mapsto> U], g_log = [], g_campaign = None,
      monsters = Map.empty\<rparr>"
  have e: "enrolled = [''g1'' \<mapsto> G]"
    by (simp add: enrolled_def setCharacter_def createGame_def Let_def spread_def or_num_def
        or_opt_def empty_character_def G_def U_def)
  have g: "enrolled ''g1'' = Some G" "players G ''p1'' = Some U" by (simp_all add: e G_def)
  have 1: "getPlayer enrolled ''g1'' ''p1'' = Some U" using g by (simp add: getPlayer_def)
  define G1 where "G1 = G\<lparr>g_log := g_log G @ [''Ann'' @ '' joined the game.'']\<rparr>"
  have j1: "snd (joinGame enrolled ''g1'' ''p1'' ''Ann'') = enrolled(''g1'' \<mapsto> G1)"
    using g by (simp add: joinGame_known G1_def)
  have g1: "(enrolled(''g1'' \<mapsto> G1)) ''g1'' = Some G1" "players G1 ''p1'' = Some U"
    using g(2) by (simp_all add: G1_def)
  have 2: "getPlayer (snd (joinGame (snd (joinGame enrolled ''g1'' ''p1'' ''Ann'')) ''g1'' ''p1'' ''Bob''))
           ''g1'' ''p1'' = Some U"
    unfolding j1 using g1 by (simp add: joinGame_known getPlayer_def)
  show ?thesis unfolding 1 2 by (simp add: getPlayer_def U_def)
qed

section \<open>Attacks on a player\<close>

lemma binary64_is_number: "js_is_number (binary64 x)"
  by (simp add: binary64_def Let_def)

lemma js_sub_is_number: "js_is_number x \<Longrightarrow> js_is_number (js_sub x d)"
  by (cases x) (simp_all add: binary64_is_number)

lemma apply_damage_is_number: "js_is_number (hp (apply_damage co d))"
proof -
  define c0 where "c0 = (case co of None \<Rightarrow> hp_only_character | Some c \<Rightarrow> c)"
  define c1 where "c1 = (if \<not> js_is_number (hp c0) then c0\<lparr>hp := Num 0\<rparr> else c0)"
  have "js_is_number (hp c1)" by (simp add: c1_def)
  then have "js_is_number (js_sub (hp c1) d)" by (rule js_sub_is_number)
  then show ?thesis
    by (simp add: apply_damage_def Let_def c0_def [symmetric] c1_def [symmetric])
qed

lemma number_not_nil: "js_is_number x \<Longrightarrow> \<not> is_nil (Some x)"
  by (cases x) simp_all

text \<open>
  C9, with the nil report made exact. When \<open>attack\<close> hits a target player who has no
  character, the target afterwards has the character \<open>{hp: 0}\<close> with the damage
  subtracted: hit points minus the damage, status \<open>unconscious\<close>, and the reported
  remaining hit points are minus the damage (the damage being a d6 roll). The report of
  remaining hit points is nil (\<open>null\<close> or \<open>undefined\<close>) exactly when the attack misses
  and the target has no character or a character whose hit points are missing or
  \<open>null\<close>; a miss reports the stored hit points as they are and leaves the registry
  unchanged.
\<close>

theorem attack_characterless_target:
  assumes "\<forall>i. 0 \<le> rs i \<and> rs i < 1"
    and "getGame R gameId = Some g"
    and "players g attackerId = Some a"
    and "players g targetId = Some t"
    and "attack R gameId attackerId targetId rs = (res, R')"
  shows "\<exists>r. res = Inr r \<and>
         (p_character t = None \<and> ar_hit r \<longrightarrow>
            character_of R' gameId targetId
              = Some (hp_only_character\<lparr>hp := Num (- ar_damage r),
                                         status := Some ''unconscious''\<rparr>)
            \<and> hp_of R' gameId targetId = Num (- ar_damage r)
            \<and> status_of R' gameId targetId = Some ''unconscious''
            \<and> targetRemainingHp r = Some (Num (- ar_damage r))
            \<and> 1 \<le> ar_damage r \<and> ar_damage r \<le> 6) \<and>
         (is_nil (targetRemainingHp r)
            = (\<not> ar_hit r \<and> is_nil (map_option hp (p_character t)))) \<and>
         (\<not> ar_hit r \<longrightarrow> targetRemainingHp r = map_option hp (p_character t) \<and> R' = R)"
proof -
  have d: "1 \<le> rollDie 6 (rs 1)" "rollDie 6 (rs 1) \<le> 6"
    using assms(1) rollDie_range [of "rs 1" 6] by auto
  then have d': "0 \<le> rollDie 6 (rs 1)" "rollDie 6 (rs 1) \<le> 2 ^ 53" by simp_all
  define ac' where "ac' = (case p_character t of None \<Rightarrow> Num 10 | Some c \<Rightarrow> js_or (ac c) 10)"
  show ?thesis
  proof (cases "js_ge (rollDie 20 (rs 0)) ac'")
    case True
    then have res: "res = Inr \<lparr>ar_attacker = p_name a, ar_target = p_name t,
        ar_roll = rollDie 20 (rs 0), ar_hit = True, ar_damage = rollDie 6 (rs 1),
        targetRemainingHp = Some (hp (apply_damage (p_character t) (rollDie 6 (rs 1))))\<rparr>"
      and R': "R' = R(gameId \<mapsto> g\<lparr>players := (players g)(targetId \<mapsto>
                  t\<lparr>p_character := Some (apply_damage (p_character t) (rollDie 6 (rs 1)))\<rparr>)\<rparr>)"
      using assms(2-5) by (simp_all add: attack_def Let_def ac'_def)
    have nn: "\<not> is_nil (Some (hp (apply_damage (p_character t) (rollDie 6 (rs 1)))))"
      by (intro number_not_nil apply_damage_is_number)
    show ?thesis
      using d d' nn
      by (simp add: res R' character_of_upd hp_of_def status_of_def char_hp_def char_status_def
          apply_damage_None)
  next
    case False
    then have res: "res = Inr \<lparr>ar_attacker = p_name a, ar_target = p_name t,
        ar_roll = rollDie 20 (rs 0), ar_hit = False, ar_damage = 0,
        targetRemainingHp = map_option hp (p_character t)\<rparr>"
      and R': "R' = R"
      using assms(2-5) by (simp_all add: attack_def Let_def ac'_def)
    show ?thesis by (simp add: res R')
  qed
qed

lemma attack_duel:
  "attack duel ''g1'' ''p1'' ''p2'' (\<lambda>_. 1/2)
     = (Inr \<lparr>ar_attacker = ''Rowan'', ar_target = ''Ash'', ar_roll = 11, ar_hit = True,
             ar_damage = 4, targetRemainingHp = Some (Num (- 4))\<rparr>,
        duel(''g1'' \<mapsto> duel_game\<lparr>players := (players duel_game)(''p2'' \<mapsto>
           ash\<lparr>p_character := Some (hp_only_character\<lparr>hp := Num (- 4),
                                     status := Some ''unconscious''\<rparr>)\<rparr>)\<rparr>))"
proof -
  have g: "getGame duel ''g1'' = Some duel_game" by (simp add: getGame_def duel_def)
  have p: "players duel_game ''p1'' = Some rowan" "players duel_game ''p2'' = Some ash"
    by (simp_all add: duel_game_def)
  have a: "p_character ash = None" "p_name ash = ''Ash''" "p_name rowan = ''Rowan''"
    by (simp_all add: ash_def rowan_def)
  show ?thesis
    by (simp add: attack_def g p a Let_def rollDie_def apply_damage_None)
qed

lemma attack_duel_miss:
  "attack duel ''g1'' ''p1'' ''p2'' (\<lambda>_. 1/4)
     = (Inr \<lparr>ar_attacker = ''Rowan'', ar_target = ''Ash'', ar_roll = 6, ar_hit = False,
             ar_damage = 0, targetRemainingHp = None\<rparr>, duel)"
proof -
  have g: "getGame duel ''g1'' = Some duel_game" by (simp add: getGame_def duel_def)
  have p: "players duel_game ''p1'' = Some rowan" "players duel_game ''p2'' = Some ash"
    by (simp_all add: duel_game_def)
  have a: "p_character ash = None" "p_name ash = ''Ash''" "p_name rowan = ''Rowan''"
    by (simp_all add: ash_def rowan_def)
  show ?thesis
    by (simp add: attack_def g p a Let_def rollDie_def)
qed

theorem attack_characterless_target_witness:
  "(\<forall>i::nat. 0 \<le> (1/2::rat) \<and> (1/2::rat) < 1)
   \<and> (\<forall>i::nat. 0 \<le> (1/4::rat) \<and> (1/4::rat) < 1)
   \<and> getGame duel ''g1'' = Some duel_game
   \<and> players duel_game ''p1'' = Some rowan
   \<and> players duel_game ''p2'' = Some ash
   \<and> p_character ash = None
   \<and> (\<exists>r. fst (attack duel ''g1'' ''p1'' ''p2'' (\<lambda>_. 1/2)) = Inr r
         \<and> ar_hit r \<and> ar_roll r = 11 \<and> ar_damage r = 4
         \<and> targetRemainingHp r = Some (Num (- 4))
         \<and> \<not> is_nil (targetRemainingHp r)
         \<and> hp_of (snd (attack duel ''g1'' ''p1'' ''p2'' (\<lambda>_. 1/2))) ''g1'' ''p2'' = Num (- 4)
         \<and> status_of (snd (attack duel ''g1'' ''p1'' ''p2'' (\<lambda>_. 1/2))) ''g1'' ''p2''
             = Some ''unconscious'')
   \<and> (\<exists>r. fst (attack duel ''g1'' ''p1'' ''p2'' (\<lambda>_. 1/4)) = Inr r
         \<and> \<not> ar_hit r \<and> ar_roll r = 6 \<and> is_nil (targetRemainingHp r)
         \<and> targetRemainingHp r = None
         \<and> snd (attack duel ''g1'' ''p1'' ''p2'' (\<lambda>_. 1/4)) = duel)"
proof -
  have h1: "\<forall>i::nat. 0 \<le> (\<lambda>_. 1/2::rat) i \<and> (\<lambda>_. 1/2::rat) i < 1" by simp
  have k1: "\<forall>i::nat. 0 \<le> (\<lambda>_. 1/4::rat) i \<and> (\<lambda>_. 1/4::rat) i < 1" by simp
  have h2: "getGame duel ''g1'' = Some duel_game" by (simp add: getGame_def duel_def)
  have h3: "players duel_game ''p1'' = Some rowan" by (simp add: duel_game_def)
  have h4: "players duel_game ''p2'' = Some ash" by (simp add: duel_game_def)
  have h5: "p_character ash = None" by (simp add: ash_def)
  have ev: "ar_roll (projr (fst (attack duel ''g1'' ''p1'' ''p2'' (\<lambda>_. 1/2)))) = 11"
    "ar_hit (projr (fst (attack duel ''g1'' ''p1'' ''p2'' (\<lambda>_. 1/2))))"
    "ar_damage (projr (fst (attack duel ''g1'' ''p1'' ''p2'' (\<lambda>_. 1/2)))) = 4"
    by (simp_all add: attack_duel)
  have ew: "ar_roll (projr (fst (attack duel ''g1'' ''p1'' ''p2'' (\<lambda>_. 1/4)))) = 6"
    "\<not> ar_hit (projr (fst (attack duel ''g1'' ''p1'' ''p2'' (\<lambda>_. 1/4))))"
    by (simp_all add: attack_duel_miss)
  have 1: "\<exists>r. fst (attack duel ''g1'' ''p1'' ''p2'' (\<lambda>_. 1/2)) = Inr r
         \<and> ar_hit r \<and> ar_roll r = 11 \<and> ar_damage r = 4
         \<and> targetRemainingHp r = Some (Num (- 4))
         \<and> \<not> is_nil (targetRemainingHp r)
         \<and> hp_of (snd (attack duel ''g1'' ''p1'' ''p2'' (\<lambda>_. 1/2))) ''g1'' ''p2'' = Num (- 4)
         \<and> status_of (snd (attack duel ''g1'' ''p1'' ''p2'' (\<lambda>_. 1/2))) ''g1'' ''p2''
             = Some ''unconscious''"
    using attack_characterless_target [OF h1 h2 h3 h4 prod.collapse [symmetric]] h5 ev by auto
  have 2: "\<exists>r. fst (attack duel ''g1'' ''p1'' ''p2'' (\<lambda>_. 1/4)) = Inr r
         \<and> \<not> ar_hit r \<and> ar_roll r = 6 \<and> is_nil (targetRemainingHp r)
         \<and> targetRemainingHp r = None
         \<and> snd (attack duel ''g1'' ''p1'' ''p2'' (\<lambda>_. 1/4)) = duel"
    using attack_characterless_target [OF k1 h2 h3 h4 prod.collapse [symmetric]] h5 ew by auto
  from 1 2 h2 h3 h4 h5 show ?thesis by simp
qed

text \<open>
  C9 as stated says that the report is nil only when the attack misses a target without
  a character. It is nil as well when the attack misses a target whose character has no
  hit points: \<open>giveItem\<close> creates such a character, \<open>{inventory: ['potion']}\<close>, and a
  miss on it reports \<open>undefined\<close>.
\<close>

theorem attack_reports_undefined_hp:
  "character_of gifted ''g1'' ''p2'' = Some (empty_character\<lparr>inventory := Some [''potion'']\<rparr>)
   \<and> fst (attack gifted ''g1'' ''p1'' ''p2'' quarter)
       = Inr \<lparr>ar_attacker = ''Rowan'', ar_target = ''Ash'', ar_roll = 6, ar_hit = False,
              ar_damage = 0, targetRemainingHp = Some Undefined\<rparr>
   \<and> is_nil (Some Undefined)"
proof -
  define C where "C = empty_character\<lparr>inventory := Some [''potion'']\<rparr>"
  define G where "G = duel_game\<lparr>players := (players duel_game)(''p2'' \<mapsto> ash\<lparr>p_character := Some C\<rparr>),
      g_log := [''Ash obtained Healing Potion.'']\<rparr>"
  have gi: "gifted = [''g1'' \<mapsto> G]"
    by (simp add: gifted_def giveItem_def small_rules_def potion_def addItemToPlayer_def
        createGame_def duel_def duel_game_def ash_def Let_def appendLog_def G_def C_def
        empty_character_def)
  have g: "getGame gifted ''g1'' = Some G" by (simp add: gi getGame_def)
  have p: "players G ''p1'' = Some rowan" "players G ''p2'' = Some (ash\<lparr>p_character := Some C\<rparr>)"
    by (simp_all add: G_def duel_game_def)
  have c: "ac C = Undefined" "hp C = Undefined" by (simp_all add: C_def empty_character_def)
  have 1: "character_of gifted ''g1'' ''p2'' = Some C"
    by (simp add: character_of_def getPlayer_def gi p)
  have 2: "fst (attack gifted ''g1'' ''p1'' ''p2'' quarter)
       = Inr \<lparr>ar_attacker = ''Rowan'', ar_target = ''Ash'', ar_roll = 6, ar_hit = False,
              ar_damage = 0, targetRemainingHp = Some Undefined\<rparr>"
    by (simp add: attack_def g p c Let_def rollDie_def js_or_def rowan_def ash_def quarter_def)
  show ?thesis using 1 2 by (simp add: C_def)
qed

section \<open>The leveling loop\<close>

text \<open>
  While the experience is at most \<open>2^53\<close> and the level at least 1, the loop computes on
  the integers: the threshold \<open>level * 1000\<close> is either exact or, rounded, still above
  \<open>2^53\<close>, and inside the loop the two updates are exact.
\<close>

lemma threshold_compare:
  assumes "1 \<le> l" "e \<le> 2 ^ 53"
  shows "js_geq (Num e) (binary64 (l * 1000)) = (l * 1000 \<le> e)"
proof (cases "l * 1000 \<le> 2 ^ 53")
  case True
  then have "binary64 (l * 1000) = Num (l * 1000)"
    using assms(1) by (intro binary64_exact) simp
  then show ?thesis by (simp add: js_geq_def)
next
  case False
  then have "9007199254740992 < l * 1000" by simp
  then have "9007199254741 \<le> l" by linarith
  then have "9007199254740994 \<le> l * 1000" by linarith
  then have big: "2 ^ 53 + 2 \<le> l * 1000" by simp
  have no: "\<not> l * 1000 \<le> e" using False assms(2) by simp
  from binary64_above [OF big] show ?thesis
  proof
    assume "binary64 (l * 1000) = PInf"
    then show ?thesis using no by (simp add: js_geq_def)
  next
    assume "\<exists>m. binary64 (l * 1000) = Num m \<and> 2 ^ 53 + 2 \<le> m"
    then obtain m where m: "binary64 (l * 1000) = Num m" "2 ^ 53 + 2 \<le> m" by blast
    then have "\<not> m \<le> e" using assms(2) by simp
    then show ?thesis using no m(1) by (simp add: js_geq_def)
  qed
qed

lemma level_cond_safe:
  assumes "experience c = Num e" "level c = Num l" "1 \<le> l" "e \<le> 2 ^ 53"
  shows "level_cond c = (l * 1000 \<le> e)"
  using assms by (simp add: level_cond_def threshold_compare)

lemma level_step_safe:
  assumes "experience c = Num e" "level c = Num l" "1 \<le> l" "l * 1000 \<le> e" "e \<le> 2 ^ 53"
  shows "level_step nm (c, lg) =
      (c\<lparr>experience := Num (e - l * 1000), level := Num (l + 1)\<rparr>,
       lg @ [level_up_message nm (Num (l + 1))])"
proof -
  have a: "binary64 (l * 1000) = Num (l * 1000)"
    using assms(3-5) by (intro binary64_exact) simp
  have b: "binary64 (e - l * 1000) = Num (e - l * 1000)"
    using assms(3-5) by (intro binary64_exact) simp
  have c: "binary64 (l + 1) = Num (l + 1)"
    using assms(3-5) by (intro binary64_exact) simp
  show ?thesis
    using assms(1,2) by (simp add: level_step_def Let_def js_minus_def a b c)
qed

lemma int_interval_head: "(l::int) < l' \<Longrightarrow> {l..<l'} = insert l {l + 1..<l'}"
  by auto

lemma level_loop_result:
  assumes "experience c = Num e" "level c = Num l" "1 \<le> l" "e \<le> 2 ^ 53"
  shows "\<exists>e' l'. level_loop nm (c, lg)
             = Some (c\<lparr>experience := Num e', level := Num l'\<rparr>,
                     lg @ map (\<lambda>k. level_up_message nm (Num k)) [l + 1..l'])
           \<and> l \<le> l' \<and> e' < l' * 1000 \<and> (0 \<le> e \<longrightarrow> 0 \<le> e')
           \<and> e = e' + (\<Sum>k = l..<l'. k * 1000)"
  using assms
proof (induction "nat e" arbitrary: e l c lg rule: less_induct)
  case less
  note cond = level_cond_safe [OF less.prems]
  show ?case
  proof (cases "l * 1000 \<le> e")
    case False
    have c: "c\<lparr>experience := Num e, level := Num l\<rparr> = c"
      using less.prems by simp
    have "level_loop nm (c, lg) = Some (c, lg)"
      using False by (subst level_loop.simps) (simp add: cond)
    then show ?thesis
      using False c by (intro exI [where x = e] exI [where x = l]) simp
  next
    case True
    define c1 where "c1 = c\<lparr>experience := Num (e - l * 1000), level := Num (l + 1)\<rparr>"
    define lg1 where "lg1 = lg @ [level_up_message nm (Num (l + 1))]"
    have st: "level_step nm (c, lg) = (c1, lg1)"
      using level_step_safe [OF less.prems(1-3) True less.prems(4)]
      by (simp add: c1_def lg1_def)
    have step: "level_loop nm (c, lg) = level_loop nm (c1, lg1)"
      using True by (subst level_loop.simps) (simp add: cond st)
    have e1: "0 \<le> e - l * 1000" "nat (e - l * 1000) < nat e" "e - l * 1000 \<le> 2 ^ 53"
      using True less.prems by auto
    have c1: "experience c1 = Num (e - l * 1000)" "level c1 = Num (l + 1)" "1 \<le> l + 1"
      using less.prems(3) by (simp_all add: c1_def)
    obtain e' l' where IH:
      "level_loop nm (c1, lg1)
         = Some (c1\<lparr>experience := Num e', level := Num l'\<rparr>,
                 lg1 @ map (\<lambda>k. level_up_message nm (Num k)) [l + 1 + 1..l'])"
      "l + 1 \<le> l'" "e' < l' * 1000" "0 \<le> e - l * 1000 \<longrightarrow> 0 \<le> e'"
      "e - l * 1000 = e' + (\<Sum>k = l + 1..<l'. k * 1000)"
      using less.hyps [OF e1(2) c1 e1(3), of lg1] by blast
    have upt: "[l + 1..l'] = (l + 1) # [l + 1 + 1..l']"
      using IH(2) by (simp add: upto_rec1)
    have sum: "(\<Sum>k = l..<l'. k * 1000) = l * 1000 + (\<Sum>k = l + 1..<l'. k * 1000)"
      using IH(2) by (subst int_interval_head) auto
    have c': "c1\<lparr>experience := Num e', level := Num l'\<rparr> = c\<lparr>experience := Num e', level := Num l'\<rparr>"
      by (simp add: c1_def)
    have "level_loop nm (c, lg)
             = Some (c\<lparr>experience := Num e', level := Num l'\<rparr>,
                     lg @ map (\<lambda>k. level_up_message nm (Num k)) [l + 1..l'])"
      using IH(1) unfolding step c' upt lg1_def by simp
    moreover have "l \<le> l'" "0 \<le> e \<longrightarrow> 0 \<le> e'" "e = e' + (\<Sum>k = l..<l'. k * 1000)"
      using IH e1 sum by auto
    ultimately show ?thesis
      using IH(3) by blast
  qed
qed

text \<open>
  The experience the loop starts from is a rounded sum. When the exact sum is at most
  \<open>2^53\<close> the loop returns, also where the sum is so far below 0 that it is rounded.
\<close>

lemma level_loop_start:
  assumes "level c = Num l" "1 \<le> l" "experience c = binary64 x" "x \<le> 2 ^ 53"
  shows "\<exists>r. level_loop nm (c, lg) = Some r"
proof (cases "- (2 ^ 53) \<le> x")
  case True
  then have "binary64 x = Num x" using assms(4) by (intro binary64_exact) simp
  then have "experience c = Num x" using assms(3) by simp
  from level_loop_result [OF this assms(1,2,4), of nm lg] show ?thesis by blast
next
  case False
  then have "x < 0" by simp
  from binary64_negative [OF this] show ?thesis
  proof
    assume inf: "binary64 x = NInf"
    have "binary64 (l * 1000) = PInf \<or> (\<exists>m. binary64 (l * 1000) = Num m \<and> 0 \<le> m)"
      using assms(2) by (intro binary64_lower) simp_all
    then have "\<not> js_geq NInf (binary64 (l * 1000))" by (auto simp: js_geq_def)
    then have "\<not> level_cond c" using assms(1,3) inf by (simp add: level_cond_def)
    then have "level_loop nm (c, lg) = Some (c, lg)" by (subst level_loop.simps) simp
    then show ?thesis by blast
  next
    assume "\<exists>m. binary64 x = Num m \<and> m \<le> 0"
    then obtain m where m: "binary64 x = Num m" "m \<le> 0" by blast
    have "experience c = Num m" using assms(3) m(1) by simp
    moreover have "m \<le> 2 ^ 53" using m(2) by simp
    ultimately show ?thesis
      using level_loop_result [of c m l nm lg] assms(1,2) by blast
  qed
qed

lemma level_step_fields:
  "\<exists>x y. fst (level_step nm s) = (fst s)\<lparr>experience := x, level := y\<rparr>"
  by (simp add: level_step_def Let_def) blast

lemma level_loop_fields:
  assumes "level_loop nm s = Some s'"
  shows "\<exists>x y. fst s' = (fst s)\<lparr>experience := x, level := y\<rparr>"
proof (rule level_loop.raw_induct
    [where P = "\<lambda>nm s s'. \<exists>x y. fst s' = (fst s)\<lparr>experience := x, level := y\<rparr>"
       and nm = nm and s = s and y = s'])
  fix f nm s s'
  assume IH: "\<And>a b y. f a b = Some y \<Longrightarrow> \<exists>x y'. fst y = (fst b)\<lparr>experience := x, level := y'\<rparr>"
    and eq: "(if level_cond (fst s) then f nm (level_step nm s) else Some s) = Some s'"
  show "\<exists>x y. fst s' = (fst s)\<lparr>experience := x, level := y\<rparr>"
  proof (cases "level_cond (fst s)")
    case True
    with eq have "f nm (level_step nm s) = Some s'" by simp
    from IH [OF this] obtain x y
      where a: "fst s' = (fst (level_step nm s))\<lparr>experience := x, level := y\<rparr>"
      by blast
    obtain x' y' where b: "fst (level_step nm s) = (fst s)\<lparr>experience := x', level := y'\<rparr>"
      using level_step_fields by blast
    show ?thesis unfolding a b by (intro exI [where x = x] exI [where x = y]) simp
  next
    case False
    with eq have "s' = s" by simp
    then show ?thesis
      by (intro exI [where x = "experience (fst s)"] exI [where x = "level (fst s)"]) simp
  qed
next
  show "level_loop nm s = Some s'" by fact
qed

text \<open>
  A character on which the condition holds and which an iteration leaves as it is: the
  loop does not return from it, whatever the log.
\<close>

lemma level_loop_stuck:
  assumes "level_cond c" and "\<And>lg. fst (level_step nm (c, lg)) = c"
  shows "level_loop nm (c, lg) = None"
proof (rule ccontr)
  assume "level_loop nm (c, lg) \<noteq> None"
  then obtain y where y: "level_loop nm (c, lg) = Some y" by auto
  have "nm = nm \<longrightarrow> fst (c, lg) \<noteq> c"
  proof (rule level_loop.raw_induct
      [where P = "\<lambda>nm' s s'. nm' = nm \<longrightarrow> fst s \<noteq> c" and nm = nm and s = "(c, lg)" and y = y])
    fix f nm' s s'
    assume IH: "\<And>a b y. f a b = Some y \<Longrightarrow> a = nm \<longrightarrow> fst b \<noteq> c"
      and eq: "(if level_cond (fst s) then f nm' (level_step nm' s) else Some s) = Some s'"
    show "nm' = nm \<longrightarrow> fst s \<noteq> c"
    proof (intro impI notI)
      assume n: "nm' = nm" and s: "fst s = c"
      then have "f nm (level_step nm s) = Some s'" using eq assms(1) by simp
      from IH [OF this] have "fst (level_step nm s) \<noteq> c" by simp
      moreover have "s = (c, snd s)" using s by (cases s) simp
      ultimately show False using assms(2) [of "snd s"] by metis
    qed
  next
    show "level_loop nm (c, lg) = Some y" by fact
  qed
  then show False by simp
qed

text \<open>Rounding at the numbers of the two large characters.\<close>

lemma nearest_eval:
  assumes "2 ^ 53 * 2 ^ k \<le> n" "n < 2 ^ 53 * 2 ^ Suc k"
  shows "nearest n =
     (if 2 * (n mod 2 ^ Suc k) < 2 ^ Suc k \<or> (2 * (n mod 2 ^ Suc k) = 2 ^ Suc k \<and> even (n div 2 ^ Suc k))
      then n div 2 ^ Suc k * 2 ^ Suc k else (n div 2 ^ Suc k + 1) * 2 ^ Suc k)"
  by (simp add: nearest_def ulp_range [OF assms] Let_def)

lemma round_tie: "binary64 (2 ^ 53 + 1) = Num (2 ^ 53)"
proof -
  have "nearest 9007199254740993 = 9007199254740992"
    using nearest_eval [of 0 9007199254740993] by simp
  then show ?thesis by (simp add: binary64_def Let_def)
qed

lemma round_titan:
  "binary64 (2 ^ 120 + 0) = Num (2 ^ 120)"
  "binary64 (2 ^ 53 * 1000) = Num (2 ^ 53 * 1000)"
  "binary64 (2 ^ 120 - 2 ^ 53 * 1000) = Num (2 ^ 120)"
proof -
  have 1: "nearest (2 ^ 120) = 2 ^ 120"
    using nearest_eval [of 67 "2 ^ 120"] by simp
  have 2: "nearest (2 ^ 53 * 1000) = 2 ^ 53 * 1000"
    using nearest_eval [of 9 "2 ^ 53 * 1000"] by simp
  have 3: "nearest (2 ^ 120 - 2 ^ 53 * 1000) = 2 ^ 120"
    using nearest_eval [of 66 "2 ^ 120 - 2 ^ 53 * 1000"] by simp
  have n: "nat \<bar>2 ^ 120 + 0 :: int\<bar> = 2 ^ 120" "nat \<bar>2 ^ 53 * 1000 :: int\<bar> = 2 ^ 53 * 1000"
    "nat \<bar>2 ^ 120 - 2 ^ 53 * 1000 :: int\<bar> = 2 ^ 120 - 2 ^ 53 * 1000"
    by simp_all
  show "binary64 (2 ^ 120 + 0) = Num (2 ^ 120)"
    unfolding binary64_def n 1 by (simp add: Let_def)
  show "binary64 (2 ^ 53 * 1000) = Num (2 ^ 53 * 1000)"
    unfolding binary64_def n 2 by (simp add: Let_def)
  show "binary64 (2 ^ 120 - 2 ^ 53 * 1000) = Num (2 ^ 120)"
    unfolding binary64_def n 3 by (simp add: Let_def)
qed

lemma titan_stuck:
  "level_cond titan" "fst (level_step nm (titan, lg)) = titan"
proof -
  have f: "experience titan = Num (2 ^ 120)" "level titan = Num (2 ^ 53)"
    by (simp_all add: titan_def)
  show "level_cond titan"
    unfolding level_cond_def f using round_titan(2) by (simp add: js_geq_def)
  have "js_minus (Num (2 ^ 120)) (js_mul (Num (2 ^ 53)) 1000) = Num (2 ^ 120)"
    using round_titan(2,3) by (simp add: js_minus_def)
  moreover have "js_add (Num (2 ^ 53)) 1 = Num (2 ^ 53)"
    using round_tie by simp
  ultimately show "fst (level_step nm (titan, lg)) = titan"
    unfolding level_step_def Let_def fst_conv f by (simp add: titan_def)
qed

section \<open>Experience and levels\<close>

lemma addExperience_found:
  assumes "getGame R gameId = Some g" "players g playerId = Some p" "p_character p = Some c"
    and "level_loop (p_name p) (c\<lparr>experience := js_add (js_or (experience c) 0) X\<rparr>, g_log g)
           = Some (c', lg)"
  shows "addExperience R gameId playerId X
           = Some (Some (p\<lparr>p_character := Some c'\<rparr>),
                   R(gameId \<mapsto> g\<lparr>players := (players g)(playerId \<mapsto> p\<lparr>p_character := Some c'\<rparr>),
                                     g_log := lg\<rparr>))"
  using assms by (simp add: addExperience_def getGame_def Let_def)

text \<open>
  C4, within the range where binary64 is exact. For a player whose character has level
  \<open>L \<ge> 1\<close> and experience \<open>E \<ge> 0\<close>, and for \<open>X \<ge> 0\<close> with \<open>E + X \<le> 2^53\<close>,
  \<open>addExperience\<close> returns the player with level \<open>L'\<close> and experience \<open>E'\<close> such that
  \<open>0 \<le> E' < L' * 1000\<close> and \<open>E + X = E' + (\<Sum>k = L..<L'. k * 1000)\<close>; the log gains
  one level-up line for each of the levels \<open>L + 1, ..., L'\<close>, so \<open>L' - L\<close> lines, and
  nothing else changes.
\<close>

theorem addExperience_levels:
  assumes "R gameId = Some g" "players g playerId = Some p" "p_character p = Some c"
    and "level c = Num L" "experience c = Num E" "1 \<le> L" "0 \<le> E" "0 \<le> X"
    and "E + X \<le> 2 ^ 53"
  shows "\<exists>L' E'. addExperience R gameId playerId X
            = Some (Some (p\<lparr>p_character := Some (c\<lparr>experience := Num E', level := Num L'\<rparr>)\<rparr>),
                    R(gameId \<mapsto> g\<lparr>players := (players g)(playerId \<mapsto>
                         p\<lparr>p_character := Some (c\<lparr>experience := Num E', level := Num L'\<rparr>)\<rparr>),
                       g_log := g_log g @ map (\<lambda>k. level_up_message (p_name p) (Num k)) [L + 1..L']\<rparr>))
          \<and> 0 \<le> E' \<and> E' < L' * 1000 \<and> L \<le> L'
          \<and> E + X = E' + (\<Sum>k = L..<L'. k * 1000)
          \<and> length (map (\<lambda>k. level_up_message (p_name p) (Num k)) [L + 1..L']) = nat (L' - L)"
proof -
  define c0 where "c0 = c\<lparr>experience := js_add (js_or (experience c) 0) X\<rparr>"
  have "binary64 (E + X) = Num (E + X)"
    using assms(7-9) by (intro binary64_exact) simp
  then have c0: "experience c0 = Num (E + X)" "level c0 = Num L"
    using assms(4,5) by (simp_all add: c0_def js_or_Num)
  obtain E' L' where r:
    "level_loop (p_name p) (c0, g_log g)
       = Some (c0\<lparr>experience := Num E', level := Num L'\<rparr>,
               g_log g @ map (\<lambda>k. level_up_message (p_name p) (Num k)) [L + 1..L'])"
    "L \<le> L'" "E' < L' * 1000" "0 \<le> E + X \<longrightarrow> 0 \<le> E'"
    "E + X = E' + (\<Sum>k = L..<L'. k * 1000)"
    using level_loop_result [OF c0 assms(6,9), of "p_name p" "g_log g"] by blast
  have c': "c0\<lparr>experience := Num E', level := Num L'\<rparr> = c\<lparr>experience := Num E', level := Num L'\<rparr>"
    by (simp add: c0_def)
  have "addExperience R gameId playerId X
            = Some (Some (p\<lparr>p_character := Some (c\<lparr>experience := Num E', level := Num L'\<rparr>)\<rparr>),
                    R(gameId \<mapsto> g\<lparr>players := (players g)(playerId \<mapsto>
                         p\<lparr>p_character := Some (c\<lparr>experience := Num E', level := Num L'\<rparr>)\<rparr>),
                       g_log := g_log g @ map (\<lambda>k. level_up_message (p_name p) (Num k)) [L + 1..L']\<rparr>))"
    using r(1) assms(1) unfolding c' c0_def
    by (intro addExperience_found [OF _ assms(2,3)]) (simp_all add: getGame_def)
  moreover have "length (map (\<lambda>k. level_up_message (p_name p) (Num k)) [L + 1..L']) = nat (L' - L)"
    by simp
  moreover have "0 \<le> E'" using r(4) assms(7,8) by simp
  ultimately show ?thesis using r(2,3,5) by blast
qed

lemma novice_levels:
  "level_loop ''Rowan'' (novice\<lparr>experience := Num 3500\<rparr>, lg)
     = Some (novice\<lparr>experience := Num 500, level := Num 3\<rparr>,
             lg @ [level_up_message ''Rowan'' (Num 2), level_up_message ''Rowan'' (Num 3)])"
proof -
  have 1: "level_step ''Rowan'' (novice\<lparr>experience := Num 3500\<rparr>, lg)
      = (novice\<lparr>experience := Num 2500, level := Num 2\<rparr>, lg @ [level_up_message ''Rowan'' (Num 2)])"
    using level_step_safe [of "novice\<lparr>experience := Num 3500\<rparr>" 3500 1 "''Rowan''" lg]
    by (simp add: novice_def)
  have 2: "level_step ''Rowan'' (novice\<lparr>experience := Num 2500, level := Num 2\<rparr>, lg')
      = (novice\<lparr>experience := Num 500, level := Num 3\<rparr>, lg' @ [level_up_message ''Rowan'' (Num 3)])"
    for lg'
    using level_step_safe [of "novice\<lparr>experience := Num 2500, level := Num 2\<rparr>" 2500 2 "''Rowan''" lg']
    by (simp add: novice_def)
  have c: "level_cond (novice\<lparr>experience := Num 3500\<rparr>)"
    "level_cond (novice\<lparr>experience := Num 2500, level := Num 2\<rparr>)"
    "\<not> level_cond (novice\<lparr>experience := Num 500, level := Num 3\<rparr>)"
    by (simp_all add: level_cond_safe [where e = 3500 and l = 1]
        level_cond_safe [where e = 2500 and l = 2] level_cond_safe [where e = 500 and l = 3]
        novice_def)
  show ?thesis
    apply (subst level_loop.simps, simp add: c 1)
    apply (subst level_loop.simps, simp add: c 2)
    apply (subst level_loop.simps, simp add: c)
    done
qed

theorem addExperience_levels_witness:
  "duel ''g1'' = Some duel_game \<and> players duel_game ''p1'' = Some rowan
   \<and> p_character rowan = Some novice \<and> level novice = Num 1 \<and> experience novice = Num 0
   \<and> (1::int) \<le> 1 \<and> (0::int) \<le> 0 \<and> (0::int) \<le> 3500 \<and> (0::int) + 3500 \<le> 2 ^ 53
   \<and> (\<exists>L' E'. addExperience duel ''g1'' ''p1'' 3500
            = Some (Some (rowan\<lparr>p_character := Some (novice\<lparr>experience := Num E', level := Num L'\<rparr>)\<rparr>),
                    duel(''g1'' \<mapsto> duel_game\<lparr>players := (players duel_game)(''p1'' \<mapsto>
                         rowan\<lparr>p_character := Some (novice\<lparr>experience := Num E', level := Num L'\<rparr>)\<rparr>),
                       g_log := g_log duel_game
                         @ map (\<lambda>k. level_up_message (p_name rowan) (Num k)) [1 + 1..L']\<rparr>))
          \<and> 0 \<le> E' \<and> E' < L' * 1000 \<and> 1 \<le> L'
          \<and> 0 + 3500 = E' + (\<Sum>k = 1..<L'. k * 1000)
          \<and> length (map (\<lambda>k. level_up_message (p_name rowan) (Num k)) [1 + 1..L']) = nat (L' - 1))
   \<and> (\<exists>R. addExperience duel ''g1'' ''p1'' 3500
          = Some (Some (rowan\<lparr>p_character := Some (novice\<lparr>experience := Num 500,
                                                             level := Num 3\<rparr>)\<rparr>), R))"
proof -
  have h: "duel ''g1'' = Some duel_game" "players duel_game ''p1'' = Some rowan"
    "p_character rowan = Some novice" "level novice = Num 1" "experience novice = Num 0"
    by (simp_all add: duel_def duel_game_def rowan_def novice_def)
  have s: "js_add (js_or (experience novice) 0) 3500 = Num 3500"
    by (simp add: novice_def js_or_def binary64_exact)
  have n: "p_name rowan = ''Rowan''" by (simp add: rowan_def)
  have ev: "\<exists>R. addExperience duel ''g1'' ''p1'' 3500
      = Some (Some (rowan\<lparr>p_character := Some (novice\<lparr>experience := Num 500,
                                                         level := Num 3\<rparr>)\<rparr>), R)"
    using addExperience_found [OF _ h(2,3), of duel "''g1''" 3500] h(1)
      novice_levels [of "g_log duel_game"]
    unfolding s n by (simp add: getGame_def)
  from addExperience_levels [of duel "''g1''" duel_game "''p1''" rowan novice 1 0 3500] h ev
  show ?thesis by simp
qed

text \<open>
  C4 as stated, for all integers, fails where the sum is not representable. Vera has
  \<open>2^53\<close> experience points at level \<open>9 * 10^12\<close>; one more point is lost in the
  addition (\<open>2^53 + 1\<close> rounds to \<open>2^53\<close>), the loop runs once, and she ends at level
  \<open>9 * 10^12 + 1\<close> with 7199254740992 points: with the one threshold crossed,
  \<open>9 * 10^12 * 1000\<close>, that makes \<open>2^53\<close>, not \<open>2^53 + 1\<close>.
\<close>

theorem addExperience_rounds_sum:
  "league ''g1'' = Some league_game \<and> players league_game ''p1'' = Some vera
   \<and> p_character vera = Some veteran
   \<and> level veteran = Num 9000000000000 \<and> experience veteran = Num 9007199254740992
   \<and> addExperience league ''g1'' ''p1'' 1
       = Some (Some (vera\<lparr>p_character := Some (veteran\<lparr>experience := Num 7199254740992,
                                                        level := Num 9000000000001\<rparr>)\<rparr>),
               league(''g1'' \<mapsto> league_game\<lparr>players := (players league_game)(''p1'' \<mapsto>
                  vera\<lparr>p_character := Some (veteran\<lparr>experience := Num 7199254740992,
                                                     level := Num 9000000000001\<rparr>)\<rparr>),
                  g_log := [level_up_message ''Vera'' (Num 9000000000001)]\<rparr>))
   \<and> (9007199254740992::int) + 1 \<noteq> 7199254740992 + 9000000000000 * 1000"
proof -
  have h: "league ''g1'' = Some league_game" "players league_game ''p1'' = Some vera"
    "p_character vera = Some veteran" "level veteran = Num 9000000000000"
    "experience veteran = Num 9007199254740992" "p_name vera = ''Vera''" "g_log league_game = []"
    by (simp_all add: league_def league_game_def vera_def veteran_def)
  have s: "js_add (js_or (experience veteran) 0) 1 = Num 9007199254740992"
    using round_tie by (simp add: h js_or_def)
  define v0 where "v0 = veteran\<lparr>experience := Num 9007199254740992\<rparr>"
  define v1 where "v1 = veteran\<lparr>experience := Num 7199254740992, level := Num 9000000000001\<rparr>"
  have f0: "experience v0 = Num 9007199254740992" "level v0 = Num 9000000000000"
    by (simp_all add: v0_def veteran_def)
  have f1: "experience v1 = Num 7199254740992" "level v1 = Num 9000000000001"
    by (simp_all add: v1_def)
  have c0: "level_cond v0" using level_cond_safe [OF f0] by simp
  have c1: "\<not> level_cond v1" using level_cond_safe [OF f1] by simp
  have st: "level_step ''Vera'' (v0, []) = (v1, [level_up_message ''Vera'' (Num 9000000000001)])"
    using level_step_safe [OF f0, of "''Vera''" "[]"] by (simp add: v0_def v1_def)
  have "level_loop ''Vera'' (v0, []) = Some (v1, [level_up_message ''Vera'' (Num 9000000000001)])"
    apply (subst level_loop.simps, simp add: c0 st)
    apply (subst level_loop.simps, simp add: c1)
    done
  then have "addExperience league ''g1'' ''p1'' 1
       = Some (Some (vera\<lparr>p_character := Some v1\<rparr>),
               league(''g1'' \<mapsto> league_game\<lparr>players := (players league_game)(''p1'' \<mapsto>
                  vera\<lparr>p_character := Some v1\<rparr>),
                  g_log := [level_up_message ''Vera'' (Num 9000000000001)]\<rparr>))"
    using addExperience_found [OF _ h(2,3), of league "''g1''" 1] h(1)
    unfolding s h(6,7) v0_def [symmetric] by (simp add: getGame_def)
  then show ?thesis using h(1-5) unfolding v1_def by simp
qed

lemma setCharacter_level:
  "\<exists>p' G. snd (setCharacter R gameId playerId ch) gameId = Some G
     \<and> players G playerId = Some p'
     \<and> fst (setCharacter R gameId playerId ch) = p'
     \<and> (\<exists>c'. p_character p' = Some c'
           \<and> level c' = (if level ch \<noteq> Undefined then level ch
                          else case character_of R gameId playerId of
                                 None \<Rightarrow> Num 1
                               | Some c \<Rightarrow> if level c = Undefined then Num 1 else level c))"
  by (cases "R gameId")
     (auto simp: setCharacter_def createGame_def Let_def spread_def or_num_def character_of_def
        getPlayer_def empty_character_def split: option.splits)

text \<open>
  C10, within the range where binary64 is exact. \<open>addExperience\<close> returns for every
  character whose level is an integer \<open>L \<ge> 1\<close> and whose experience \<open>E\<close> and reward
  \<open>X\<close> are integers with \<open>E + X \<le> 2^53\<close>. The reason: an iteration of the loop at a
  level \<open>l \<ge> 1\<close> with experience at most \<open>2^53\<close> raises the level by one and lowers
  the experience by \<open>l * 1000 \<ge> 1000\<close>, and leaves it non-negative. The argument
  needs \<open>l \<ge> 1\<close>: at level 0 with experience \<open>\<ge> 0\<close> an iteration runs and leaves the
  experience as it was. Level 0 can be stored: \<open>setCharacter\<close> keeps a supplied level
  whatever it is, keeps the stored level when none is supplied, and writes 1 only when
  there is neither.
\<close>

theorem addExperience_terminates:
  assumes "R gameId = Some g" "players g playerId = Some p" "p_character p = Some c"
    and "level c = Num L" "1 \<le> L" "experience c = Num E" "E + X \<le> 2 ^ 53"
  shows "(\<exists>r. addExperience R gameId playerId X = Some r)
    \<and> (level c1 = Num l \<and> 1 \<le> l \<and> experience c1 = Num e \<and> e \<le> 2 ^ 53 \<and> level_cond c1 \<longrightarrow>
           level (fst (level_step nm (c1, lg))) = Num (l + 1)
         \<and> experience (fst (level_step nm (c1, lg))) = Num (e - l * 1000)
         \<and> e - l * 1000 \<le> e - 1000 \<and> 0 \<le> e - l * 1000)
    \<and> (\<exists>c'. character_of (snd (setCharacter R0 g0 p0 ch)) g0 p0 = Some c'
           \<and> level c' = (if level ch \<noteq> Undefined then level ch
                          else case character_of R0 g0 p0 of
                                 None \<Rightarrow> Num 1
                               | Some c \<Rightarrow> if level c = Undefined then Num 1 else level c))
    \<and> (experience c0 = Num e0 \<and> level c0 = Num 0 \<and> 0 \<le> e0 \<and> e0 \<le> 2 ^ 53 \<longrightarrow>
           level_cond c0 \<and> experience (fst (level_step nm (c0, lg))) = Num e0)"
proof -
  define s where "s = c\<lparr>experience := js_add (js_or (experience c) 0) X\<rparr>"
  have "level s = Num L" "experience s = binary64 (E + X)"
    using assms(4,6) by (simp_all add: s_def js_or_Num)
  from level_loop_start [OF this(1) assms(5) this(2) assms(7), of "p_name p" "g_log g"]
  obtain c' lg' where "level_loop (p_name p) (s, g_log g) = Some (c', lg')" by auto
  then have 1: "\<exists>r. addExperience R gameId playerId X = Some r"
    using addExperience_found [OF _ assms(2,3), of R gameId X c' lg'] assms(1)
    by (simp add: s_def getGame_def)
  have 2: "level c1 = Num l \<and> 1 \<le> l \<and> experience c1 = Num e \<and> e \<le> 2 ^ 53 \<and> level_cond c1 \<longrightarrow>
           level (fst (level_step nm (c1, lg))) = Num (l + 1)
         \<and> experience (fst (level_step nm (c1, lg))) = Num (e - l * 1000)
         \<and> e - l * 1000 \<le> e - 1000 \<and> 0 \<le> e - l * 1000"
  proof (intro impI)
    assume a: "level c1 = Num l \<and> 1 \<le> l \<and> experience c1 = Num e \<and> e \<le> 2 ^ 53 \<and> level_cond c1"
    then have le: "l * 1000 \<le> e" using level_cond_safe [of c1 e l] by simp
    have "level_step nm (c1, lg) =
      (c1\<lparr>experience := Num (e - l * 1000), level := Num (l + 1)\<rparr>,
       lg @ [level_up_message nm (Num (l + 1))])"
      using a le by (intro level_step_safe) simp_all
    then show "level (fst (level_step nm (c1, lg))) = Num (l + 1)
         \<and> experience (fst (level_step nm (c1, lg))) = Num (e - l * 1000)
         \<and> e - l * 1000 \<le> e - 1000 \<and> 0 \<le> e - l * 1000"
      using a le by simp
  qed
  obtain p' G c' where s: "snd (setCharacter R0 g0 p0 ch) g0 = Some G"
     "players G p0 = Some p'" "p_character p' = Some c'"
     "level c' = (if level ch \<noteq> Undefined then level ch
                          else case character_of R0 g0 p0 of
                                 None \<Rightarrow> Num 1
                               | Some c \<Rightarrow> if level c = Undefined then Num 1 else level c)"
    using setCharacter_level [of R0 g0 p0 ch] by blast
  have "character_of (snd (setCharacter R0 g0 p0 ch)) g0 p0 = Some c'"
    using s(1-3) by (simp add: character_of_def getPlayer_def)
  with s(4) have 3: "\<exists>c'. character_of (snd (setCharacter R0 g0 p0 ch)) g0 p0 = Some c'
           \<and> level c' = (if level ch \<noteq> Undefined then level ch
                          else case character_of R0 g0 p0 of
                                 None \<Rightarrow> Num 1
                               | Some c \<Rightarrow> if level c = Undefined then Num 1 else level c)"
    by blast
  have 4: "experience c0 = Num e0 \<and> level c0 = Num 0 \<and> 0 \<le> e0 \<and> e0 \<le> 2 ^ 53 \<longrightarrow>
           level_cond c0 \<and> experience (fst (level_step nm (c0, lg))) = Num e0"
    by (simp add: level_step_def level_cond_def Let_def js_geq_def js_minus_def binary64_exact)
  from 1 2 3 4 show ?thesis by blast
qed

theorem addExperience_terminates_witness:
  "duel ''g1'' = Some duel_game \<and> players duel_game ''p1'' = Some rowan
   \<and> p_character rowan = Some novice \<and> level novice = Num 1 \<and> (1::int) \<le> 1
   \<and> experience novice = Num 0 \<and> (0::int) + 3500 \<le> 2 ^ 53
   \<and> (\<exists>r. addExperience duel ''g1'' ''p1'' 3500 = Some r)
   \<and> level (novice\<lparr>experience := Num 3500\<rparr>) = Num 1
   \<and> experience (novice\<lparr>experience := Num 3500\<rparr>) = Num 3500 \<and> (3500::int) \<le> 2 ^ 53
   \<and> level_cond (novice\<lparr>experience := Num 3500\<rparr>)
   \<and> level (fst (level_step ''Rowan'' (novice\<lparr>experience := Num 3500\<rparr>, []))) = Num 2
   \<and> experience (fst (level_step ''Rowan'' (novice\<lparr>experience := Num 3500\<rparr>, []))) = Num 2500
   \<and> (\<exists>c'. character_of (snd (setCharacter duel ''g1'' ''p2'' (empty_character\<lparr>level := Num 0\<rparr>)))
               ''g1'' ''p2'' = Some c' \<and> level c' = Num 0)
   \<and> experience (novice\<lparr>level := Num 0\<rparr>) = Num 0 \<and> level (novice\<lparr>level := Num 0\<rparr>) = Num 0
   \<and> level_cond (novice\<lparr>level := Num 0\<rparr>)
   \<and> experience (fst (level_step ''Rowan'' (novice\<lparr>level := Num 0\<rparr>, []))) = Num 0"
proof -
  have h: "duel ''g1'' = Some duel_game" "players duel_game ''p1'' = Some rowan"
    "p_character rowan = Some novice" "level novice = Num 1" "(1::int) \<le> 1"
    "experience novice = Num 0" "(0::int) + 3500 \<le> 2 ^ 53"
    by (simp_all add: duel_def duel_game_def rowan_def novice_def)
  have k: "level (novice\<lparr>experience := Num 3500\<rparr>) = Num 1"
    "experience (novice\<lparr>experience := Num 3500\<rparr>) = Num 3500"
    "level_cond (novice\<lparr>experience := Num 3500\<rparr>)"
    "experience (novice\<lparr>level := Num 0\<rparr>) = Num 0" "level (novice\<lparr>level := Num 0\<rparr>) = Num 0"
    "level (empty_character\<lparr>level := Num 0\<rparr>) = Num 0"
    by (simp_all add: novice_def level_cond_def js_geq_def binary64_exact)
  from addExperience_terminates [of duel "''g1''" duel_game "''p1''" rowan novice 1 0 3500
      "novice\<lparr>experience := Num 3500\<rparr>" 1 3500 "''Rowan''" "[]" duel "''g1''" "''p2''"
      "empty_character\<lparr>level := Num 0\<rparr>" "novice\<lparr>level := Num 0\<rparr>" 0] h k
  show ?thesis by simp
qed

text \<open>
  C10 as stated, for all finite integers, fails: Atlas is at level \<open>2^53\<close> with
  \<open>2^120\<close> experience points. The condition of the loop holds, and an iteration changes
  nothing: \<open>2^120 - 2^53 * 1000\<close> rounds to \<open>2^120\<close> and \<open>2^53 + 1\<close> to \<open>2^53\<close>.
  \<open>addExperience\<close> does not return.
\<close>

theorem addExperience_never_returns:
  "league ''g1'' = Some league_game \<and> players league_game ''p2'' = Some atlas
   \<and> p_character atlas = Some titan
   \<and> level titan = Num (2 ^ 53) \<and> experience titan = Num (2 ^ 120)
   \<and> level_cond titan \<and> fst (level_step ''Atlas'' (titan, [])) = titan
   \<and> addExperience league ''g1'' ''p2'' 0 = None"
proof -
  have h: "league ''g1'' = Some league_game" "players league_game ''p2'' = Some atlas"
    "p_character atlas = Some titan" "level titan = Num (2 ^ 53)"
    "experience titan = Num (2 ^ 120)" "p_name atlas = ''Atlas''"
    by (simp_all add: league_def league_game_def atlas_def titan_def)
  have s: "titan\<lparr>experience := js_add (js_or (experience titan) 0) 0\<rparr> = titan"
    using round_titan(1) by (simp add: titan_def js_or_def)
  have "level_loop ''Atlas'' (titan, g_log league_game) = None"
    by (rule level_loop_stuck) (rule titan_stuck)+
  then have "addExperience league ''g1'' ''p2'' 0 = None"
    using h(1-3,6) by (simp add: addExperience_def s)
  then show ?thesis using h(1-5) titan_stuck by simp
qed

section \<open>The armour class used by \<open>attack\<close>\<close>

text \<open>
  C1 at a target whose armour class is 0. The d20 roll is 6, so by the claim (hit iff
  roll \<open>\<ge>\<close> armour class) the attack hits; \<open>attack\<close> reads a falsy armour class as 10
  and reports a miss, with no damage and the registry unchanged. \<open>monsterAttack\<close>, which
  tests \<open>typeof ac === 'number'\<close>, hits the same target with the same roll.
\<close>

theorem attack_zero_armour_class:
  "character_of ambush ''g1'' ''p2'' = Some exposed \<and> ac exposed = Num 0
   \<and> attack ambush ''g1'' ''p1'' ''p2'' (\<lambda>_. 1/4)
       = (Inr \<lparr>ar_attacker = ''Rowan'', ar_target = ''Ash'', ar_roll = 6, ar_hit = False,
               ar_damage = 0, targetRemainingHp = Some (Num 8)\<rparr>, ambush)
   \<and> (0::int) \<le> 6
   \<and> fst (monsterAttack small_rules ambush ''g1'' ''m1'' ''p2'' (\<lambda>_. 1/4))
       = Inr \<lparr>ar_attacker = ''orc'', ar_target = ''Ash'', ar_roll = 6, ar_hit = True,
              ar_damage = 3, targetRemainingHp = Some (Num 5)\<rparr>"
proof -
  have g: "getGame ambush ''g1'' = Some ambush_game" by (simp add: getGame_def ambush_def)
  have p: "players ambush_game ''p1'' = Some rowan"
    "players ambush_game ''p2'' = Some (ash\<lparr>p_character := Some exposed\<rparr>)"
    "monsters ambush_game ''m1'' = Some orc"
    by (simp_all add: ambush_game_def)
  have e: "ac exposed = Num 0" "hp exposed = Num 8" "status exposed = None"
    by (simp_all add: exposed_def empty_character_def)
  have 1: "character_of ambush ''g1'' ''p2'' = Some exposed"
    by (simp add: character_of_def getPlayer_def ambush_def p)
  have 2: "attack ambush ''g1'' ''p1'' ''p2'' (\<lambda>_. 1/4)
       = (Inr \<lparr>ar_attacker = ''Rowan'', ar_target = ''Ash'', ar_roll = 6, ar_hit = False,
               ar_damage = 0, targetRemainingHp = Some (Num 8)\<rparr>, ambush)"
    by (simp add: attack_def g p e Let_def rollDie_def rowan_def ash_def js_or_def)
  have d: "dice_search ''1d8'' = Some (''1'', ''8'', [])"
    by (simp add: dice_at_def is_digit_def)
  have 3: "fst (monsterAttack small_rules ambush ''g1'' ''m1'' ''p2'' (\<lambda>_. 1/4))
       = Inr \<lparr>ar_attacker = ''orc'', ar_target = ''Ash'', ar_roll = 6, ar_hit = True,
              ar_damage = 3, targetRemainingHp = Some (Num 5)\<rparr>"
    by (simp add: monsterAttack_def g p e Let_def rollDie_def ash_def orc_def small_rules_def
        orc_rule_def first_attack_damage_def truthy_str_def d bonus_group_def parseInt_def
        apply_damage_def binary64_exact del: dice_search.simps)
  from 1 2 3 e(1) show ?thesis by simp
qed

section \<open>Dice notation in spells and items\<close>

text \<open>
  C5 at the notation \<open>1d8+2\<close> with the same die roll (5) on both sides:
  \<open>rollFromNotation\<close> returns 7, the heal computation of \<open>useItem\<close> returns 5, its
  regular expression having no bonus group; a potion of \<open>1d8+2\<close> takes a character from
  8 to 13 hit points.
\<close>

theorem dice_bonus_ignored_by_useItem:
  "rollFromNotation ''1d8+2'' (\<lambda>_. 1/2) = (7, 1) \<and> item_heal_roll ''1d8+2'' (\<lambda>_. 1/2) = 5
   \<and> hp (fst (item_effect potion ''Ash'' exposed (\<lambda>_. 1/2))) = Num 13"
proof -
  have d: "dice_search ''1d8+2'' = Some (''1'', ''8'', ''+2'')"
    by (simp add: dice_at_def is_digit_def)
  have 1: "rollFromNotation ''1d8+2'' (\<lambda>_. 1/2) = (7, 1)"
    by (simp add: rollFromNotation_def d bonus_group_def is_digit_def parseInt_def rollDie_def
        del: dice_search.simps)
  have 2: "item_heal_roll ''1d8+2'' (\<lambda>_. 1/2) = 5"
    by (simp add: item_heal_roll_def d parseInt_def rollDie_def del: dice_search.simps)
  have 3: "hp (fst (item_effect potion ''Ash'' exposed (\<lambda>_. 1/2))) = Num 13"
    by (simp add: item_effect_def potion_def truthy_str_def 2 Let_def exposed_def js_or_def
        binary64_exact)
  from 1 2 3 show ?thesis by simp
qed

section \<open>A failing \<open>giveItem\<close>\<close>

text \<open>
  C6 at \<open>giveItem\<close> of a known item for a game that does not exist: \<open>addItemToPlayer\<close>
  creates the game and returns \<open>null\<close>, reading \<open>player.name\<close> throws a
  \<open>TypeError\<close>, and the registry now holds the new, empty game.
\<close>

theorem giveItem_creates_game_then_throws:
  "getGame Map.empty ''g1'' = None
   \<and> giveItem small_rules Map.empty ''g1'' ''p1'' ''potion'' = (Inl TypeError, [''g1'' \<mapsto> no_game])"
  by (simp add: getGame_def giveItem_def small_rules_def addItemToPlayer_def createGame_def
      Let_def no_game_def)

section \<open>What an operation does to a character\<close>

text \<open>Writes to other parts of the registry leave a player's character alone.\<close>

lemma character_of_players_upd:
  "R g' = Some G \<Longrightarrow>
   character_of (R(g' \<mapsto> G\<lparr>players := (players G)(p' \<mapsto> P')\<rparr>)) g p
     = (if g = g' \<and> p = p' then p_character P' else character_of R g p)"
  by (simp add: character_of_def getPlayer_def)

lemma character_of_players_log_upd:
  "R g' = Some G \<Longrightarrow>
   character_of (R(g' \<mapsto> G\<lparr>players := (players G)(p' \<mapsto> P'), g_log := l\<rparr>)) g p
     = (if g = g' \<and> p = p' then p_character P' else character_of R g p)"
  by (simp add: character_of_def getPlayer_def)

lemma character_of_log_upd:
  "R g' = Some G \<Longrightarrow> character_of (R(g' \<mapsto> G\<lparr>g_log := l\<rparr>)) g p = character_of R g p"
  by (simp add: character_of_def getPlayer_def)

lemma character_of_monsters_upd:
  "R g' = Some G \<Longrightarrow> character_of (R(g' \<mapsto> G\<lparr>monsters := ms\<rparr>)) g p = character_of R g p"
  by (simp add: character_of_def getPlayer_def)

lemma character_of_campaign_upd:
  "R g' = Some G \<Longrightarrow> character_of (R(g' \<mapsto> G\<lparr>g_campaign := ca\<rparr>)) g p = character_of R g p"
  by (simp add: character_of_def getPlayer_def)

lemma createGame_fst: "snd (createGame R g) g = Some (fst (createGame R g))"
  by (cases "R g") (simp_all add: createGame_def Let_def)

lemma character_of_createGame:
  "character_of (snd (createGame R g')) g p = character_of R g p"
  by (cases "R g'") (simp_all add: createGame_def Let_def character_of_def getPlayer_def)

lemma players_createGame_None:
  "players (fst (createGame R g')) p = None \<Longrightarrow> character_of R g' p = None"
  by (cases "R g'") (simp_all add: createGame_def Let_def character_of_def getPlayer_def)

lemma players_createGame_Some:
  "players (fst (createGame R g')) p = Some P \<Longrightarrow> character_of R g' p = p_character P"
  by (cases "R g'") (simp_all add: createGame_def Let_def character_of_def getPlayer_def)

lemma character_of_appendLog:
  "character_of (appendLog R g' m) g p = character_of R g p"
proof -
  have "character_of (appendLog R g' m) g p = character_of (snd (createGame R g')) g p"
    using createGame_fst [of R g']
    by (simp add: appendLog_def split_def Let_def character_of_log_upd)
  then show ?thesis by (simp add: character_of_createGame)
qed

lemma character_of_found:
  "R g = Some G \<Longrightarrow> players G p = Some P \<Longrightarrow> character_of R g p = p_character P"
  by (simp add: character_of_def getPlayer_def)

text \<open>The status after damage.\<close>

lemma char_status_simps [simp]:
  "char_status None = None" "char_status (Some c) = status c"
  by (simp_all add: char_status_def)

lemma char_hp_simps [simp]:
  "char_hp None = Undefined" "char_hp (Some c) = hp c"
  by (simp_all add: char_hp_def)

lemma status_apply_damage:
  "status (apply_damage co d)
     = (if js_le0 (hp (apply_damage co d)) then Some ''unconscious'' else char_status co)"
  by (cases co) (simp_all add: apply_damage_def Let_def hp_only_character_def empty_character_def)

lemma attack_status:
  "status_of (snd (attack R g' a t rs)) g p
     = (if hits_player e (Attack g' a t rs) R g p
        then (if js_le0 (hp_of (snd (attack R g' a t rs)) g p) then Some ''unconscious''
              else status_of R g p)
        else status_of R g p)"
proof (cases "R g'")
  case None
  then show ?thesis by (simp add: attack_def getGame_def)
next
  case (Some G)
  show ?thesis
  proof (cases "players G a")
    case None
    then show ?thesis using Some by (simp add: attack_def getGame_def)
  next
    case A: (Some A)
    show ?thesis
    proof (cases "players G t")
      case None
      then show ?thesis using Some A by (simp add: attack_def getGame_def)
    next
      case T: (Some T)
      define tac where "tac = (case p_character T of None \<Rightarrow> Num 10 | Some c \<Rightarrow> js_or (ac c) 10)"
      show ?thesis
      proof (cases "js_ge (rollDie 20 (rs 0)) tac")
        case True
        have R': "snd (attack R g' a t rs) = R(g' \<mapsto> G\<lparr>players := (players G)(t \<mapsto>
                  T\<lparr>p_character := Some (apply_damage (p_character T) (rollDie 6 (rs 1)))\<rparr>)\<rparr>)"
          and h: "fst (attack R g' a t rs) = Inr r \<Longrightarrow> ar_hit r" for r
          using Some A T True by (auto simp add: attack_def getGame_def Let_def tac_def)
        have h': "\<exists>r. fst (attack R g' a t rs) = Inr r"
          using Some A T True by (simp add: attack_def getGame_def Let_def tac_def)
        have hp: "hits_player e (Attack g' a t rs) R g p = (g = g' \<and> p = t)"
          using h h' by (auto split: sum.splits)
        show ?thesis
          unfolding hp R' status_of_def hp_of_def
          using Some T
          by (simp add: character_of_players_upd status_apply_damage character_of_found)
      next
        case False
        have R': "snd (attack R g' a t rs) = R"
          and h: "fst (attack R g' a t rs) = Inr r \<Longrightarrow> \<not> ar_hit r" for r
          using Some A T False by (auto simp add: attack_def getGame_def Let_def tac_def)
        have hp: "hits_player e (Attack g' a t rs) R g p = False"
          using h by (auto split: sum.splits)
        show ?thesis by (simp only: hp R' if_False)
      qed
    qed
  qed
qed


lemma character_of_addPlayer:
  "character_of (snd (addPlayer R g' p' n)) g p = character_of R g p"
proof (cases "players (fst (createGame R g')) p'")
  case None
  have "character_of (snd (addPlayer R g' p' n)) g p
      = (if g = g' \<and> p = p' then None else character_of (snd (createGame R g')) g p)"
    using None createGame_fst [of R g']
    by (simp add: addPlayer_def split_def Let_def character_of_players_upd)
  then show ?thesis
    using players_createGame_None [OF None] by (simp add: character_of_createGame)
next
  case (Some P)
  then show ?thesis
    by (simp add: addPlayer_def split_def character_of_createGame)
qed

lemma joinGame_status:
  "status_of (snd (joinGame R g' p' n)) g p = status_of R g p"
  by (simp add: joinGame_def split_def Let_def status_of_def character_of_appendLog
      character_of_addPlayer)

lemma attackMonster_character:
  "character_of (snd (attackMonster R g' a m rs)) g p = character_of R g p"
proof (cases "R g'")
  case None
  then show ?thesis by (simp add: attackMonster_def getGame_def)
next
  case (Some G)
  then show ?thesis
    by (simp add: attackMonster_def getGame_def Let_def character_of_monsters_upd
        split: option.splits)
qed

lemma monsterAttack_status:
  "status_of (snd (monsterAttack (e_rules e) R g' m t rs)) g p
     = (if hits_player e (MonsterAttack g' m t rs) R g p
        then (if js_le0 (hp_of (snd (monsterAttack (e_rules e) R g' m t rs)) g p)
              then Some ''unconscious'' else status_of R g p)
        else status_of R g p)"
proof (cases "R g'")
  case None
  then show ?thesis by (simp add: monsterAttack_def getGame_def)
next
  case (Some G)
  show ?thesis
  proof (cases "monsters G m")
    case None
    then show ?thesis using Some by (simp add: monsterAttack_def getGame_def)
  next
    case M: (Some M)
    show ?thesis
    proof (cases "players G t")
      case None
      then show ?thesis using Some M by (simp add: monsterAttack_def getGame_def)
    next
      case T: (Some T)
      define tac where "tac = (case p_character T of None \<Rightarrow> Num 10
                               | Some c \<Rightarrow> if js_is_number (ac c) then ac c else Num 10)"
      define dmg where "dmg =
         (case dice_search (first_attack_damage (monsterRules (e_rules e) (m_type M))) of
            Some (cs, ss, r) \<Rightarrow>
              roll_loop (parseInt cs) (int (parseInt ss)) (\<lambda>i. rs (Suc i))
                (int (case bonus_group r of Some b \<Rightarrow> parseInt b | None \<Rightarrow> 0))
          | None \<Rightarrow> rollDie 6 (rs (Suc 0)))"
      show ?thesis
      proof (cases "js_ge (rollDie 20 (rs 0)) tac")
        case True
        have R': "snd (monsterAttack (e_rules e) R g' m t rs) = R(g' \<mapsto> G\<lparr>players := (players G)(t \<mapsto>
                  T\<lparr>p_character := Some (apply_damage (p_character T) dmg)\<rparr>)\<rparr>)"
          and h: "\<exists>r. fst (monsterAttack (e_rules e) R g' m t rs) = Inr r \<and> ar_hit r"
          using Some M T True
          by (simp_all add: monsterAttack_def getGame_def Let_def tac_def dmg_def)
        have hp: "hits_player e (MonsterAttack g' m t rs) R g p = (g = g' \<and> p = t)"
          using h by auto
        show ?thesis
          unfolding hp R' status_of_def hp_of_def
          using Some T
          by (simp add: character_of_players_upd status_apply_damage character_of_found)
      next
        case False
        have R': "snd (monsterAttack (e_rules e) R g' m t rs) = R"
          and h: "\<exists>r. fst (monsterAttack (e_rules e) R g' m t rs) = Inr r \<and> \<not> ar_hit r"
          using Some M T False
          by (simp_all add: monsterAttack_def getGame_def Let_def tac_def)
        have hp: "hits_player e (MonsterAttack g' m t rs) R g p = False"
          using h by auto
        show ?thesis by (simp only: hp R' if_False)
      qed
    qed
  qed
qed


lemma spell_damage_player_status:
  assumes "R g' = Some G" "players G t = Some T"
  shows "char_status (character_of (R(g' \<mapsto> spell_apply_damage G (PlayerTarget T) t d)) g p)
      = (if g = g' \<and> p = t
         then (if js_le0 (char_hp (character_of (R(g' \<mapsto> spell_apply_damage G (PlayerTarget T) t d)) g p))
               then Some ''unconscious'' else char_status (character_of R g p))
         else char_status (character_of R g p))"
  using assms
  by (cases "p_character T")
     (simp_all add: spell_apply_damage_def Let_def character_of_players_upd character_of_found
        hp_only_character_def empty_character_def)

lemma spell_damage_monster_character:
  assumes "R g' = Some G"
  shows "character_of (R(g' \<mapsto> spell_apply_damage G (MonsterTarget M) t d)) g p = character_of R g p"
  using assms by (simp add: spell_apply_damage_def character_of_monsters_upd)

lemma castSpell_status:
  "status_of (snd (castSpell (e_rules e) R g' c s tt t rs)) g p
     = (if hits_player e (CastSpell g' c s tt t rs) R g p
        then (if js_le0 (hp_of (snd (castSpell (e_rules e) R g' c s tt t rs)) g p)
              then Some ''unconscious'' else status_of R g p)
        else status_of R g p)"
proof -
  let ?cs = "castSpell (e_rules e) R g' c s tt t rs"
  have fail: "snd ?cs = R \<Longrightarrow> (\<exists>x. fst ?cs = Inl x) \<Longrightarrow> ?thesis"
    by auto
  show ?thesis
  proof (cases "findSpellByName (e_rules e) s")
    case None
    then show ?thesis by (intro fail) (simp_all add: castSpell_def)
  next
    case SP: (Some spell)
    show ?thesis
    proof (cases "R g'")
      case None
      then show ?thesis using SP by (intro fail) (simp_all add: castSpell_def getGame_def)
    next
      case G: (Some G)
      show ?thesis
      proof (cases "players G c")
        case None
        then show ?thesis using SP G by (intro fail) (simp_all add: castSpell_def getGame_def)
      next
        case C: (Some caster)
        define target where "target =
          (if tt = ''player'' then map_option PlayerTarget (players G t)
           else if tt = ''monster'' then map_option MonsterTarget (monsters G t) else None)"
        show ?thesis
        proof (cases target)
          case None
          then show ?thesis using SP G C
            by (intro fail) (simp_all add: castSpell_def getGame_def target_def)
        next
          case TG: (Some tg)
          show ?thesis
          proof (cases "truthy_str (sp_heal spell)")
            case H: (Some notn)
            show ?thesis
            proof (cases tg)
              case (MonsterTarget M)
              then show ?thesis using SP G C TG H
                by (intro fail) (simp_all add: castSpell_def getGame_def target_def Let_def)
            next
              case (PlayerTarget T)
              then have T: "players G t = Some T" "tt = ''player''"
                using TG by (auto simp: target_def split: if_splits)
              have nh: "hits_player e (CastSpell g' c s tt t rs) R g p = False"
                using SP G C TG H PlayerTarget
                by (simp add: castSpell_def getGame_def target_def Let_def)
              have "char_status (character_of (snd ?cs) g p) = char_status (character_of R g p)"
                using SP G C TG H PlayerTarget T(1)
                by (cases "p_character T")
                   (simp_all add: castSpell_def getGame_def target_def Let_def character_of_appendLog
                      character_of_players_upd character_of_found hp_only_character_def
                      empty_character_def)
              then show ?thesis by (simp only: nh if_False status_of_def)
            qed
          next
            case NH: None
            show ?thesis
            proof (cases "truthy_str (sp_damage spell)")
              case None
              have nh: "hits_player e (CastSpell g' c s tt t rs) R g p = False"
                using SP G C TG NH None
                by (simp add: castSpell_def getGame_def target_def Let_def)
              have "character_of (snd ?cs) g p = character_of R g p"
                using SP G C TG NH None
                by (simp add: castSpell_def getGame_def target_def Let_def character_of_appendLog)
              then show ?thesis by (simp only: nh if_False status_of_def)
            next
              case D: (Some notn)
              define dmg where "dmg = fst (rollFromNotation notn rs)"
              define used where "used = snd (rollFromNotation notn rs)"
              define hit where "hit = spell_hits tg (rollDie 20 (rs used))"
              have res: "\<exists>m n x r d. fst ?cs = Inr (m, DamageResult n x r hit d)"
                using SP G C TG NH D
                by (simp add: castSpell_def getGame_def target_def [symmetric] Let_def split_def
                    hit_def used_def)
              have st: "\<exists>m. snd ?cs = appendLog (if hit then R(g' \<mapsto> spell_apply_damage G tg t dmg) else R) g' m"
                using SP G C TG NH D
                by (simp add: castSpell_def getGame_def target_def [symmetric] Let_def split_def
                    hit_def used_def dmg_def) blast
              then obtain m where st: "snd ?cs = appendLog (if hit then R(g' \<mapsto> spell_apply_damage G tg t dmg) else R) g' m"
                by blast
              show ?thesis
              proof (cases tg)
                case (MonsterTarget M)
                then have "tt \<noteq> ''player''" using TG by (auto simp: target_def split: if_splits)
                then have nh: "hits_player e (CastSpell g' c s tt t rs) R g p = False" by simp
                have "character_of (snd ?cs) g p = character_of R g p"
                  unfolding st using G MonsterTarget
                  by (simp add: character_of_appendLog spell_damage_monster_character)
                then show ?thesis by (simp only: nh if_False status_of_def)
              next
                case (PlayerTarget T)
                then have T: "players G t = Some T" "tt = ''player''"
                  using TG by (auto simp: target_def split: if_splits)
                have hp: "hits_player e (CastSpell g' c s tt t rs) R g p = (g = g' \<and> p = t \<and> hit)"
                  using res T(2) by auto
                show ?thesis
                proof (cases hit)
                  case True
                  show ?thesis
                    unfolding hp st status_of_def hp_of_def character_of_appendLog
                    using True spell_damage_player_status [of R g' G t T dmg g p] G T(1) PlayerTarget
                    by simp
                next
                  case False
                  then show ?thesis
                    unfolding hp st status_of_def hp_of_def character_of_appendLog by simp
                qed
              qed
            qed
          qed
        qed
      qed
    qed
  qed
qed

lemma character_of_models_spawnMonster:
  "character_of (snd (models_spawnMonster R g' ty st iid)) g p = character_of R g p"
  using createGame_fst [of R g']
  by (simp add: models_spawnMonster_def split_def Let_def character_of_monsters_upd
      character_of_createGame)

lemma character_of_spawnMonster:
  "character_of (snd (spawnMonster rl R g' ty iid)) g p = character_of R g p"
  by (simp add: spawnMonster_def split_def Let_def character_of_appendLog
      character_of_models_spawnMonster split: option.splits)

lemma status_addItemToPlayer:
  "char_status (character_of (snd (addItemToPlayer R g' p' i)) g p) = char_status (character_of R g p)"
proof (cases "players (fst (createGame R g')) p'")
  case None
  then show ?thesis
    by (simp add: addItemToPlayer_def split_def character_of_createGame)
next
  case (Some P)
  have "char_status (character_of (snd (addItemToPlayer R g' p' i)) g p)
      = (if g = g' \<and> p = p' then char_status (p_character P)
         else char_status (character_of (snd (createGame R g')) g p))"
    using Some createGame_fst [of R g']
    by (cases "p_character P")
       (simp_all add: addItemToPlayer_def split_def Let_def character_of_players_upd
          empty_character_def)
  then show ?thesis
    using players_createGame_Some [OF Some] by (simp add: character_of_createGame)
qed

lemma hp_addItemToPlayer:
  "char_hp (character_of (snd (addItemToPlayer R g' p' i)) g p) = char_hp (character_of R g p)"
proof (cases "players (fst (createGame R g')) p'")
  case None
  then show ?thesis
    by (simp add: addItemToPlayer_def split_def character_of_createGame)
next
  case (Some P)
  have "char_hp (character_of (snd (addItemToPlayer R g' p' i)) g p)
      = (if g = g' \<and> p = p' then char_hp (p_character P)
         else char_hp (character_of (snd (createGame R g')) g p))"
    using Some createGame_fst [of R g']
    by (cases "p_character P")
       (simp_all add: addItemToPlayer_def split_def Let_def character_of_players_upd
          empty_character_def)
  then show ?thesis
    using players_createGame_Some [OF Some] by (simp add: character_of_createGame)
qed

lemma status_giveItem:
  "char_status (character_of (snd (giveItem rl R g' p' i)) g p) = char_status (character_of R g p)"
proof (cases "itemRules rl i")
  case None
  then show ?thesis by (simp add: giveItem_def)
next
  case (Some item)
  then show ?thesis
    using status_addItemToPlayer [of R g' p' i g p]
    by (cases "addItemToPlayer R g' p' i"; cases "fst (addItemToPlayer R g' p' i)")
       (simp_all add: giveItem_def character_of_appendLog)
qed

lemma status_removeItemFromPlayer:
  "char_status (character_of (snd (removeItemFromPlayer R g' p' i)) g p)
     = char_status (character_of R g p)"
  by (simp add: removeItemFromPlayer_def Let_def character_of_players_upd character_of_found
      split: option.splits)

lemma removeItemFromPlayer_game:
  "R g' = None \<Longrightarrow> snd (removeItemFromPlayer R g' p' i) = R"
  by (simp add: removeItemFromPlayer_def)

lemma status_item_effect:
  "status (fst (item_effect item nm c rs)) = status c"
  by (simp add: item_effect_def Let_def split: option.splits)

lemma status_useItem:
  "char_status (character_of (snd (useItem rl R g' p' i rs)) g p) = char_status (character_of R g p)"
proof (cases "itemRules rl i")
  case None
  then show ?thesis by (simp add: useItem_def)
next
  case (Some item)
  define R1 where "R1 = snd (removeItemFromPlayer R g' p' i)"
  have R1: "char_status (character_of R1 g p) = char_status (character_of R g p)"
    by (simp add: R1_def status_removeItemFromPlayer)
  show ?thesis
  proof (cases "truthy_str (fst (removeItemFromPlayer R g' p' i)) = None")
    case True
    then show ?thesis using Some R1 by (simp add: useItem_def split_def Let_def R1_def)
  next
    case False
    then obtain y where y: "truthy_str (fst (removeItemFromPlayer R g' p' i)) = Some y"
      by auto
    show ?thesis
    proof (cases "R1 g'")
      case None
      then show ?thesis using Some y R1
        by (simp add: useItem_def split_def Let_def R1_def [symmetric] getPlayer_def)
    next
      case G: (Some G)
      show ?thesis
      proof (cases "players G p'")
        case None
        then show ?thesis using Some y R1 G
          by (simp add: useItem_def split_def Let_def R1_def [symmetric] getPlayer_def)
      next
        case P: (Some P)
        show ?thesis
        proof (cases "p_character P")
          case None
          then show ?thesis using Some y R1 G P
            by (simp add: useItem_def split_def Let_def R1_def [symmetric] getPlayer_def)
        next
          case C: (Some c)
          have "char_status (character_of (snd (useItem rl R g' p' i rs)) g p)
              = (if g = g' \<and> p = p' then status c else char_status (character_of R1 g p))"
            using Some y G P C
            by (simp add: useItem_def split_def R1_def [symmetric] getPlayer_def Let_def
                character_of_appendLog character_of_players_upd status_item_effect)
          moreover have "character_of R1 g' p' = Some c"
            using G P C by (simp add: character_of_found)
          ultimately show ?thesis using R1 by auto
        qed
      qed
    qed
  qed
qed

lemma status_addExperience:
  assumes "addExperience R g' p' x = Some (r, R')"
  shows "char_status (character_of R' g p) = char_status (character_of R g p)"
proof (cases "R g'")
  case None
  then show ?thesis using assms by (simp add: addExperience_def)
next
  case G: (Some G)
  show ?thesis
  proof (cases "players G p'")
    case None
    then show ?thesis using assms G by (simp add: addExperience_def)
  next
    case P: (Some P)
    show ?thesis
    proof (cases "p_character P")
      case None
      then show ?thesis using assms G P by (simp add: addExperience_def)
    next
      case C: (Some c)
      define c0 where "c0 = c\<lparr>experience := js_add (js_or (experience c) 0) x\<rparr>"
      obtain c' lg where l: "level_loop (p_name P) (c0, g_log G) = Some (c', lg)"
        using assms G P C
        by (cases "level_loop (p_name P) (c0, g_log G)")
           (auto simp add: addExperience_def c0_def [symmetric])
      from level_loop_fields [OF l] have st: "status c' = status c"
        by (auto simp: c0_def)
      have "R' = R(g' \<mapsto> G\<lparr>players := (players G)(p' \<mapsto> P\<lparr>p_character := Some c'\<rparr>),
                             g_log := lg\<rparr>)"
        using assms G P C l by (auto simp add: addExperience_def c0_def [symmetric] Let_def)
      then show ?thesis
        using G P C st by (simp add: character_of_players_log_upd character_of_found)
    qed
  qed
qed

lemma character_of_selectCampaign:
  "character_of (snd (selectCampaign cs R g' c)) g p = character_of R g p"
  using createGame_fst [of R g']
  by (simp add: selectCampaign_def split_def Let_def character_of_appendLog
      character_of_campaign_upd character_of_createGame split: option.splits)

lemma status_reward_xp:
  assumes "reward_xp R g' p' x = Some (r, R')"
  shows "char_status (character_of R' g p) = char_status (character_of R g p)"
proof -
  obtain a R1 where a: "addExperience R g' p' x = Some (a, R1)"
    using assms by (cases "addExperience R g' p' x") (auto simp: reward_xp_def)
  have "char_status (character_of R' g p) = char_status (character_of R1 g p)"
    using assms a
    by (auto simp: reward_xp_def character_of_appendLog split: option.splits)
  then show ?thesis using status_addExperience [OF a] by simp
qed

lemma status_reward_items:
  "char_status (character_of (snd (reward_items R g' p' items)) g p)
     = char_status (character_of R g p)"
proof (induction items arbitrary: R)
  case Nil
  show ?case by simp
next
  case (Cons item rest)
  define R1 where "R1 = snd (addItemToPlayer R g' p' item)"
  have R1: "char_status (character_of R1 g p) = char_status (character_of R g p)"
    by (simp add: R1_def status_addItemToPlayer)
  show ?case
  proof (cases "getPlayer R1 g' p'")
    case None
    then show ?thesis using R1 by (simp add: Let_def R1_def [symmetric])
  next
    case (Some P)
    then show ?thesis
      using R1 Cons.IH [of "appendLog R1 g' (p_name P @ '' received item '' @ item @ ''.'')"]
      by (simp add: Let_def R1_def [symmetric] character_of_appendLog)
  qed
qed

lemma status_apply_reward:
  assumes "apply_reward R g' p' rw = Some (r, R')"
  shows "char_status (character_of R' g p) = char_status (character_of R g p)"
proof (cases rw)
  case None
  then show ?thesis using assms by (simp add: apply_reward_def)
next
  case (Some w)
  define first where "first = (if int_or (xp w) 0 \<noteq> 0 then reward_xp R g' p' (int_or (xp w) 0)
                 else Some (None, R))"
  obtain r1 R1 where f: "first = Some (r1, R1)"
    using assms Some by (cases first) (auto simp: apply_reward_def first_def [symmetric])
  have R1: "char_status (character_of R1 g p) = char_status (character_of R g p)"
    using f status_reward_xp [of R g' p' "int_or (xp w) 0" r1 R1 g p]
    by (auto simp: first_def split: if_splits)
  show ?thesis
  proof (cases r1)
    case (Some err)
    then show ?thesis using assms \<open>rw = Some w\<close> f R1
      by (simp add: apply_reward_def first_def [symmetric])
  next
    case None
    show ?thesis
    proof (cases "r_items w")
      case None
      then show ?thesis using assms \<open>rw = Some w\<close> f R1 \<open>r1 = None\<close>
        by (simp add: apply_reward_def first_def [symmetric])
    next
      case (Some items)
      then have "R' = snd (reward_items R1 g' p' items)"
        using assms \<open>rw = Some w\<close> f \<open>r1 = None\<close>
        by (auto simp add: apply_reward_def first_def [symmetric])
      then show ?thesis using R1 by (simp add: status_reward_items)
    qed
  qed
qed

lemma status_chooseDialogueOption:
  assumes "chooseDialogueOption ds R g' p' d c n i = Some (r, R')"
  shows "char_status (character_of R' g p) = char_status (character_of R g p)"
proof -
  have "R' = R \<or> (\<exists>rw r1. apply_reward R g' p' rw = Some (r1, R'))"
    using assms
    by (auto simp: chooseDialogueOption_def Let_def split: option.splits if_splits)
  then show ?thesis using status_apply_reward by blast
qed

text \<open>Character creation keeps the status unless the caller's data has a status field.\<close>

lemma or_opt_None [simp]: "or_opt None x = x"
  by (simp add: or_opt_def)

lemma prepare_character_status: "status (prepare_character rl ch r) = status ch"
  by (simp add: prepare_character_def Let_def split: option.splits)

lemma setCharacter_status:
  "status_of (snd (setCharacter R g' p' ch)) g p
     = (if g = g' \<and> p = p' then or_opt (status ch) (status_of R g p) else status_of R g p)"
proof -
  define G where "G = fst (createGame R g')"
  define P where "P = (case players G p' of
                         None \<Rightarrow> \<lparr>p_id = p', p_name = ''Unknown'', p_character = None\<rparr>
                       | Some P0 \<Rightarrow> P0)"
  define c0 where "c0 = (case p_character P of None \<Rightarrow> empty_character | Some c \<Rightarrow> c)"
  define c1 where "c1 = spread c0 ch"
  define c2 where "c2 = (if experience c1 = Undefined then c1\<lparr>experience := Num 0\<rparr> else c1)"
  define c3 where "c3 = (if level c2 = Undefined then c2\<lparr>level := Num 1\<rparr> else c2)"
  have R1: "snd (createGame R g') g' = Some G" by (simp add: G_def createGame_fst)
  have s: "snd (setCharacter R g' p' ch)
      = (snd (createGame R g'))(g' \<mapsto> G\<lparr>players := (players G)(p' \<mapsto> P\<lparr>p_character := Some c3\<rparr>)\<rparr>)"
    by (simp add: setCharacter_def split_def Let_def G_def P_def c0_def c1_def c2_def c3_def)
  have old: "char_status (p_character P) = status_of R g' p'"
  proof (cases "players G p'")
    case None
    then have "character_of R g' p' = None" unfolding G_def by (rule players_createGame_None)
    then show ?thesis using None by (simp add: P_def status_of_def)
  next
    case (Some P0)
    then have "character_of R g' p' = p_character P0" unfolding G_def by (rule players_createGame_Some)
    then show ?thesis using Some by (simp add: P_def status_of_def)
  qed
  have "status c0 = char_status (p_character P)"
    by (cases "p_character P") (simp_all add: c0_def empty_character_def)
  then have "status c3 = or_opt (status ch) (status_of R g' p')"
    using old by (simp add: c3_def c2_def c1_def spread_def)
  then show ?thesis
    unfolding s status_of_def using R1
    by (simp add: character_of_players_upd character_of_createGame)
qed

lemma createCharacter_status:
  "status_of (snd (createCharacter rl R g' p' ch r)) g p
     = (if g = g' \<and> p = p' then or_opt (status ch) (status_of R g p) else status_of R g p)"
proof -
  have "status_of (snd (createCharacter rl R g' p' ch r)) g p
      = status_of (snd (setCharacter R g' p' (prepare_character rl ch r))) g p"
    by (simp add: createCharacter_def Let_def split_def status_of_def character_of_appendLog)
  then show ?thesis by (simp add: setCharacter_status prepare_character_status)
qed

section \<open>The unconscious status\<close>

lemma step_status:
  assumes "exec e c R = Some R'"
  shows "status_of R' g p
     = (if hits_player e c R g p
        then (if js_le0 (hp_of R' g p) then Some ''unconscious'' else status_of R g p)
        else or_opt (supplied_status c g p) (status_of R g p))"
proof (cases c)
  case (JoinGame x1 x2 x3)
  then show ?thesis using assms by (auto simp: joinGame_status)
next
  case (CreateCharacter x1 x2 x3 x4)
  then show ?thesis using assms by (auto simp: createCharacter_status)
next
  case (SetCharacter x1 x2 x3)
  then show ?thesis using assms by (auto simp: setCharacter_status)
next
  case (Attack x1 x2 x3 x4)
  then have "R' = snd (attack R x1 x2 x3 x4)" using assms by auto
  then show ?thesis unfolding Attack
    by (simp only: attack_status [of R x1 x2 x3 x4 g p e] supplied_status.simps or_opt_None)
next
  case (AttackMonster x1 x2 x3 x4)
  then show ?thesis using assms by (auto simp: status_of_def attackMonster_character)
next
  case (MonsterAttack x1 x2 x3 x4)
  then have "R' = snd (monsterAttack (e_rules e) R x1 x2 x3 x4)" using assms by auto
  then show ?thesis unfolding MonsterAttack
    by (simp only: monsterAttack_status [of e R x1 x2 x3 x4 g p] supplied_status.simps or_opt_None)
next
  case (CastSpell x1 x2 x3 x4 x5 x6)
  then have "R' = snd (castSpell (e_rules e) R x1 x2 x3 x4 x5 x6)" using assms by auto
  then show ?thesis unfolding CastSpell
    by (simp only: castSpell_status [of e R x1 x2 x3 x4 x5 x6 g p] supplied_status.simps
        or_opt_None)
next
  case (SpawnMonster x1 x2 x3)
  then show ?thesis using assms by (auto simp: status_of_def character_of_spawnMonster)
next
  case (GiveItem x1 x2 x3)
  then show ?thesis using assms by (auto simp: status_of_def status_giveItem)
next
  case (UseItem x1 x2 x3 x4)
  then show ?thesis using assms by (auto simp: status_of_def status_useItem)
next
  case (AddExperience x1 x2 x3)
  then show ?thesis using assms status_addExperience [of R x1 x2 x3 _ R' g p]
    by (auto simp: status_of_def)
next
  case (AddItemToPlayer x1 x2 x3)
  then show ?thesis using assms by (auto simp: status_of_def status_addItemToPlayer)
next
  case (RemoveItemFromPlayer x1 x2 x3)
  then show ?thesis using assms by (auto simp: status_of_def status_removeItemFromPlayer)
next
  case (AppendLog x1 x2)
  then show ?thesis using assms by (auto simp: status_of_def character_of_appendLog)
next
  case (SelectCampaign x1 x2)
  then show ?thesis using assms by (auto simp: status_of_def character_of_selectCampaign)
next
  case (ChooseDialogueOption x1 x2 x3 x4 x5 x6)
  then show ?thesis
    using assms status_chooseDialogueOption [of "e_dialogues e" R x1 x2 x3 x4 x5 x6 _ R' g p]
    by (auto simp: status_of_def)
qed

text \<open>
  C2, for every operation of the engine, with the one way a status is written from
  outside made explicit. A call that supplies no \<open>status\<close> field for the player (every
  call other than a \<open>createCharacter\<close> or \<open>setCharacter\<close> whose data for that player
  has a \<open>status\<close> field) changes the status of the player's character only by setting it
  to \<open>unconscious\<close>, and only when it is an \<open>attack\<close>, a \<open>monsterAttack\<close> or a damage
  spell that hits that player and leaves the hit points \<open>\<le> 0\<close>; such a hit that leaves
  the hit points \<open>\<le> 0\<close> always sets it; and a status \<open>unconscious\<close> stays, whatever the
  call (a healing spell or item in particular) does to the hit points. A
  \<open>createCharacter\<close> or \<open>setCharacter\<close> whose data has a \<open>status\<close> field stores that
  status.
\<close>

theorem unconscious_status:
  assumes "exec e c R = Some R'"
  shows "(supplied_status c g p = None \<longrightarrow>
           (status_of R' g p = status_of R g p
             \<or> (status_of R' g p = Some ''unconscious'' \<and> hits_player e c R g p
                 \<and> js_le0 (hp_of R' g p)))
           \<and> (hits_player e c R g p \<and> js_le0 (hp_of R' g p)
                \<longrightarrow> status_of R' g p = Some ''unconscious'')
           \<and> (status_of R g p = Some ''unconscious'' \<longrightarrow> status_of R' g p = Some ''unconscious''))
       \<and> (\<forall>s. supplied_status c g p = Some s \<longrightarrow> status_of R' g p = Some s)"
proof -
  have n: "\<not> hits_player e c R g p" if "supplied_status c g p \<noteq> None"
    using that by (cases c) auto
  show ?thesis
    using step_status [OF assms, of g p] n by (auto simp: or_opt_def)
qed

lemma useItem_downed:
  "hp_of (snd (useItem small_rules downed ''g1'' ''p2'' ''potion'' (\<lambda>_. 1/2))) ''g1'' ''p2'' = Num 1"
proof -
  have i: "itemRules small_rules ''potion'' = Some potion" by (simp add: small_rules_def)
  have r: "removeItemFromPlayer downed ''g1'' ''p2'' ''potion''
      = (Some ''potion'', downed(''g1'' \<mapsto> downed_game\<lparr>players := (players downed_game)(''p2'' \<mapsto>
           ash\<lparr>p_character := Some (fallen\<lparr>inventory := Some []\<rparr>)\<rparr>)\<rparr>))"
    by (simp add: removeItemFromPlayer_def downed_def downed_game_def fallen_def)
  have h: "item_heal_roll ''1d8+2'' (\<lambda>_. 1/2) = 5"
    by (simp add: item_heal_roll_def dice_at_def is_digit_def parseInt_def rollDie_def)
  have e: "fst (item_effect potion nm (fallen\<lparr>inventory := Some []\<rparr>) (\<lambda>_. 1/2))
      = fallen\<lparr>inventory := Some [], hp := Num 1\<rparr>" for nm
    by (simp add: item_effect_def potion_def truthy_str_def h Let_def fallen_def js_or_def
        binary64_exact)
  show ?thesis
    by (simp add: useItem_def i r truthy_str_def getPlayer_def Let_def split_def e hp_of_def
        character_of_appendLog character_of_upd)
qed

lemma downed_status: "status_of downed ''g1'' ''p2'' = Some ''unconscious''"
  "hp_of downed ''g1'' ''p2'' = Num (- 4)"
  by (simp_all add: status_of_def hp_of_def character_of_def getPlayer_def downed_def
      downed_game_def fallen_def)

theorem unconscious_status_witness:
  "exec small_env (UseItem ''g1'' ''p2'' ''potion'' (\<lambda>_. 1/2)) downed
       = Some (snd (useItem small_rules downed ''g1'' ''p2'' ''potion'' (\<lambda>_. 1/2)))
   \<and> supplied_status (UseItem ''g1'' ''p2'' ''potion'' (\<lambda>_. 1/2)) ''g1'' ''p2'' = None
   \<and> status_of downed ''g1'' ''p2'' = Some ''unconscious''
   \<and> hp_of downed ''g1'' ''p2'' = Num (- 4)
   \<and> hp_of (snd (useItem small_rules downed ''g1'' ''p2'' ''potion'' (\<lambda>_. 1/2))) ''g1'' ''p2''
       = Num 1
   \<and> status_of (snd (useItem small_rules downed ''g1'' ''p2'' ''potion'' (\<lambda>_. 1/2))) ''g1'' ''p2''
       = Some ''unconscious''
   \<and> exec small_env (Attack ''g1'' ''p1'' ''p2'' (\<lambda>_. 1/2)) duel
       = Some (snd (attack duel ''g1'' ''p1'' ''p2'' (\<lambda>_. 1/2)))
   \<and> supplied_status (Attack ''g1'' ''p1'' ''p2'' (\<lambda>_. 1/2)) ''g1'' ''p2'' = None
   \<and> hits_player small_env (Attack ''g1'' ''p1'' ''p2'' (\<lambda>_. 1/2)) duel ''g1'' ''p2''
   \<and> js_le0 (hp_of (snd (attack duel ''g1'' ''p1'' ''p2'' (\<lambda>_. 1/2))) ''g1'' ''p2'')
   \<and> status_of duel ''g1'' ''p2'' = None
   \<and> status_of (snd (attack duel ''g1'' ''p1'' ''p2'' (\<lambda>_. 1/2))) ''g1'' ''p2''
       = Some ''unconscious''
   \<and> exec small_env (CreateCharacter ''g1'' ''p2'' (empty_character\<lparr>c_name := Some ''Ash''\<rparr>) (1/2))
         downed
       = Some (snd (createCharacter small_rules downed ''g1'' ''p2''
                      (empty_character\<lparr>c_name := Some ''Ash''\<rparr>) (1/2)))
   \<and> supplied_status (CreateCharacter ''g1'' ''p2'' (empty_character\<lparr>c_name := Some ''Ash''\<rparr>) (1/2))
         ''g1'' ''p2'' = None
   \<and> status_of (snd (createCharacter small_rules downed ''g1'' ''p2''
                      (empty_character\<lparr>c_name := Some ''Ash''\<rparr>) (1/2))) ''g1'' ''p2''
       = Some ''unconscious''
   \<and> exec small_env (SetCharacter ''g1'' ''p2'' (empty_character\<lparr>status := Some ''ready''\<rparr>)) downed
       = Some (snd (setCharacter downed ''g1'' ''p2'' (empty_character\<lparr>status := Some ''ready''\<rparr>)))
   \<and> supplied_status (SetCharacter ''g1'' ''p2'' (empty_character\<lparr>status := Some ''ready''\<rparr>))
         ''g1'' ''p2'' = Some ''ready''
   \<and> status_of (snd (setCharacter downed ''g1'' ''p2'' (empty_character\<lparr>status := Some ''ready''\<rparr>)))
         ''g1'' ''p2'' = Some ''ready''"
proof -
  have a2: "exec small_env (UseItem ''g1'' ''p2'' ''potion'' (\<lambda>_. 1/2)) downed
       = Some (snd (useItem small_rules downed ''g1'' ''p2'' ''potion'' (\<lambda>_. 1/2)))"
    by (simp add: small_env_def)
  have a1: "supplied_status (UseItem ''g1'' ''p2'' ''potion'' (\<lambda>_. 1/2)) ''g1'' ''p2'' = None"
    by simp
  have b2: "exec small_env (Attack ''g1'' ''p1'' ''p2'' (\<lambda>_. 1/2)) duel
       = Some (snd (attack duel ''g1'' ''p1'' ''p2'' (\<lambda>_. 1/2)))"
    by simp
  have b1: "supplied_status (Attack ''g1'' ''p1'' ''p2'' (\<lambda>_. 1/2)) ''g1'' ''p2'' = None"
    by simp
  have b3: "hits_player small_env (Attack ''g1'' ''p1'' ''p2'' (\<lambda>_. 1/2)) duel ''g1'' ''p2''"
    by (simp add: attack_duel)
  have b4: "js_le0 (hp_of (snd (attack duel ''g1'' ''p1'' ''p2'' (\<lambda>_. 1/2))) ''g1'' ''p2'')"
    by (simp add: attack_duel hp_of_def character_of_def getPlayer_def)
  have b5: "status_of duel ''g1'' ''p2'' = None"
    by (simp add: status_of_def character_of_def getPlayer_def duel_def duel_game_def ash_def)
  have c2: "exec small_env (CreateCharacter ''g1'' ''p2'' (empty_character\<lparr>c_name := Some ''Ash''\<rparr>) (1/2))
         downed
       = Some (snd (createCharacter small_rules downed ''g1'' ''p2''
                      (empty_character\<lparr>c_name := Some ''Ash''\<rparr>) (1/2)))"
    by (simp add: small_env_def)
  have c1: "supplied_status (CreateCharacter ''g1'' ''p2'' (empty_character\<lparr>c_name := Some ''Ash''\<rparr>) (1/2))
         ''g1'' ''p2'' = None"
    by (simp add: empty_character_def)
  have d2: "exec small_env (SetCharacter ''g1'' ''p2'' (empty_character\<lparr>status := Some ''ready''\<rparr>)) downed
       = Some (snd (setCharacter downed ''g1'' ''p2'' (empty_character\<lparr>status := Some ''ready''\<rparr>)))"
    by simp
  have d1: "supplied_status (SetCharacter ''g1'' ''p2'' (empty_character\<lparr>status := Some ''ready''\<rparr>))
         ''g1'' ''p2'' = Some ''ready''"
    by simp
  from unconscious_status [OF a2, of "''g1''" "''p2''"]
    unconscious_status [OF b2, of "''g1''" "''p2''"]
    unconscious_status [OF c2, of "''g1''" "''p2''"]
    unconscious_status [OF d2, of "''g1''" "''p2''"]
    a1 a2 b1 b2 b3 b4 b5 c1 c2 d1 d2 downed_status useItem_downed
  show ?thesis by simp
qed

lemma setCharacter_status_hp:
  assumes "R g = Some G" "players G p = Some P" "p_character P = Some c"
  shows "status_of (snd (setCharacter R g p ch)) g p = or_opt (status ch) (status c)"
    and "hp_of (snd (setCharacter R g p ch)) g p = or_num (hp ch) (hp c)"
  using assms
  by (simp_all add: status_of_def hp_of_def setCharacter_def createGame_Some Let_def
      character_of_players_upd spread_def)

lemma prepare_character_status_hp:
  "status (prepare_character small_rules ch r) = status ch"
  "hp (prepare_character small_rules ch r) = hp ch"
  by (simp_all add: prepare_character_def small_rules_def Let_def)

text \<open>
  C2 as stated, for every core operation, fails at character creation, which merges the
  caller's fields over the stored character: \<open>createCharacter\<close> with a \<open>status\<close>
  field replaces the status \<open>unconscious\<close> of a character at -4 hit points, and gives the
  status \<open>unconscious\<close> to a character at 10 hit points.
\<close>

theorem status_overwritten_by_createCharacter:
  "status_of downed ''g1'' ''p2'' = Some ''unconscious''
   \<and> status_of (snd (createCharacter small_rules downed ''g1'' ''p2''
                      (empty_character\<lparr>status := Some ''ready''\<rparr>) (1/2))) ''g1'' ''p2''
       = Some ''ready''
   \<and> status_of duel ''g1'' ''p1'' = None
   \<and> status_of (snd (createCharacter small_rules duel ''g1'' ''p1''
                      (empty_character\<lparr>hp := Num 10, status := Some ''unconscious''\<rparr>) (1/2)))
         ''g1'' ''p1'' = Some ''unconscious''
   \<and> hp_of (snd (createCharacter small_rules duel ''g1'' ''p1''
                      (empty_character\<lparr>hp := Num 10, status := Some ''unconscious''\<rparr>) (1/2)))
         ''g1'' ''p1'' = Num 10"
proof -
  have d: "downed ''g1'' = Some downed_game"
    "players downed_game ''p2'' = Some (ash\<lparr>p_character := Some fallen\<rparr>)"
    "p_character (ash\<lparr>p_character := Some fallen\<rparr>) = Some fallen"
    by (simp_all add: downed_def downed_game_def)
  have u: "duel ''g1'' = Some duel_game" "players duel_game ''p1'' = Some rowan"
    "p_character rowan = Some novice"
    by (simp_all add: duel_def duel_game_def rowan_def)
  have 1: "status_of downed ''g1'' ''p2'' = Some ''unconscious''"
    using d by (simp add: status_of_def character_of_found fallen_def)
  have 3: "status_of duel ''g1'' ''p1'' = None"
    using u by (simp add: status_of_def character_of_found novice_def empty_character_def)
  have 2: "status_of (snd (createCharacter small_rules downed ''g1'' ''p2''
                      (empty_character\<lparr>status := Some ''ready''\<rparr>) (1/2))) ''g1'' ''p2''
       = Some ''ready''"
    using setCharacter_status_hp(1) [of downed "''g1''" downed_game "''p2''"
        "ash\<lparr>p_character := Some fallen\<rparr>" fallen
        "prepare_character small_rules (empty_character\<lparr>status := Some ''ready''\<rparr>) (1/2)"] d
    by (simp add: createCharacter_def Let_def split_def status_of_def character_of_appendLog
        prepare_character_status_hp or_opt_def)
  have 4: "status_of (snd (createCharacter small_rules duel ''g1'' ''p1''
                      (empty_character\<lparr>hp := Num 10, status := Some ''unconscious''\<rparr>) (1/2)))
         ''g1'' ''p1'' = Some ''unconscious''"
    using setCharacter_status_hp(1) [of duel "''g1''" duel_game "''p1''" rowan novice
        "prepare_character small_rules
           (empty_character\<lparr>hp := Num 10, status := Some ''unconscious''\<rparr>) (1/2)"] u
    by (simp add: createCharacter_def Let_def split_def status_of_def character_of_appendLog
        prepare_character_status_hp or_opt_def)
  have 5: "hp_of (snd (createCharacter small_rules duel ''g1'' ''p1''
                      (empty_character\<lparr>hp := Num 10, status := Some ''unconscious''\<rparr>) (1/2)))
         ''g1'' ''p1'' = Num 10"
    using setCharacter_status_hp(2) [of duel "''g1''" duel_game "''p1''" rowan novice
        "prepare_character small_rules
           (empty_character\<lparr>hp := Num 10, status := Some ''unconscious''\<rparr>) (1/2)"] u
    by (simp add: createCharacter_def Let_def split_def hp_of_def character_of_appendLog
        prepare_character_status_hp or_num_def)
  from 1 2 3 4 5 show ?thesis by blast
qed

section \<open>What an operation does to the monsters\<close>

lemma getMonster_players_upd:
  "R g' = Some G \<Longrightarrow> getMonster (R(g' \<mapsto> G\<lparr>players := ps\<rparr>)) g i = getMonster R g i"
  by (simp add: getMonster_def)

lemma getMonster_players_log_upd:
  "R g' = Some G \<Longrightarrow> getMonster (R(g' \<mapsto> G\<lparr>players := ps, g_log := l\<rparr>)) g i = getMonster R g i"
  by (simp add: getMonster_def)

lemma getMonster_log_upd:
  "R g' = Some G \<Longrightarrow> getMonster (R(g' \<mapsto> G\<lparr>g_log := l\<rparr>)) g i = getMonster R g i"
  by (simp add: getMonster_def)

lemma getMonster_campaign_upd:
  "R g' = Some G \<Longrightarrow> getMonster (R(g' \<mapsto> G\<lparr>g_campaign := ca\<rparr>)) g i = getMonster R g i"
  by (simp add: getMonster_def)

lemma getMonster_monsters_upd:
  "R g' = Some G \<Longrightarrow>
   getMonster (R(g' \<mapsto> G\<lparr>monsters := ms\<rparr>)) g i = (if g = g' then ms i else getMonster R g i)"
  by (simp add: getMonster_def)

lemma getMonster_found: "R g = Some G \<Longrightarrow> getMonster R g i = monsters G i"
  by (simp add: getMonster_def)

lemma getMonster_createGame:
  "getMonster (snd (createGame R g')) g i = getMonster R g i"
  by (cases "R g'") (simp_all add: createGame_def Let_def getMonster_def)

lemma monsters_createGame:
  "monsters (fst (createGame R g')) i = getMonster R g' i"
  by (cases "R g'") (simp_all add: createGame_def Let_def getMonster_def)

lemma getMonster_appendLog:
  "getMonster (appendLog R g' m) g i = getMonster R g i"
proof -
  have "getMonster (appendLog R g' m) g i = getMonster (snd (createGame R g')) g i"
    using createGame_fst [of R g']
    by (simp add: appendLog_def split_def Let_def getMonster_log_upd)
  then show ?thesis by (simp add: getMonster_createGame)
qed

lemma getMonster_addPlayer:
  "getMonster (snd (addPlayer R g' p' n)) g i = getMonster R g i"
  using createGame_fst [of R g']
  by (simp add: addPlayer_def split_def Let_def getMonster_players_upd getMonster_createGame
      split: option.splits)

lemma getMonster_joinGame:
  "getMonster (snd (joinGame R g' p' n)) g i = getMonster R g i"
  by (simp add: joinGame_def split_def Let_def getMonster_appendLog getMonster_addPlayer)

lemma getMonster_setCharacter:
  "getMonster (snd (setCharacter R g' p' ch)) g i = getMonster R g i"
  using createGame_fst [of R g']
  by (simp add: setCharacter_def split_def Let_def getMonster_players_upd getMonster_createGame)

lemma getMonster_createCharacter:
  "getMonster (snd (createCharacter rl R g' p' ch r)) g i = getMonster R g i"
  by (simp add: createCharacter_def split_def Let_def getMonster_appendLog getMonster_setCharacter)

lemma getMonster_attack:
  "getMonster (snd (attack R g' a t rs)) g i = getMonster R g i"
  by (simp add: attack_def getGame_def Let_def getMonster_players_upd split: option.splits)

lemma getMonster_monsterAttack:
  "getMonster (snd (monsterAttack rl R g' m t rs)) g i = getMonster R g i"
  by (simp add: monsterAttack_def getGame_def Let_def getMonster_players_upd split: option.splits)

lemma getMonster_addItemToPlayer:
  "getMonster (snd (addItemToPlayer R g' p' it)) g i = getMonster R g i"
  using createGame_fst [of R g']
  by (simp add: addItemToPlayer_def split_def Let_def getMonster_players_upd getMonster_createGame
      split: option.splits)

lemma getMonster_removeItemFromPlayer:
  "getMonster (snd (removeItemFromPlayer R g' p' it)) g i = getMonster R g i"
  by (simp add: removeItemFromPlayer_def Let_def getMonster_players_upd split: option.splits)

lemma getMonster_giveItem:
  "getMonster (snd (giveItem rl R g' p' it)) g i = getMonster R g i"
  using getMonster_addItemToPlayer [of R g' p' it g i]
  by (cases "addItemToPlayer R g' p' it")
     (simp add: giveItem_def getMonster_appendLog split: option.splits)

lemma getMonster_useItem:
  "getMonster (snd (useItem rl R g' p' it rs)) g i = getMonster R g i"
proof (cases "itemRules rl it")
  case None
  then show ?thesis by (simp add: useItem_def)
next
  case (Some item)
  define R1 where "R1 = snd (removeItemFromPlayer R g' p' it)"
  have R1: "getMonster R1 g i = getMonster R g i"
    by (simp add: R1_def getMonster_removeItemFromPlayer)
  show ?thesis
  proof (cases "R1 g'")
    case None
    then show ?thesis using Some R1
      by (simp add: useItem_def split_def Let_def R1_def [symmetric] getPlayer_def)
  next
    case G: (Some G)
    then show ?thesis using Some R1
      by (simp add: useItem_def split_def Let_def R1_def [symmetric] getPlayer_def
          getMonster_appendLog getMonster_players_upd split: option.splits)
  qed
qed

lemma getMonster_addExperience:
  assumes "addExperience R g' p' x = Some (r, R')"
  shows "getMonster R' g i = getMonster R g i"
  using assms
  by (auto simp: addExperience_def Let_def getMonster_players_log_upd
      split: option.splits prod.splits)

lemma getMonster_selectCampaign:
  "getMonster (snd (selectCampaign cs R g' c)) g i = getMonster R g i"
  using createGame_fst [of R g']
  by (simp add: selectCampaign_def split_def Let_def getMonster_appendLog
      getMonster_campaign_upd getMonster_createGame split: option.splits)

lemma getMonster_reward_xp:
  assumes "reward_xp R g' p' x = Some (r, R')"
  shows "getMonster R' g i = getMonster R g i"
proof -
  obtain a R1 where a: "addExperience R g' p' x = Some (a, R1)"
    using assms by (cases "addExperience R g' p' x") (auto simp: reward_xp_def)
  have "getMonster R' g i = getMonster R1 g i"
    using assms a
    by (auto simp: reward_xp_def getMonster_appendLog split: option.splits)
  then show ?thesis using getMonster_addExperience [OF a] by simp
qed

lemma getMonster_reward_items:
  "getMonster (snd (reward_items R g' p' items)) g i = getMonster R g i"
proof (induction items arbitrary: R)
  case Nil
  show ?case by simp
next
  case (Cons item rest)
  define R1 where "R1 = snd (addItemToPlayer R g' p' item)"
  have R1: "getMonster R1 g i = getMonster R g i"
    by (simp add: R1_def getMonster_addItemToPlayer)
  show ?case
  proof (cases "getPlayer R1 g' p'")
    case None
    then show ?thesis using R1 by (simp add: Let_def R1_def [symmetric])
  next
    case (Some P)
    then show ?thesis
      using R1 Cons.IH [of "appendLog R1 g' (p_name P @ '' received item '' @ item @ ''.'')"]
      by (simp add: Let_def R1_def [symmetric] getMonster_appendLog)
  qed
qed

lemma getMonster_apply_reward:
  assumes "apply_reward R g' p' rw = Some (r, R')"
  shows "getMonster R' g i = getMonster R g i"
proof (cases rw)
  case None
  then show ?thesis using assms by (simp add: apply_reward_def)
next
  case (Some w)
  define first where "first = (if int_or (xp w) 0 \<noteq> 0 then reward_xp R g' p' (int_or (xp w) 0)
                 else Some (None, R))"
  obtain r1 R1 where f: "first = Some (r1, R1)"
    using assms Some by (cases first) (auto simp: apply_reward_def first_def [symmetric])
  have R1: "getMonster R1 g i = getMonster R g i"
    using f getMonster_reward_xp [of R g' p' "int_or (xp w) 0" r1 R1 g i]
    by (auto simp: first_def split: if_splits)
  show ?thesis
  proof (cases r1)
    case (Some err)
    then show ?thesis using assms \<open>rw = Some w\<close> f R1
      by (simp add: apply_reward_def first_def [symmetric])
  next
    case None
    show ?thesis
    proof (cases "r_items w")
      case None
      then show ?thesis using assms \<open>rw = Some w\<close> f R1 \<open>r1 = None\<close>
        by (simp add: apply_reward_def first_def [symmetric])
    next
      case (Some items)
      then have "R' = snd (reward_items R1 g' p' items)"
        using assms \<open>rw = Some w\<close> f \<open>r1 = None\<close>
        by (auto simp add: apply_reward_def first_def [symmetric])
      then show ?thesis using R1 by (simp add: getMonster_reward_items)
    qed
  qed
qed

lemma getMonster_chooseDialogueOption:
  assumes "chooseDialogueOption ds R g' p' d c n k = Some (r, R')"
  shows "getMonster R' g i = getMonster R g i"
proof -
  have "R' = R \<or> (\<exists>rw r1. apply_reward R g' p' rw = Some (r1, R'))"
    using assms
    by (auto simp: chooseDialogueOption_def Let_def split: option.splits if_splits)
  then show ?thesis using getMonster_apply_reward by blast
qed

text \<open>A spawned monster has at least one hit point.\<close>

lemma spawn_hp_positive:
  "0 < nat_or (hitPoints st) (nat_or (hitDice st) 1 * 4)"
  by (simp add: nat_or_def split: option.splits)

lemma getMonster_spawnMonster:
  "getMonster (snd (spawnMonster rl R g' ty iid)) g i
     = (case monsterRules rl ty of
          None \<Rightarrow> getMonster R g i
        | Some st \<Rightarrow>
            if g = g' \<and> i = iid
            then Some \<lparr>instanceId = iid, m_type = ty,
                       m_hp = int (nat_or (hitPoints st) (nat_or (hitDice st) 1 * 4)),
                       m_ac = int_or (armorClass st) 10, m_status = ''alive''\<rparr>
            else getMonster R g i)"
  using createGame_fst [of R g']
  by (simp add: spawnMonster_def models_spawnMonster_def split_def Let_def getMonster_appendLog
      getMonster_monsters_upd getMonster_createGame monsters_createGame split: option.splits)

lemma damage_monster_alive:
  "\<not> m_hp m - d \<le> 0 \<Longrightarrow> damage_monster m d = m\<lparr>m_hp := m_hp m - d\<rparr>"
  by (simp add: damage_monster_def Let_def)

lemma damage_monster_hp: "m_hp (damage_monster m d) = m_hp m - d"
  by (simp add: damage_monster_def Let_def)

lemma damage_monster_dead:
  "m_hp m - d \<le> 0 \<Longrightarrow> m_status (damage_monster m d) = ''dead''"
  by (simp add: damage_monster_def Let_def)

lemma attackMonster_step:
  "((g, i) \<in> kills e (AttackMonster g' a m rs) R \<longrightarrow>
       getMonster R g i \<noteq> None \<and> getMonster (snd (attackMonster R g' a m rs)) g i = None)
   \<and> ((g, i) \<notin> kills e (AttackMonster g' a m rs) R \<longrightarrow>
       rel_option (\<lambda>mo mo'. m_status mo' = m_status mo \<and> (0 < m_hp mo \<longrightarrow> 0 < m_hp mo'))
         (getMonster R g i) (getMonster (snd (attackMonster R g' a m rs)) g i))"
proof -
  let ?am = "attackMonster R g' a m rs"
  have same: "snd ?am = R \<Longrightarrow> kills e (AttackMonster g' a m rs) R = {} \<Longrightarrow> ?thesis"
    by (simp add: option.rel_refl)
  show ?thesis
  proof (cases "R g'")
    case None
    then show ?thesis by (intro same) (simp_all add: attackMonster_def getGame_def)
  next
    case G: (Some G)
    show ?thesis
    proof (cases "players G a")
      case None
      then show ?thesis using G by (intro same) (simp_all add: attackMonster_def getGame_def)
    next
      case A: (Some A)
      show ?thesis
      proof (cases "monsters G m")
        case None
        then show ?thesis using G A by (intro same) (simp_all add: attackMonster_def getGame_def)
      next
        case M: (Some M)
        define tac where "tac = (if m_ac M = 0 then 10 else m_ac M)"
        define d where "d = rollDie 6 (rs 1)"
        show ?thesis
        proof (cases "tac \<le> rollDie 20 (rs 0)")
          case False
          then show ?thesis using G A M
            by (intro same) (simp_all add: attackMonster_def getGame_def Let_def tac_def)
        next
          case True
          have R': "snd ?am = R(g' \<mapsto> G\<lparr>monsters := store_monster (monsters G) m (damage_monster M d)\<rparr>)"
            and res: "\<exists>r. fst ?am = Inr r \<and> mr_hit r \<and> monsterRemainingHp r = m_hp M - d"
            using G A M True
            by (simp_all add: attackMonster_def getGame_def Let_def tac_def d_def damage_monster_hp)
          have k: "kills e (AttackMonster g' a m rs) R = (if m_hp M - d \<le> 0 then {(g', m)} else {})"
            using res by auto
          have gm: "getMonster (snd ?am) g i
              = (if g = g' \<and> i = m then (if m_hp M - d \<le> 0 then None else Some (M\<lparr>m_hp := m_hp M - d\<rparr>))
                 else getMonster R g i)"
            unfolding R' using G
            by (auto simp add: getMonster_monsters_upd store_monster_def damage_monster_hp
                getMonster_found damage_monster_alive)
          have old: "getMonster R g' m = Some M" using G M by (simp add: getMonster_found)
          show ?thesis
            unfolding k gm using old by (auto simp: option.rel_refl)
        qed
      qed
    qed
  qed
qed

lemma castSpell_step:
  "((g, i) \<in> kills e (CastSpell g' c s tt t rs) R \<longrightarrow>
       getMonster R g i \<noteq> None
       \<and> getMonster (snd (castSpell (e_rules e) R g' c s tt t rs)) g i = None)
   \<and> ((g, i) \<notin> kills e (CastSpell g' c s tt t rs) R \<longrightarrow>
       rel_option (\<lambda>mo mo'. m_status mo' = m_status mo \<and> (0 < m_hp mo \<longrightarrow> 0 < m_hp mo'))
         (getMonster R g i) (getMonster (snd (castSpell (e_rules e) R g' c s tt t rs)) g i))"
proof -
  let ?cs = "castSpell (e_rules e) R g' c s tt t rs"
  let ?k = "kills e (CastSpell g' c s tt t rs) R"
  have same: "getMonster (snd ?cs) g i = getMonster R g i \<Longrightarrow> ?k = {} \<Longrightarrow> ?thesis"
    by (simp add: option.rel_refl)
  have fail: "snd ?cs = R \<Longrightarrow> (\<exists>x. fst ?cs = Inl x) \<Longrightarrow> ?thesis"
    by (intro same) (auto split: option.splits)
  show ?thesis
  proof (cases "findSpellByName (e_rules e) s")
    case None
    then show ?thesis by (intro fail) (simp_all add: castSpell_def)
  next
    case SP: (Some spell)
    show ?thesis
    proof (cases "R g'")
      case None
      then show ?thesis using SP by (intro fail) (simp_all add: castSpell_def getGame_def)
    next
      case G: (Some G)
      show ?thesis
      proof (cases "players G c")
        case None
        then show ?thesis using SP G by (intro fail) (simp_all add: castSpell_def getGame_def)
      next
        case C: (Some caster)
        define target where "target =
          (if tt = ''player'' then map_option PlayerTarget (players G t)
           else if tt = ''monster'' then map_option MonsterTarget (monsters G t) else None)"
        show ?thesis
        proof (cases target)
          case None
          then show ?thesis using SP G C
            by (intro fail) (simp_all add: castSpell_def getGame_def target_def)
        next
          case TG: (Some tg)
          show ?thesis
          proof (cases "truthy_str (sp_heal spell)")
            case H: (Some notn)
            show ?thesis
            proof (cases tg)
              case (MonsterTarget M)
              then show ?thesis using SP G C TG H
                by (intro fail) (simp_all add: castSpell_def getGame_def target_def Let_def)
            next
              case (PlayerTarget T)
              have k: "?k = {}"
                using SP G C TG H PlayerTarget
                by (simp add: castSpell_def getGame_def target_def Let_def split: option.splits)
              have "getMonster (snd ?cs) g i = getMonster R g i"
                using SP G C TG H PlayerTarget
                by (simp add: castSpell_def getGame_def target_def Let_def getMonster_appendLog
                    getMonster_players_upd)
              then show ?thesis using k by (rule same)
            qed
          next
            case NH: None
            show ?thesis
            proof (cases "truthy_str (sp_damage spell)")
              case None
              have k: "?k = {}"
                using SP G C TG NH None
                by (simp add: castSpell_def getGame_def target_def Let_def split: option.splits)
              have "getMonster (snd ?cs) g i = getMonster R g i"
                using SP G C TG NH None
                by (simp add: castSpell_def getGame_def target_def Let_def getMonster_appendLog)
              then show ?thesis using k by (rule same)
            next
              case D: (Some notn)
              define dmg where "dmg = fst (rollFromNotation notn rs)"
              define used where "used = snd (rollFromNotation notn rs)"
              define hit where "hit = spell_hits tg (rollDie 20 (rs used))"
              have res: "\<exists>m n x r. fst ?cs = Inr (m, DamageResult n x r hit (if hit then dmg else 0))"
                using SP G C TG NH D
                by (simp add: castSpell_def getGame_def target_def [symmetric] Let_def split_def
                    hit_def used_def dmg_def)
              have "\<exists>m. snd ?cs = appendLog (if hit then R(g' \<mapsto> spell_apply_damage G tg t dmg) else R) g' m"
                using SP G C TG NH D
                by (simp add: castSpell_def getGame_def target_def [symmetric] Let_def split_def
                    hit_def used_def dmg_def) blast
              then obtain m where st: "snd ?cs = appendLog (if hit then R(g' \<mapsto> spell_apply_damage G tg t dmg) else R) g' m"
                by blast
              show ?thesis
              proof (cases tg)
                case (PlayerTarget T)
                then have "tt \<noteq> ''monster''" using TG by (auto simp: target_def split: if_splits)
                then have k: "?k = {}" using res by (auto split: option.splits)
                have "getMonster (snd ?cs) g i = getMonster R g i"
                  unfolding st using G PlayerTarget
                  by (simp add: getMonster_appendLog spell_apply_damage_def Let_def
                      getMonster_players_upd)
                then show ?thesis using k by (rule same)
              next
                case (MonsterTarget M)
                then have M: "monsters G t = Some M" "tt = ''monster''"
                  using TG by (auto simp: target_def split: if_splits)
                have old: "getMonster R g' t = Some M" using G M by (simp add: getMonster_found)
                have k: "?k = (if hit \<and> m_hp M - dmg \<le> 0 then {(g', t)} else {})"
                  using res old M(2) by (cases hit) auto
                have gm: "getMonster (snd ?cs) g i
                    = (if g = g' \<and> i = t \<and> hit
                       then (if m_hp M - dmg \<le> 0 then None else Some (M\<lparr>m_hp := m_hp M - dmg\<rparr>))
                       else getMonster R g i)"
                  unfolding st using G MonsterTarget
                  by (auto simp add: getMonster_appendLog spell_apply_damage_def
                      getMonster_monsters_upd store_monster_def damage_monster_hp
                      getMonster_found damage_monster_alive)
                show ?thesis
                  unfolding k gm using old by (auto simp: option.rel_refl)
              qed
            qed
          qed
        qed
      qed
    qed
  qed
qed

lemma monsters_step:
  assumes "exec e c R = Some R'"
  shows "((g, i) \<in> kills e c R \<longrightarrow> getMonster R g i \<noteq> None \<and> getMonster R' g i = None)
   \<and> ((g, i) \<in> spawns e c \<longrightarrow>
         (\<exists>m. getMonster R' g i = Some m \<and> 0 < m_hp m \<and> m_status m = ''alive'')
         \<and> (g, i) \<notin> kills e c R)
   \<and> ((g, i) \<notin> kills e c R \<and> (g, i) \<notin> spawns e c \<longrightarrow>
       rel_option (\<lambda>mo mo'. m_status mo' = m_status mo \<and> (0 < m_hp mo \<longrightarrow> 0 < m_hp mo'))
         (getMonster R g i) (getMonster R' g i))"
proof -
  have same: "getMonster R' g i = getMonster R g i \<Longrightarrow> kills e c R = {} \<Longrightarrow> spawns e c = {}
      \<Longrightarrow> ?thesis"
    by (simp add: option.rel_refl)
  show ?thesis
  proof (cases c)
    case (JoinGame x1 x2 x3)
    then show ?thesis using assms by (intro same) (auto simp: getMonster_joinGame)
  next
    case (CreateCharacter x1 x2 x3 x4)
    then show ?thesis using assms by (intro same) (auto simp: getMonster_createCharacter)
  next
    case (SetCharacter x1 x2 x3)
    then show ?thesis using assms by (intro same) (auto simp: getMonster_setCharacter)
  next
    case (Attack x1 x2 x3 x4)
    then show ?thesis using assms by (intro same) (auto simp: getMonster_attack)
  next
    case (AttackMonster x1 x2 x3 x4)
    then have "R' = snd (attackMonster R x1 x2 x3 x4)" "spawns e c = {}" using assms by auto
    then show ?thesis
      using attackMonster_step [of g i e x1 x2 x3 x4 R] unfolding AttackMonster by simp
  next
    case (MonsterAttack x1 x2 x3 x4)
    then show ?thesis using assms by (intro same) (auto simp: getMonster_monsterAttack)
  next
    case (CastSpell x1 x2 x3 x4 x5 x6)
    then have "R' = snd (castSpell (e_rules e) R x1 x2 x3 x4 x5 x6)" "spawns e c = {}"
      using assms by auto
    then show ?thesis
      using castSpell_step [of g i e x1 x2 x3 x4 x5 x6 R] unfolding CastSpell by simp
  next
    case (SpawnMonster x1 x2 x3)
    then have R': "R' = snd (spawnMonster (e_rules e) R x1 x2 x3)" using assms by auto
    show ?thesis
      unfolding R' SpawnMonster
      by (cases "monsterRules (e_rules e) x2")
         (auto simp: getMonster_spawnMonster option.rel_refl nat_or_def split: option.splits)
  next
    case (GiveItem x1 x2 x3)
    then show ?thesis using assms by (intro same) (auto simp: getMonster_giveItem)
  next
    case (UseItem x1 x2 x3 x4)
    then show ?thesis using assms by (intro same) (auto simp: getMonster_useItem)
  next
    case (AddExperience x1 x2 x3)
    then show ?thesis using assms getMonster_addExperience [of R x1 x2 x3 _ R' g i]
      by (intro same) auto
  next
    case (AddItemToPlayer x1 x2 x3)
    then show ?thesis using assms by (intro same) (auto simp: getMonster_addItemToPlayer)
  next
    case (RemoveItemFromPlayer x1 x2 x3)
    then show ?thesis using assms by (intro same) (auto simp: getMonster_removeItemFromPlayer)
  next
    case (AppendLog x1 x2)
    then show ?thesis using assms by (intro same) (auto simp: getMonster_appendLog)
  next
    case (SelectCampaign x1 x2)
    then show ?thesis using assms by (intro same) (auto simp: getMonster_selectCampaign)
  next
    case (ChooseDialogueOption x1 x2 x3 x4 x5 x6)
    then show ?thesis
      using assms getMonster_chooseDialogueOption [of "e_dialogues e" R x1 x2 x3 x4 x5 x6 _ R' g i]
      by (intro same) auto
  qed
qed

lemma monster_inv_step:
  assumes inv: "monster_inv h" and ex: "exec e c (h_registry h) = Some R'"
    and fresh: "spawns e c \<inter> h_spawned h = {}"
  shows "monster_inv \<lparr>h_registry = R', h_spawned = h_spawned h \<union> spawns e c,
                       h_killed = h_killed h \<union> kills e c (h_registry h)\<rparr>"
proof -
  let ?R = "h_registry h"
  note st = monsters_step [OF ex]
  have present: "getMonster ?R g i = Some m \<Longrightarrow>
      (g, i) \<in> h_spawned h \<and> (g, i) \<notin> h_killed h \<and> 0 < m_hp m \<and> m_status m = ''alive''" for g i m
    using inv by (auto simp: monster_inv_def)
  have absent: "(g, i) \<in> h_spawned h \<Longrightarrow> getMonster ?R g i = None \<Longrightarrow> (g, i) \<in> h_killed h" for g i
    using inv by (auto simp: monster_inv_def)
  have sub: "h_killed h \<subseteq> h_spawned h" using inv by (auto simp: monster_inv_def)
  have a: "(g, i) \<in> h_spawned h \<union> spawns e c \<and> (g, i) \<notin> h_killed h \<union> kills e c ?R
           \<and> 0 < m_hp m \<and> m_status m = ''alive''"
    if m: "getMonster R' g i = Some m" for g i m
  proof (cases "(g, i) \<in> spawns e c")
    case True
    then have "(g, i) \<notin> h_spawned h" using fresh by auto
    then have "(g, i) \<notin> h_killed h" using sub by auto
    then show ?thesis using st [of g i] True m by auto
  next
    case False
    have nk: "(g, i) \<notin> kills e c ?R" using st [of g i] m by auto
    with False have "rel_option (\<lambda>mo mo'. m_status mo' = m_status mo \<and> (0 < m_hp mo \<longrightarrow> 0 < m_hp mo'))
         (getMonster ?R g i) (getMonster R' g i)"
      using st [of g i] by blast
    then obtain mo where mo: "getMonster ?R g i = Some mo" "m_status m = m_status mo"
      "0 < m_hp mo \<longrightarrow> 0 < m_hp m"
      using m by (cases "getMonster ?R g i") auto
    from present [OF mo(1)] mo nk show ?thesis by auto
  qed
  have b: "(g, i) \<in> h_killed h \<union> kills e c ?R"
    if s: "(g, i) \<in> h_spawned h \<union> spawns e c" and n: "getMonster R' g i = None" for g i
  proof (cases "(g, i) \<in> kills e c ?R")
    case True
    then show ?thesis by simp
  next
    case False
    have ns: "(g, i) \<notin> spawns e c" using st [of g i] n by auto
    with False have "rel_option (\<lambda>mo mo'. m_status mo' = m_status mo \<and> (0 < m_hp mo \<longrightarrow> 0 < m_hp mo'))
         (getMonster ?R g i) (getMonster R' g i)"
      using st [of g i] by blast
    then have "getMonster ?R g i = None" using n by (cases "getMonster ?R g i") auto
    moreover have "(g, i) \<in> h_spawned h" using s ns by auto
    ultimately show ?thesis using absent by auto
  qed
  have c: "h_killed h \<union> kills e c ?R \<subseteq> h_spawned h \<union> spawns e c"
  proof -
    have "(g, i) \<in> kills e c ?R \<Longrightarrow> (g, i) \<in> h_spawned h" for g i
      using st [of g i] present [of g i] by auto
    then show ?thesis using sub by auto
  qed
  show ?thesis
    unfolding monster_inv_def using a b c by auto
qed

lemma run_monster_inv:
  assumes "run e cs h = Some h'" "fresh_ids e cs (h_spawned h)" "monster_inv h"
  shows "monster_inv h'"
  using assms
proof (induction cs arbitrary: h)
  case Nil
  then show ?case by simp
next
  case (Cons c cs)
  obtain R' where R': "exec e c (h_registry h) = Some R'"
    using Cons.prems(1) by (cases "exec e c (h_registry h)") auto
  define h1 where "h1 = \<lparr>h_registry = R', h_spawned = h_spawned h \<union> spawns e c,
                       h_killed = h_killed h \<union> kills e c (h_registry h)\<rparr>"
  have run: "run e cs h1 = Some h'" using Cons.prems(1) R' by (simp add: h1_def)
  have fr: "spawns e c \<inter> h_spawned h = {}" "fresh_ids e cs (h_spawned h1)"
    using Cons.prems(2) by (simp_all add: h1_def)
  have "monster_inv h1"
    unfolding h1_def using Cons.prems(3) R' fr(1) by (rule monster_inv_step)
  with run fr(2) show ?case by (rule Cons.IH)
qed

section \<open>Removal of monsters\<close>

lemma attackMonster_removed:
  assumes "attackMonster R g a i rs = (Inr r, R')" "getMonster R' g i = None"
  shows "mr_hit r \<and> monsterRemainingHp r \<le> 0 \<and> monsterStatus r = ''dead''"
proof -
  obtain G where G: "R g = Some G"
    using assms(1) by (cases "R g") (auto simp: attackMonster_def getGame_def)
  obtain A where A: "players G a = Some A"
    using assms(1) G by (cases "players G a") (auto simp: attackMonster_def getGame_def)
  obtain M where M: "monsters G i = Some M"
    using assms(1) G A by (cases "monsters G i") (auto simp: attackMonster_def getGame_def)
  define d where "d = rollDie 6 (rs 1)"
  show ?thesis
  proof (cases "(if m_ac M = 0 then 10 else m_ac M) \<le> rollDie 20 (rs 0)")
    case False
    then have "R' = R" using assms(1) G A M
      by (auto simp: attackMonster_def getGame_def Let_def)
    then show ?thesis using assms(2) G M by (simp add: getMonster_found)
  next
    case True
    then have r: "mr_hit r" "monsterRemainingHp r = m_hp (damage_monster M d)"
      "monsterStatus r = m_status (damage_monster M d)"
      and R': "R' = R(g \<mapsto> G\<lparr>monsters := store_monster (monsters G) i (damage_monster M d)\<rparr>)"
      using assms(1) G A M by (auto simp: attackMonster_def getGame_def Let_def d_def)
    have "m_hp M - d \<le> 0"
      using assms(2) G unfolding R'
      by (auto simp: getMonster_monsters_upd store_monster_def damage_monster_hp split: if_splits)
    then show ?thesis using r by (simp add: damage_monster_hp damage_monster_dead)
  qed
qed

text \<open>
  The removal of monsters when instance ids are unique. In every state reached from the
  empty registry by a run of the engine whose spawns get unique instance ids: a spawned
  monster is absent from the monster mapping of its game iff some call (\<open>attackMonster\<close>
  or a damage spell) has reduced its hit points to 0 or less since it was spawned, and
  every monster in a mapping has positive hit points and status \<open>alive\<close>. At the removal
  the status is \<open>dead\<close>: an \<open>attackMonster\<close> after which the monster is gone reports a
  hit, remaining hit points \<open>\<le> 0\<close> and status \<open>dead\<close>, and the monster object that
  either path drops from the mapping carries that status.
\<close>

theorem monster_removal:
  assumes "run e cs \<lparr>h_registry = Map.empty, h_spawned = {}, h_killed = {}\<rparr> = Some h"
    and "fresh_ids e cs {}"
  shows "(\<forall>(g, i) \<in> h_spawned h. (getMonster (h_registry h) g i = None) = ((g, i) \<in> h_killed h))
    \<and> (\<forall>g i m. getMonster (h_registry h) g i = Some m \<longrightarrow> 0 < m_hp m \<and> m_status m = ''alive'')
    \<and> (\<forall>R g a i rs r R'. attackMonster R g a i rs = (Inr r, R') \<and> getMonster R' g i = None
          \<longrightarrow> mr_hit r \<and> monsterRemainingHp r \<le> 0 \<and> monsterStatus r = ''dead'')
    \<and> (\<forall>ms i m d. m_hp m - d \<le> 0 \<longrightarrow>
          m_status (damage_monster m d) = ''dead''
          \<and> store_monster ms i (damage_monster m d) i = None)"
proof -
  have "monster_inv \<lparr>h_registry = Map.empty, h_spawned = {}, h_killed = {}\<rparr>"
    by (simp add: monster_inv_def getMonster_def)
  with assms have inv: "monster_inv h"
    by (intro run_monster_inv [of e cs _ h]) simp_all
  have 1: "\<forall>(g, i) \<in> h_spawned h. (getMonster (h_registry h) g i = None) = ((g, i) \<in> h_killed h)"
  proof -
    have "(getMonster (h_registry h) g i = None) = ((g, i) \<in> h_killed h)"
      if "(g, i) \<in> h_spawned h" for g i
      using inv that unfolding monster_inv_def
      by (cases "getMonster (h_registry h) g i") auto
    then show ?thesis by auto
  qed
  have 2: "\<forall>g i m. getMonster (h_registry h) g i = Some m \<longrightarrow> 0 < m_hp m \<and> m_status m = ''alive''"
    using inv unfolding monster_inv_def by blast
  have 3: "\<forall>R g a i rs r R'. attackMonster R g a i rs = (Inr r, R') \<and> getMonster R' g i = None
          \<longrightarrow> mr_hit r \<and> monsterRemainingHp r \<le> 0 \<and> monsterStatus r = ''dead''"
    using attackMonster_removed by blast
  have 4: "\<forall>ms i m d. m_hp m - d \<le> 0 \<longrightarrow>
          m_status (damage_monster m d) = ''dead''
          \<and> store_monster ms i (damage_monster m d) i = None"
    by (simp add: damage_monster_dead store_monster_def damage_monster_hp)
  from 1 2 3 4 show ?thesis by blast
qed

lemma encounter_attack:
  "\<exists>R'. attackMonster encounter ''g1'' ''p1'' ''m1'' ((\<lambda>_. 5/6)(0 := 19/20))
      = (Inr \<lparr>mr_attacker = ''Rowan'', mr_target = ''orc'', mr_roll = 20, mr_hit = True,
              mr_damage = 6, monsterRemainingHp = - 2, monsterStatus = ''dead''\<rparr>, R')
     \<and> getMonster R' ''g1'' ''m1'' = None"
proof -
  have rule: "monsterRules small_rules ''orc'' = Some orc_rule"
    by (simp add: small_rules_def)
  have enc: "encounter = [''g1'' \<mapsto> \<lparr>g_id = ''g1'',
        players = [''p1'' \<mapsto> \<lparr>p_id = ''p1'', p_name = ''Rowan'', p_character = None\<rparr>],
        g_log = [''A orc appears!'', ''Rowan joined the game.''], g_campaign = None,
        monsters = [''m1'' \<mapsto> orc]\<rparr>]"
    by (simp add: encounter_def spawnMonster_def rule models_spawnMonster_def createGame_def
        appendLog_def joinGame_def addPlayer_def Let_def orc_rule_def nat_or_def int_or_def
        orc_def)
  define G2 where "G2 = \<lparr>g_id = ''g1'',
        players = [''p1'' \<mapsto> \<lparr>p_id = ''p1'', p_name = ''Rowan'', p_character = None\<rparr>],
        g_log = [''A orc appears!'', ''Rowan joined the game.''], g_campaign = None,
        monsters = [''m1'' \<mapsto> orc]\<rparr>"
  define P where "P = \<lparr>p_id = ''p1'', p_name = ''Rowan'', p_character = None\<rparr>"
  have G2: "encounter ''g1'' = Some G2" by (simp add: enc G2_def)
  have P: "players G2 ''p1'' = Some P" "p_name P = ''Rowan''" by (simp_all add: G2_def P_def)
  have M: "monsters G2 ''m1''
      = Some \<lparr>instanceId = ''m1'', m_type = ''orc'', m_hp = 4, m_ac = 13, m_status = ''alive''\<rparr>"
    by (simp add: G2_def orc_def)
  have am: "attackMonster encounter ''g1'' ''p1'' ''m1'' ((\<lambda>_. 5/6)(0 := 19/20))
      = (Inr \<lparr>mr_attacker = ''Rowan'', mr_target = ''orc'', mr_roll = 20, mr_hit = True,
              mr_damage = 6, monsterRemainingHp = - 2, monsterStatus = ''dead''\<rparr>,
         encounter(''g1'' \<mapsto> G2\<lparr>monsters := (monsters G2)(''m1'' := None)\<rparr>))"
    using G2 P M
    by (simp add: attackMonster_def getGame_def Let_def rollDie_def damage_monster_def
        store_monster_def)
  show ?thesis unfolding am by (simp add: getMonster_def)
qed

lemma hunt_run:
  "\<exists>h. run small_env hunt start = Some h
     \<and> h_spawned h = {(''g1'', ''m1''), (''g1'', ''m2'')}
     \<and> h_killed h = {(''g1'', ''m1'')}
     \<and> getMonster (h_registry h) ''g1'' ''m1'' = None
     \<and> getMonster (h_registry h) ''g1'' ''m2''
         = Some \<lparr>instanceId = ''m2'', m_type = ''orc'', m_hp = 4, m_ac = 13, m_status = ''alive''\<rparr>"
proof -
  have rule: "monsterRules (e_rules small_env) ''orc'' = Some orc_rule"
    "e_rules small_env = small_rules" "monsterRules small_rules ''orc'' = Some orc_rule"
    by (simp_all add: small_env_def small_rules_def)
  obtain R3 where am: "attackMonster encounter ''g1'' ''p1'' ''m1'' ((\<lambda>_. 5/6)(0 := 19/20))
      = (Inr \<lparr>mr_attacker = ''Rowan'', mr_target = ''orc'', mr_roll = 20, mr_hit = True,
              mr_damage = 6, monsterRemainingHp = - 2, monsterStatus = ''dead''\<rparr>, R3)"
     and m3: "getMonster R3 ''g1'' ''m1'' = None"
    using encounter_attack by blast
  define R4 where "R4 = snd (spawnMonster small_rules R3 ''g1'' ''orc'' ''m2'')"
  have k: "kills small_env (AttackMonster ''g1'' ''p1'' ''m1'' ((\<lambda>_. 5/6)(0 := 19/20))) encounter
      = {(''g1'', ''m1'')}"
    by (simp add: am)
  have m4: "getMonster R4 ''g1'' ''m1'' = None"
    "getMonster R4 ''g1'' ''m2''
         = Some \<lparr>instanceId = ''m2'', m_type = ''orc'', m_hp = 4, m_ac = 13, m_status = ''alive''\<rparr>"
    using m3 rule
    by (simp_all add: R4_def getMonster_spawnMonster orc_rule_def nat_or_def int_or_def)
  have "run small_env hunt start
     = Some \<lparr>h_registry = R4, h_spawned = {(''g1'', ''m1''), (''g1'', ''m2'')},
             h_killed = {(''g1'', ''m1'')}\<rparr>"
    using k
    by (simp add: hunt_def start_def rule encounter_def [symmetric] am R4_def [symmetric]
        insert_commute)
  then show ?thesis using m4 by simp
qed

theorem monster_removal_witness:
  "\<exists>h. run small_env hunt \<lparr>h_registry = Map.empty, h_spawned = {}, h_killed = {}\<rparr> = Some h
     \<and> fresh_ids small_env hunt {}
     \<and> (''g1'', ''m1'') \<in> h_spawned h \<and> (''g1'', ''m1'') \<in> h_killed h
     \<and> getMonster (h_registry h) ''g1'' ''m1'' = None
     \<and> (''g1'', ''m2'') \<in> h_spawned h \<and> (''g1'', ''m2'') \<notin> h_killed h
     \<and> (\<exists>m. getMonster (h_registry h) ''g1'' ''m2'' = Some m \<and> 0 < m_hp m
              \<and> m_status m = ''alive'')
     \<and> (\<exists>r R'. attackMonster encounter ''g1'' ''p1'' ''m1'' ((\<lambda>_. 5/6)(0 := 19/20)) = (Inr r, R')
              \<and> getMonster R' ''g1'' ''m1'' = None
              \<and> mr_hit r \<and> monsterRemainingHp r \<le> 0 \<and> monsterStatus r = ''dead'')
     \<and> m_hp orc - 6 \<le> 0 \<and> m_status (damage_monster orc 6) = ''dead''
     \<and> store_monster Map.empty ''m1'' (damage_monster orc 6) ''m1'' = None"
proof -
  obtain h where h: "run small_env hunt \<lparr>h_registry = Map.empty, h_spawned = {}, h_killed = {}\<rparr>
        = Some h"
    "h_spawned h = {(''g1'', ''m1''), (''g1'', ''m2'')}" "h_killed h = {(''g1'', ''m1'')}"
    "getMonster (h_registry h) ''g1'' ''m2''
         = Some \<lparr>instanceId = ''m2'', m_type = ''orc'', m_hp = 4, m_ac = 13, m_status = ''alive''\<rparr>"
    using hunt_run unfolding start_def by blast
  have f: "fresh_ids small_env hunt {}"
    by (simp add: hunt_def small_env_def small_rules_def)
  obtain r R' where a: "attackMonster encounter ''g1'' ''p1'' ''m1'' ((\<lambda>_. 5/6)(0 := 19/20)) = (Inr r, R')"
    "getMonster R' ''g1'' ''m1'' = None"
    using encounter_attack by blast
  have o: "m_hp orc - 6 \<le> 0" by (simp add: orc_def)
  note t = monster_removal [OF h(1) f]
  have 1: "getMonster (h_registry h) ''g1'' ''m1'' = None"
    using t h(2,3) by auto
  have 2: "\<exists>m. getMonster (h_registry h) ''g1'' ''m2'' = Some m \<and> 0 < m_hp m
              \<and> m_status m = ''alive''"
    using t h(4) by blast
  have 3: "mr_hit r \<and> monsterRemainingHp r \<le> 0 \<and> monsterStatus r = ''dead''"
    using t a by blast
  have 4: "m_status (damage_monster orc 6) = ''dead''
     \<and> store_monster Map.empty ''m1'' (damage_monster orc 6) ''m1'' = None"
    using t o by blast
  show ?thesis
    using h(1,2,3) f 1 2 3 4 a o by (intro exI [where x = h]) auto
qed


text \<open>
  C3 says that a spawned monster instance leaves the monster mapping only when a call
  reduces its hit points to 0 or less. \<open>spawnMonster\<close> builds the instance id from the
  clock and a random number below 1000 (its comment calls the id unique) and stores the
  new monster under it without looking, so two spawns in the same millisecond can get the
  same id. In the run \<open>raid\<close> they do: no call reduces the hit points of a monster to 0
  or less, and still the orc that Rowan wounded (3 hit points left, status \<open>alive\<close>) is
  gone from the mapping after the second spawn: the entry under its id is the new orc,
  with 4 hit points.
\<close>

theorem monster_replaced_by_respawn:
  "getMonster encounter ''g1'' ''m1'' = Some orc
   \<and> kills small_env (AttackMonster ''g1'' ''p1'' ''m1'' glancing) encounter = {}
   \<and> getMonster skirmish ''g1'' ''m1'' = Some (orc\<lparr>m_hp := 3\<rparr>)
   \<and> m_status (orc\<lparr>m_hp := 3\<rparr>) = ''alive''
   \<and> getMonster respawned ''g1'' ''m1'' = Some orc
   \<and> orc\<lparr>m_hp := 3\<rparr> \<noteq> orc
   \<and> run small_env raid start
        = Some \<lparr>h_registry = respawned, h_spawned = {(''g1'', ''m1'')}, h_killed = {}\<rparr>
   \<and> \<not> fresh_ids small_env raid {}"
proof -
  have rule: "monsterRules (e_rules small_env) ''orc'' = Some orc_rule"
    "e_rules small_env = small_rules" "monsterRules small_rules ''orc'' = Some orc_rule"
    by (simp_all add: small_env_def small_rules_def)
  define P where "P = \<lparr>p_id = ''p1'', p_name = ''Rowan'', p_character = None\<rparr>"
  define G2 where "G2 = \<lparr>g_id = ''g1'', players = [''p1'' \<mapsto> P],
        g_log = [''A orc appears!'', ''Rowan joined the game.''], g_campaign = None,
        monsters = [''m1'' \<mapsto> orc]\<rparr>"
  have enc: "encounter = [''g1'' \<mapsto> G2]"
    by (simp add: encounter_def spawnMonster_def rule models_spawnMonster_def createGame_def
        appendLog_def joinGame_def addPlayer_def Let_def orc_rule_def nat_or_def int_or_def
        orc_def G2_def P_def)
  have G2: "getGame encounter ''g1'' = Some G2" by (simp add: enc getGame_def)
  have P: "players G2 ''p1'' = Some P" "p_name P = ''Rowan''" by (simp_all add: G2_def P_def)
  have M: "monsters G2 ''m1'' = Some orc" by (simp add: G2_def)
  have o: "m_ac orc = 13" "m_hp orc = 4" "m_type orc = ''orc''" "m_status orc = ''alive''"
    by (simp_all add: orc_def)
  have am: "attackMonster encounter ''g1'' ''p1'' ''m1'' glancing
      = (Inr \<lparr>mr_attacker = ''Rowan'', mr_target = ''orc'', mr_roll = 20, mr_hit = True,
              mr_damage = 1, monsterRemainingHp = 3, monsterStatus = ''alive''\<rparr>,
         encounter(''g1'' \<mapsto> G2\<lparr>monsters := (monsters G2)(''m1'' \<mapsto> orc\<lparr>m_hp := 3\<rparr>)\<rparr>))"
    by (simp add: attackMonster_def G2 P M o Let_def rollDie_def damage_monster_def
        store_monster_def glancing_def)
  have 1: "getMonster encounter ''g1'' ''m1'' = Some orc"
    by (simp add: enc getMonster_def G2_def)
  have 2: "kills small_env (AttackMonster ''g1'' ''p1'' ''m1'' glancing) encounter = {}"
    by (simp add: am)
  have 3: "getMonster skirmish ''g1'' ''m1'' = Some (orc\<lparr>m_hp := 3\<rparr>)"
    by (simp add: skirmish_def am getMonster_def)
  have 4: "getMonster respawned ''g1'' ''m1'' = Some orc"
    by (simp add: respawned_def getMonster_spawnMonster rule orc_rule_def nat_or_def int_or_def
        orc_def)
  have 5: "orc\<lparr>m_hp := 3\<rparr> \<noteq> orc"
  proof
    assume "orc\<lparr>m_hp := 3\<rparr> = orc"
    then have "m_hp (orc\<lparr>m_hp := 3\<rparr>) = m_hp orc" by simp
    then show False by (simp add: o)
  qed
  have 6: "run small_env raid start
        = Some \<lparr>h_registry = respawned, h_spawned = {(''g1'', ''m1'')}, h_killed = {}\<rparr>"
    using 2
    by (simp add: raid_def start_def rule encounter_def [symmetric] skirmish_def [symmetric]
        respawned_def [symmetric])
  have 7: "\<not> fresh_ids small_env raid {}"
    by (simp add: raid_def rule)
  from 1 2 3 4 5 6 7 show ?thesis by (simp add: o)
qed

section \<open>Export of a character\<close>

lemma deep_agree:
  "deep h st v = Some t \<Longrightarrow> length h \<le> length h2 \<Longrightarrow> (\<forall>a < length h. h2 ! a = h ! a)
     \<Longrightarrow> deep h2 st v = Some t"
  "deep_list h st vs = Some ts \<Longrightarrow> length h \<le> length h2 \<Longrightarrow> (\<forall>a < length h. h2 ! a = h ! a)
     \<Longrightarrow> deep_list h2 st vs = Some ts"
  "deep_fields h st fs = Some fts \<Longrightarrow> length h \<le> length h2 \<Longrightarrow> (\<forall>a < length h. h2 ! a = h ! a)
     \<Longrightarrow> deep_fields h2 st fs = Some fts"
proof (induction h st v and h st vs and h st fs arbitrary: t and ts and fts
    rule: deep_deep_list_deep_fields.induct)
  case (6 h st a)
  from "6.prems"(1) have a: "a \<notin> set st" "a < length h"
    by (auto split: if_splits)
  then have eq: "h2 ! a = h ! a" and a2: "a < length h2" using "6.prems" by auto
  show ?case
  proof (cases "h ! a")
    case (Object fs)
    then obtain fts where f: "deep_fields h (a # st) fs = Some fts" "t = JObj fts"
      using "6.prems"(1) a by auto
    have "deep_fields h2 (a # st) fs = Some fts"
      using "6.IH"(1) [OF _ Object f(1)] a "6.prems"(2,3) by auto
    then show ?thesis using a a2 eq Object f(2) by simp
  next
    case (Array vs)
    then obtain ts where f: "deep_list h (a # st) vs = Some ts" "t = JArr ts"
      using "6.prems"(1) a by auto
    have "deep_list h2 (a # st) vs = Some ts"
      using "6.IH"(2) [OF _ Array f(1)] a "6.prems"(2,3) by auto
    then show ?thesis using a a2 eq Array f(2) by simp
  qed
next
  case (8 h st v vs)
  from "8.prems"(1) obtain j js where j: "deep h st v = Some j" "deep_list h st vs = Some js"
    "ts = j # js"
    by (auto split: option.splits)
  have "deep h2 st v = Some j" using "8.IH"(1) [OF j(1)] "8.prems"(2,3) by simp
  moreover have "deep_list h2 st vs = Some js"
    using "8.IH"(2) [OF j(1) j(2)] "8.prems"(2,3) by simp
  ultimately show ?case using j(3) by simp
next
  case (10 h st f fs)
  from "10.prems"(1) obtain j js where j: "deep h st (snd f) = Some j"
    "deep_fields h st fs = Some js" "fts = (fst f, j) # js"
    by (auto split: option.splits)
  have "deep h2 st (snd f) = Some j" using "10.IH"(1) [OF j(1)] "10.prems"(2,3) by simp
  moreover have "deep_fields h2 st fs = Some js"
    using "10.IH"(2) [OF j(1) j(2)] "10.prems"(2,3) by simp
  ultimately show ?case using j(3) by simp
qed simp_all

lemma build_extends:
  "build j h = (v, h') \<Longrightarrow> \<exists>ext. h' = h @ ext"
  "build_list js h = (vs, h') \<Longrightarrow> \<exists>ext. h' = h @ ext"
  "build_fields fs h = (fvs, h') \<Longrightarrow> \<exists>ext. h' = h @ ext"
proof (induction j h and js h and fs h arbitrary: v h' and vs h' and fvs h'
    rule: build_build_list_build_fields.induct)
  case (6 js h)
  obtain vs h1 where b: "build_list js h = (vs, h1)" by (cases "build_list js h")
  with "6.prems" have "h' = h1 @ [Array vs]" by simp
  moreover from "6.IH" [OF b] obtain ext where "h1 = h @ ext" by blast
  ultimately show ?case by simp
next
  case (7 fs h)
  obtain fvs h1 where b: "build_fields fs h = (fvs, h1)" by (cases "build_fields fs h")
  with "7.prems" have "h' = h1 @ [Object fvs]" by simp
  moreover from "7.IH" [OF b] obtain ext where "h1 = h @ ext" by blast
  ultimately show ?case by simp
next
  case (9 j js h)
  obtain v1 h1 where b1: "build j h = (v1, h1)" by (cases "build j h")
  obtain vs1 h2 where b2: "build_list js h1 = (vs1, h2)" by (cases "build_list js h1")
  from "9.prems" b1 b2 have "h' = h2" by simp
  moreover from "9.IH"(1) [OF b1] obtain e1 where "h1 = h @ e1" by blast
  moreover from "9.IH"(2) [OF b1 [symmetric] refl b2] obtain e2 where "h2 = h1 @ e2" by blast
  ultimately show ?case by simp
next
  case (11 f fs h)
  obtain v1 h1 where b1: "build (snd f) h = (v1, h1)" by (cases "build (snd f) h")
  obtain vs1 h2 where b2: "build_fields fs h1 = (vs1, h2)" by (cases "build_fields fs h1")
  from "11.prems" b1 b2 have "h' = h2" by simp
  moreover from "11.IH"(1) [OF b1] obtain e1 where "h1 = h @ e1" by blast
  moreover from "11.IH"(2) [OF b1 [symmetric] refl b2] obtain e2 where "h2 = h1 @ e2" by blast
  ultimately show ?case by simp
qed auto


lemma build_roundtrip:
  "build j h = (v, h') \<Longrightarrow> set st \<inter> {length h..<length h'} = {} \<Longrightarrow> deep h' st v = Some j"
  "build_list js h = (vs, h') \<Longrightarrow> set st \<inter> {length h..<length h'} = {}
     \<Longrightarrow> deep_list h' st vs = Some js"
  "build_fields fs h = (fvs, h') \<Longrightarrow> set st \<inter> {length h..<length h'} = {}
     \<Longrightarrow> deep_fields h' st fvs = Some fs"
proof (induction j h and js h and fs h arbitrary: v h' st and vs h' st and fvs h' st
    rule: build_build_list_build_fields.induct)
  case (6 js h)
  obtain vs h1 where b: "build_list js h = (vs, h1)" by (cases "build_list js h")
  with "6.prems"(1) have v: "v = VRef (length h1)" "h' = h1 @ [Array vs]" by simp_all
  obtain ext where ext: "h1 = h @ ext" using build_extends(2) [OF b] by blast
  have ns: "length h1 \<notin> set st" using "6.prems"(2) v(2) ext by auto
  have "set (length h1 # st) \<inter> {length h..<length h1} = {}"
    using "6.prems"(2) v(2) by auto
  from "6.IH" [OF b this] have "deep_list h1 (length h1 # st) vs = Some js" .
  then have "deep_list h' (length h1 # st) vs = Some js"
    by (rule deep_agree(2)) (simp_all add: v(2) nth_append)
  then show ?case using ns by (simp add: v)
next
  case (7 fs h)
  obtain fvs h1 where b: "build_fields fs h = (fvs, h1)" by (cases "build_fields fs h")
  with "7.prems"(1) have v: "v = VRef (length h1)" "h' = h1 @ [Object fvs]" by simp_all
  obtain ext where ext: "h1 = h @ ext" using build_extends(3) [OF b] by blast
  have ns: "length h1 \<notin> set st" using "7.prems"(2) v(2) ext by auto
  have "set (length h1 # st) \<inter> {length h..<length h1} = {}"
    using "7.prems"(2) v(2) by auto
  from "7.IH" [OF b this] have "deep_fields h1 (length h1 # st) fvs = Some fs" .
  then have "deep_fields h' (length h1 # st) fvs = Some fs"
    by (rule deep_agree(3)) (simp_all add: v(2) nth_append)
  then show ?case using ns by (simp add: v)
next
  case (9 j js h)
  obtain v1 h1 where b1: "build j h = (v1, h1)" by (cases "build j h")
  obtain vs1 h2 where b2: "build_list js h1 = (vs1, h2)" by (cases "build_list js h1")
  from "9.prems"(1) b1 b2 have v: "vs = v1 # vs1" "h' = h2" by simp_all
  obtain e1 where e1: "h1 = h @ e1" using build_extends(1) [OF b1] by blast
  obtain e2 where e2: "h2 = h1 @ e2" using build_extends(2) [OF b2] by blast
  have "set st \<inter> {length h..<length h1} = {}" using "9.prems"(2) v(2) e1 e2 by auto
  from "9.IH"(1) [OF b1 this] have "deep h1 st v1 = Some j" .
  then have 1: "deep h2 st v1 = Some j"
    by (rule deep_agree(1)) (simp_all add: e2 nth_append)
  have "set st \<inter> {length h1..<length h2} = {}" using "9.prems"(2) v(2) e1 e2 by auto
  from "9.IH"(2) [OF b1 [symmetric] refl b2 this] have 2: "deep_list h2 st vs1 = Some js" .
  show ?case using 1 2 by (simp add: v)
next
  case (11 f fs h)
  obtain v1 h1 where b1: "build (snd f) h = (v1, h1)" by (cases "build (snd f) h")
  obtain vs1 h2 where b2: "build_fields fs h1 = (vs1, h2)" by (cases "build_fields fs h1")
  from "11.prems"(1) b1 b2 have v: "fvs = (fst f, v1) # vs1" "h' = h2" by simp_all
  obtain e1 where e1: "h1 = h @ e1" using build_extends(1) [OF b1] by blast
  obtain e2 where e2: "h2 = h1 @ e2" using build_extends(3) [OF b2] by blast
  have "set st \<inter> {length h..<length h1} = {}" using "11.prems"(2) v(2) e1 e2 by auto
  from "11.IH"(1) [OF b1 this] have "deep h1 st v1 = Some (snd f)" .
  then have 1: "deep h2 st v1 = Some (snd f)"
    by (rule deep_agree(1)) (simp_all add: e2 nth_append)
  have "set st \<inter> {length h1..<length h2} = {}" using "11.prems"(2) v(2) e1 e2 by auto
  from "11.IH"(2) [OF b1 [symmetric] refl b2 this] have 2: "deep_fields h2 st vs1 = Some fs" .
  show ?case using 1 2 by (simp add: v)
qed auto

lemma val_from_mono: "val_from n v \<Longrightarrow> m \<le> n \<Longrightarrow> val_from m v"
  by (cases v) (simp_all add: val_from_def)

lemma obj_from_mono: "obj_from n ob \<Longrightarrow> m \<le> n \<Longrightarrow> obj_from m ob"
  by (cases ob) (auto simp: obj_from_def list_all_iff intro: val_from_mono)

lemma build_fresh:
  "build j h = (v, h') \<Longrightarrow>
     val_from (length h) v \<and> (\<forall>c. length h \<le> c \<and> c < length h' \<longrightarrow> obj_from (length h) (h' ! c))"
  "build_list js h = (vs, h') \<Longrightarrow>
     list_all (val_from (length h)) vs
     \<and> (\<forall>c. length h \<le> c \<and> c < length h' \<longrightarrow> obj_from (length h) (h' ! c))"
  "build_fields fs h = (fvs, h') \<Longrightarrow>
     list_all (\<lambda>f. val_from (length h) (snd f)) fvs
     \<and> (\<forall>c. length h \<le> c \<and> c < length h' \<longrightarrow> obj_from (length h) (h' ! c))"
proof (induction j h and js h and fs h arbitrary: v h' and vs h' and fvs h'
    rule: build_build_list_build_fields.induct)
  case (6 js h)
  obtain vs h1 where b: "build_list js h = (vs, h1)" by (cases "build_list js h")
  with "6.prems"(1) have v: "v = VRef (length h1)" "h' = h1 @ [Array vs]" by simp_all
  obtain ext where ext: "h1 = h @ ext" using build_extends(2) [OF b] by blast
  note A = "6.IH" [OF b]
  have 1: "val_from (length h) v" by (simp add: v val_from_def ext)
  have 2: "obj_from (length h) (h' ! c)" if c: "length h \<le> c" "c < length h'" for c
  proof (cases "c < length h1")
    case True
    then have "h' ! c = h1 ! c" by (simp add: v nth_append)
    then show ?thesis using A c True by simp
  next
    case False
    then have "h' ! c = Array vs" using c by (simp add: v nth_append)
    then show ?thesis using A by (simp add: obj_from_def)
  qed
  show ?case using 1 2 by blast
next
  case (7 fs h)
  obtain fvs h1 where b: "build_fields fs h = (fvs, h1)" by (cases "build_fields fs h")
  with "7.prems"(1) have v: "v = VRef (length h1)" "h' = h1 @ [Object fvs]" by simp_all
  obtain ext where ext: "h1 = h @ ext" using build_extends(3) [OF b] by blast
  note A = "7.IH" [OF b]
  have 1: "val_from (length h) v" by (simp add: v val_from_def ext)
  have 2: "obj_from (length h) (h' ! c)" if c: "length h \<le> c" "c < length h'" for c
  proof (cases "c < length h1")
    case True
    then have "h' ! c = h1 ! c" by (simp add: v nth_append)
    then show ?thesis using A c True by simp
  next
    case False
    then have "h' ! c = Object fvs" using c by (simp add: v nth_append)
    then show ?thesis using A by (simp add: obj_from_def)
  qed
  show ?case using 1 2 by blast
next
  case (9 j js h)
  obtain v1 h1 where b1: "build j h = (v1, h1)" by (cases "build j h")
  obtain vs1 h2 where b2: "build_list js h1 = (vs1, h2)" by (cases "build_list js h1")
  from "9.prems"(1) b1 b2 have v: "vs = v1 # vs1" "h' = h2" by simp_all
  obtain e1 where e1: "h1 = h @ e1" using build_extends(1) [OF b1] by blast
  obtain e2 where e2: "h2 = h1 @ e2" using build_extends(2) [OF b2] by blast
  note A = "9.IH"(1) [OF b1] and B = "9.IH"(2) [OF b1 [symmetric] refl b2]
  have le: "length h \<le> length h1" by (simp add: e1)
  have 1: "list_all (val_from (length h)) vs"
    using A B le by (auto simp: v list_all_iff intro: val_from_mono)
  have 2: "obj_from (length h) (h' ! c)" if c: "length h \<le> c" "c < length h'" for c
  proof (cases "c < length h1")
    case True
    then have "h' ! c = h1 ! c" by (simp add: v e2 nth_append)
    then show ?thesis using A c True by simp
  next
    case False
    then have "obj_from (length h1) (h' ! c)" using B c by (simp add: v)
    then show ?thesis using le by (rule obj_from_mono)
  qed
  show ?case using 1 2 by blast
next
  case (11 f fs h)
  obtain v1 h1 where b1: "build (snd f) h = (v1, h1)" by (cases "build (snd f) h")
  obtain vs1 h2 where b2: "build_fields fs h1 = (vs1, h2)" by (cases "build_fields fs h1")
  from "11.prems"(1) b1 b2 have v: "fvs = (fst f, v1) # vs1" "h' = h2" by simp_all
  obtain e1 where e1: "h1 = h @ e1" using build_extends(1) [OF b1] by blast
  obtain e2 where e2: "h2 = h1 @ e2" using build_extends(3) [OF b2] by blast
  note A = "11.IH"(1) [OF b1] and B = "11.IH"(2) [OF b1 [symmetric] refl b2]
  have le: "length h \<le> length h1" by (simp add: e1)
  have 1: "list_all (\<lambda>f. val_from (length h) (snd f)) fvs"
    using A B le by (auto simp: v list_all_iff intro: val_from_mono)
  have 2: "obj_from (length h) (h' ! c)" if c: "length h \<le> c" "c < length h'" for c
  proof (cases "c < length h1")
    case True
    then have "h' ! c = h1 ! c" by (simp add: v e2 nth_append)
    then show ?thesis using A c True by simp
  next
    case False
    then have "obj_from (length h1) (h' ! c)" using B c by (simp add: v)
    then show ?thesis using le by (rule obj_from_mono)
  qed
  show ?case using 1 2 by blast
qed (auto simp: val_from_def)

lemma export_of_object:
  assumes g: "s_games s gameId = Some ps" and p: "ps playerId = Some (VRef a)"
    and t: "deep (s_heap s) [] (VRef a) = Some t"
  shows "\<exists>v' ext. exportCharacter s gameId playerId = (Inr v', s\<lparr>s_heap := s_heap s @ ext\<rparr>)
      \<and> deep (s_heap s @ ext) [] v' = Some (serialize t)
      \<and> val_from (length (s_heap s)) v'
      \<and> (\<forall>c. length (s_heap s) \<le> c \<and> c < length (s_heap s @ ext)
             \<longrightarrow> obj_from (length (s_heap s)) ((s_heap s @ ext) ! c))"
proof -
  obtain v' h' where b: "build (serialize t) (s_heap s) = (v', h')"
    by (cases "build (serialize t) (s_heap s)")
  obtain ext where ext: "h' = s_heap s @ ext" using build_extends(1) [OF b] by blast
  have e: "exportCharacter s gameId playerId = (Inr v', s\<lparr>s_heap := s_heap s @ ext\<rparr>)"
    using g p t b by (simp add: exportCharacter_def JSON_stringify_def JSON_parse_def ext)
  have r: "deep (s_heap s @ ext) [] v' = Some (serialize t)"
    using build_roundtrip(1) [OF b, of "[]"] by (simp add: ext)
  from build_fresh(1) [OF b] e r show ?thesis unfolding ext by blast
qed

text \<open>
  C8, with equality up to the JSON encoding. For a player whose \<open>character\<close> is
  \<open>null\<close> or an object that \<open>JSON.stringify\<close> can walk (no cycle):
  \<open>exportCharacter\<close> returns \<open>null\<close> iff the game, the player or the character is
  absent. Otherwise it returns a reference to a new object whose tree is the stored
  character's tree as its JSON text holds it: with \<open>null\<close> for every \<open>NaN\<close>,
  \<open>Infinity\<close> and \<open>-Infinity\<close> and \<open>0\<close> for every \<open>-0\<close>, hence the same tree when
  the character holds none of these. The copy is detached: the call only appends cells to the
  heap, the returned reference and every reference inside the new cells point to new
  cells, and the stored character's tree is the same in every heap that agrees with the
  old one on the old addresses, so whatever is written to the cells of the copy.
\<close>

theorem exportCharacter_detached:
  assumes "s_games s gameId = None
     \<or> (\<exists>ps. s_games s gameId = Some ps
           \<and> (ps playerId = None \<or> ps playerId = Some VNull
               \<or> (\<exists>a t. ps playerId = Some (VRef a) \<and> deep (s_heap s) [] (VRef a) = Some t)))"
  shows "((fst (exportCharacter s gameId playerId) = Inr VNull)
           = (s_games s gameId = None
              \<or> (\<exists>ps. s_games s gameId = Some ps
                    \<and> (ps playerId = None \<or> ps playerId = Some VNull))))
    \<and> (\<forall>ps a t. s_games s gameId = Some ps \<and> ps playerId = Some (VRef a)
           \<and> deep (s_heap s) [] (VRef a) = Some t \<longrightarrow>
         (\<exists>v' ext. exportCharacter s gameId playerId = (Inr v', s\<lparr>s_heap := s_heap s @ ext\<rparr>)
            \<and> deep (s_heap s @ ext) [] v' = Some (serialize t)
            \<and> (serialize t = t \<longrightarrow> deep (s_heap s @ ext) [] v' = deep (s_heap s) [] (VRef a))
            \<and> val_from (length (s_heap s)) v'
            \<and> (\<forall>c. length (s_heap s) \<le> c \<and> c < length (s_heap s @ ext)
                   \<longrightarrow> obj_from (length (s_heap s)) ((s_heap s @ ext) ! c))
            \<and> (\<forall>h2. length (s_heap s) \<le> length h2 \<and> (\<forall>c < length (s_heap s). h2 ! c = s_heap s ! c)
                   \<longrightarrow> deep h2 [] (VRef a) = Some t)))"
proof -
  have 2: "\<exists>v' ext. exportCharacter s gameId playerId = (Inr v', s\<lparr>s_heap := s_heap s @ ext\<rparr>)
            \<and> deep (s_heap s @ ext) [] v' = Some (serialize t)
            \<and> (serialize t = t \<longrightarrow> deep (s_heap s @ ext) [] v' = deep (s_heap s) [] (VRef a))
            \<and> val_from (length (s_heap s)) v'
            \<and> (\<forall>c. length (s_heap s) \<le> c \<and> c < length (s_heap s @ ext)
                   \<longrightarrow> obj_from (length (s_heap s)) ((s_heap s @ ext) ! c))
            \<and> (\<forall>h2. length (s_heap s) \<le> length h2 \<and> (\<forall>c < length (s_heap s). h2 ! c = s_heap s ! c)
                   \<longrightarrow> deep h2 [] (VRef a) = Some t)"
    if h: "s_games s gameId = Some ps" "ps playerId = Some (VRef a)"
       "deep (s_heap s) [] (VRef a) = Some t" for ps a t
  proof -
    obtain v' ext where e: "exportCharacter s gameId playerId = (Inr v', s\<lparr>s_heap := s_heap s @ ext\<rparr>)"
      "deep (s_heap s @ ext) [] v' = Some (serialize t)" "val_from (length (s_heap s)) v'"
      "\<forall>c. length (s_heap s) \<le> c \<and> c < length (s_heap s @ ext)
             \<longrightarrow> obj_from (length (s_heap s)) ((s_heap s @ ext) ! c)"
      using export_of_object [OF h] by blast
    have st: "\<forall>h2. length (s_heap s) \<le> length h2 \<and> (\<forall>c < length (s_heap s). h2 ! c = s_heap s ! c)
                   \<longrightarrow> deep h2 [] (VRef a) = Some t"
      using deep_agree(1) [OF h(3)] by blast
    from e st h(3) show ?thesis by (intro exI [where x = v'] exI [where x = ext]) simp
  qed
  have 1: "(fst (exportCharacter s gameId playerId) = Inr VNull)
           = (s_games s gameId = None
              \<or> (\<exists>ps. s_games s gameId = Some ps
                    \<and> (ps playerId = None \<or> ps playerId = Some VNull)))"
  proof (cases "\<exists>ps a t. s_games s gameId = Some ps \<and> ps playerId = Some (VRef a)
           \<and> deep (s_heap s) [] (VRef a) = Some t")
    case True
    then obtain ps a t where h: "s_games s gameId = Some ps" "ps playerId = Some (VRef a)"
       "deep (s_heap s) [] (VRef a) = Some t" by blast
    from 2 [OF h] obtain v' ext where
      e: "exportCharacter s gameId playerId = (Inr v', s\<lparr>s_heap := s_heap s @ ext\<rparr>)"
      and v: "val_from (length (s_heap s)) v'" "deep (s_heap s @ ext) [] v' = Some (serialize t)"
      by blast
    have "v' \<noteq> VNull"
    proof
      assume "v' = VNull"
      with v(2) have "serialize t = JNull" by simp
      moreover have "\<exists>x. t = JObj x \<or> (\<exists>y. t = JArr y)"
        using h(3) by (auto split: if_splits jsobj.splits)
      ultimately show False by auto
    qed
    then show ?thesis using e h by auto
  next
    case False
    with assms show ?thesis
      by (auto simp: exportCharacter_def)
  qed
  from 1 2 show ?thesis by blast
qed


lemma vault_facts:
  "s_games vault ''g1'' = Some [''p1'' \<mapsto> VRef 1, ''p2'' \<mapsto> VRef 2, ''p3'' \<mapsto> VNull]"
  "s_heap vault = [Array [VStr ''potion''], Object [(''hp'', VNum 7), (''inventory'', VRef 0)],
                   Object [(''hp'', VNaN)]]"
  "deep (s_heap vault) [] (VRef 1)
     = Some (JObj [(''hp'', JNum 7), (''inventory'', JArr [JStr ''potion''])])"
  "deep (s_heap vault) [] (VRef 2) = Some (JObj [(''hp'', JNaN)])"
  by (simp_all add: vault_def)

theorem exportCharacter_detached_witness:
  "s_games vault ''g1'' = Some [''p1'' \<mapsto> VRef 1, ''p2'' \<mapsto> VRef 2, ''p3'' \<mapsto> VNull]
   \<and> deep (s_heap vault) [] (VRef 1)
       = Some (JObj [(''hp'', JNum 7), (''inventory'', JArr [JStr ''potion''])])
   \<and> serialize (JObj [(''hp'', JNum 7), (''inventory'', JArr [JStr ''potion''])])
       = JObj [(''hp'', JNum 7), (''inventory'', JArr [JStr ''potion''])]
   \<and> exportCharacter vault ''g1'' ''p1''
       = (Inr (VRef 4),
          vault\<lparr>s_heap := s_heap vault @ [Array [VStr ''potion''],
                                          Object [(''hp'', VNum 7), (''inventory'', VRef 3)]]\<rparr>)
   \<and> deep (s_heap vault @ [Array [VStr ''potion''],
                           Object [(''hp'', VNum 7), (''inventory'', VRef 3)]]) [] (VRef 4)
       = deep (s_heap vault) [] (VRef 1)
   \<and> deep ((s_heap vault @ [Array [VStr ''potion''],
                           Object [(''hp'', VNum 7), (''inventory'', VRef 3)]])
              [3 := Array [], 4 := Object [(''hp'', VNum 0)]]) [] (VRef 1)
       = Some (JObj [(''hp'', JNum 7), (''inventory'', JArr [JStr ''potion''])])
   \<and> fst (exportCharacter vault ''g1'' ''p3'') = Inr VNull
   \<and> fst (exportCharacter vault ''g1'' ''p4'') = Inr VNull
   \<and> fst (exportCharacter vault ''g2'' ''p1'') = Inr VNull
   \<and> deep (s_heap crypt) [] (VRef 0) = Some (JObj [(''hp'', JPosInf), (''ac'', JNegZero)])
   \<and> exportCharacter crypt ''g1'' ''p1''
       = (Inr (VRef 1), crypt\<lparr>s_heap := s_heap crypt @ [Object [(''hp'', VNull), (''ac'', VNum 0)]]\<rparr>)
   \<and> deep (s_heap crypt @ [Object [(''hp'', VNull), (''ac'', VNum 0)]]) [] (VRef 1)
       = Some (JObj [(''hp'', JNull), (''ac'', JNum 0)])"
proof -
  let ?t = "JObj [(''hp'', JNum 7), (''inventory'', JArr [JStr ''potion''])]"
  let ?ext = "[Array [VStr ''potion''], Object [(''hp'', VNum 7), (''inventory'', VRef 3)]]"
  let ?ps = "[''p1'' \<mapsto> VRef 1, ''p2'' \<mapsto> VRef 2, ''p3'' \<mapsto> VNull]"
  have e: "exportCharacter vault ''g1'' ''p1''
       = (Inr (VRef 4), vault\<lparr>s_heap := s_heap vault @ ?ext\<rparr>)"
    by (simp add: vault_facts exportCharacter_def JSON_stringify_def JSON_parse_def)
  have p1: "?ps ''p1'' = Some (VRef 1)" "?ps ''p3'' = Some VNull" "?ps ''p4'' = None"
    by simp_all
  have hyp1: "s_games vault ''g1'' = None
     \<or> (\<exists>ps. s_games vault ''g1'' = Some ps
           \<and> (ps ''p1'' = None \<or> ps ''p1'' = Some VNull
               \<or> (\<exists>a t. ps ''p1'' = Some (VRef a) \<and> deep (s_heap vault) [] (VRef a) = Some t)))"
    using vault_facts(1,3) p1 by blast
  have hyp3: "s_games vault ''g1'' = None
     \<or> (\<exists>ps. s_games vault ''g1'' = Some ps
           \<and> (ps ''p3'' = None \<or> ps ''p3'' = Some VNull
               \<or> (\<exists>a t. ps ''p3'' = Some (VRef a) \<and> deep (s_heap vault) [] (VRef a) = Some t)))"
    using vault_facts(1) p1 by blast
  have hyp4: "s_games vault ''g1'' = None
     \<or> (\<exists>ps. s_games vault ''g1'' = Some ps
           \<and> (ps ''p4'' = None \<or> ps ''p4'' = Some VNull
               \<or> (\<exists>a t. ps ''p4'' = Some (VRef a) \<and> deep (s_heap vault) [] (VRef a) = Some t)))"
    using vault_facts(1) p1 by blast
  have hyp2: "s_games vault ''g2'' = None
     \<or> (\<exists>ps. s_games vault ''g2'' = Some ps
           \<and> (ps ''p1'' = None \<or> ps ''p1'' = Some VNull
               \<or> (\<exists>a t. ps ''p1'' = Some (VRef a) \<and> deep (s_heap vault) [] (VRef a) = Some t)))"
    by (simp add: vault_def)
  note T = exportCharacter_detached [OF hyp1]
  from T vault_facts(1,3) p1(1) obtain v' ext where
    x: "exportCharacter vault ''g1'' ''p1'' = (Inr v', vault\<lparr>s_heap := s_heap vault @ ext\<rparr>)"
       "serialize ?t = ?t \<longrightarrow> deep (s_heap vault @ ext) [] v' = deep (s_heap vault) [] (VRef 1)"
       "\<forall>h2. length (s_heap vault) \<le> length h2 \<and> (\<forall>c < length (s_heap vault). h2 ! c = s_heap vault ! c)
                   \<longrightarrow> deep h2 [] (VRef 1) = Some ?t"
    by blast
  have dn: "serialize ?t = ?t" by simp
  have v': "v' = VRef 4" using x(1) e by simp
  have "s_heap (vault\<lparr>s_heap := s_heap vault @ ext\<rparr>) = s_heap (vault\<lparr>s_heap := s_heap vault @ ?ext\<rparr>)"
    using x(1) e by simp
  then have ext: "ext = ?ext" by simp
  have c: "deep (s_heap vault @ ?ext) [] (VRef 4) = deep (s_heap vault) [] (VRef 1)"
    using x(2) dn v' ext by simp
  have "length (s_heap vault) \<le> length ((s_heap vault @ ?ext)[3 := Array [], 4 := Object [(''hp'', VNum 0)]])
     \<and> (\<forall>c < length (s_heap vault).
           ((s_heap vault @ ?ext)[3 := Array [], 4 := Object [(''hp'', VNum 0)]]) ! c = s_heap vault ! c)"
    by (simp add: vault_facts(2) All_less_Suc)
  with x(3) have m: "deep ((s_heap vault @ ?ext)[3 := Array [], 4 := Object [(''hp'', VNum 0)]]) []
      (VRef 1) = Some ?t" by blast
  have n3: "fst (exportCharacter vault ''g1'' ''p3'') = Inr VNull"
    using exportCharacter_detached [OF hyp3] vault_facts(1) p1 by blast
  have n4: "fst (exportCharacter vault ''g1'' ''p4'') = Inr VNull"
    using exportCharacter_detached [OF hyp4] vault_facts(1) p1 by blast
  have n2: "fst (exportCharacter vault ''g2'' ''p1'') = Inr VNull"
    using exportCharacter_detached [OF hyp2] by (simp add: vault_def)
  let ?tc = "JObj [(''hp'', JPosInf), (''ac'', JNegZero)]"
  let ?extc = "[Object [(''hp'', VNull), (''ac'', VNum 0)]]"
  have cf: "s_games crypt ''g1'' = Some [''p1'' \<mapsto> VRef 0]"
    "deep (s_heap crypt) [] (VRef 0) = Some ?tc"
    by (simp_all add: crypt_def)
  have pc: "[''p1'' \<mapsto> VRef 0] ''p1'' = Some (VRef 0)" by simp
  have hypc: "s_games crypt ''g1'' = None
     \<or> (\<exists>ps. s_games crypt ''g1'' = Some ps
           \<and> (ps ''p1'' = None \<or> ps ''p1'' = Some VNull
               \<or> (\<exists>a t. ps ''p1'' = Some (VRef a) \<and> deep (s_heap crypt) [] (VRef a) = Some t)))"
    using cf pc by blast
  have ec: "exportCharacter crypt ''g1'' ''p1''
       = (Inr (VRef 1), crypt\<lparr>s_heap := s_heap crypt @ ?extc\<rparr>)"
    by (simp add: crypt_def exportCharacter_def JSON_stringify_def JSON_parse_def)
  from exportCharacter_detached [OF hypc] cf pc obtain v2 ext2 where
    y: "exportCharacter crypt ''g1'' ''p1'' = (Inr v2, crypt\<lparr>s_heap := s_heap crypt @ ext2\<rparr>)"
       "deep (s_heap crypt @ ext2) [] v2 = Some (serialize ?tc)"
    by blast
  have v2: "v2 = VRef 1" using y(1) ec by simp
  have "s_heap (crypt\<lparr>s_heap := s_heap crypt @ ext2\<rparr>) = s_heap (crypt\<lparr>s_heap := s_heap crypt @ ?extc\<rparr>)"
    using y(1) ec by simp
  then have ext2: "ext2 = ?extc" by simp
  have dc: "deep (s_heap crypt @ ?extc) [] (VRef 1) = Some (JObj [(''hp'', JNull), (''ac'', JNum 0)])"
    using y(2) v2 ext2 by simp
  from vault_facts(1,3) dn e c m n3 n4 n2 cf(2) ec dc show ?thesis by blast
qed

text \<open>
  C8 as stated fails where the stored character holds a \<open>NaN\<close> (the hit points a
  damage spell leaves on a character that had none): the exported copy has \<open>hp: null\<close>,
  the stored character \<open>hp: NaN\<close>.
\<close>

theorem exportCharacter_NaN_becomes_null:
  "deep (s_heap vault) [] (VRef 2) = Some (JObj [(''hp'', JNaN)])
   \<and> exportCharacter vault ''g1'' ''p2''
       = (Inr (VRef 3), vault\<lparr>s_heap := s_heap vault @ [Object [(''hp'', VNull)]]\<rparr>)
   \<and> deep (s_heap vault @ [Object [(''hp'', VNull)]]) [] (VRef 3) = Some (JObj [(''hp'', JNull)])"
  by (simp add: vault_facts exportCharacter_def JSON_stringify_def JSON_parse_def)

end
